theory Spec2Isabelle
  imports Complex_Main "HOL-Library.Word"
begin

section \<open>The 3MF codec of libslic3r (Format/3mf.cpp)\<close>

text \<open>
  A shallow embedding of the reader (\<open>_3MF_Importer\<close>) and the writer
  (\<open>_3MF_Exporter\<close>) of \<^verbatim>\<open>src/libslic3r/Format/3mf.cpp\<close>.

  Conventions of the embedding.
  \<^item> A C++ \<open>int\<close> is an \<open>int\<close> (signed overflow is undefined behaviour in C++ and
    is not produced by the functions below); an \<open>unsigned int\<close> is a \<open>32 word\<close>, so
    that the conversions \<open>(unsigned int)atoi(..)\<close> and the unsigned arithmetic wrap as
    the machine does.
  \<^item> \<open>float\<close> and \<open>double\<close> values are real numbers: rounding is not modelled.
    The C library's \<open>atof\<close> is a parameter of every function that calls it.
  \<^item> A \<open>std::map\<close> is an association list kept sorted by key, with at most one
    entry per key; iteration follows the list.
  \<^item> Pointers into the scene (\<open>ModelObject*\<close>, \<open>ModelInstance*\<close>) are
    addresses: each object of the scene carries a unique natural number.
  \<^item> A member function that mutates the reader takes the reader's state and returns
    the new one. A C++ exception and undefined behaviour (an out-of-range read of a
    \<open>std::vector\<close>) are results of their own, see \<open>outcome\<close>.
  \<^item> Names follow the source without the leading underscore, which an Isabelle name
    cannot start with.
\<close>

subsection \<open>C library and boost helpers\<close>

definition isspace :: "char \<Rightarrow> bool" where
  "isspace c = (let n = (of_char c :: nat) in n = 32 \<or> (9 \<le> n \<and> n \<le> 13))"

definition isdigit :: "char \<Rightarrow> bool" where
  "isdigit c = (let n = (of_char c :: nat) in 48 \<le> n \<and> n \<le> 57)"

fun atoi_digits :: "int \<Rightarrow> string \<Rightarrow> int" where
  "atoi_digits acc [] = acc"
| "atoi_digits acc (c # cs) =
     (if isdigit c then atoi_digits (10 * acc + (of_char c - 48)) cs else acc)"

text \<open>\<open>atoi\<close>: white space, an optional sign, then decimal digits; 0 when there is no digit.
  The digits are read as an unbounded integer: the C standard leaves \<open>atoi\<close> undefined
  for a text whose value is outside the range of \<open>int\<close> (glibc saturates at the range
  of \<open>long\<close> and keeps the low 32 bits), and what is said below of numbers read by
  \<open>atoi\<close> is said of texts within that range.\<close>

definition atoi :: "string \<Rightarrow> int" where
  "atoi s =
     (case dropWhile isspace s of
        [] \<Rightarrow> 0
      | c # cs \<Rightarrow>
          if c = CHR ''-'' then - atoi_digits 0 cs
          else if c = CHR ''+'' then atoi_digits 0 cs
          else atoi_digits 0 (c # cs))"

text \<open>\<open>boost::split(result, input, boost::is_any_of(d), boost::token_compress_off)\<close>
  for a one-character separator set: every separator ends a token, so an input with
  \<open>n\<close> separators gives \<open>n + 1\<close> tokens (the empty input gives one empty token).\<close>

fun boost_split :: "char \<Rightarrow> string \<Rightarrow> string list" where
  "boost_split d [] = [[]]"
| "boost_split d (c # cs) =
     (if c = d then [] # boost_split d cs
      else (case boost_split d cs of
              [] \<Rightarrow> [[c]]
            | t # ts \<Rightarrow> (c # t) # ts))"

text \<open>With \<open>boost::token_compress_on\<close> a run of adjacent separators counts as one.\<close>

fun compress_adjacent :: "char \<Rightarrow> string \<Rightarrow> string" where
  "compress_adjacent d (a # b # cs) =
     (if a = d \<and> b = d then compress_adjacent d (b # cs)
      else a # compress_adjacent d (b # cs))"
| "compress_adjacent d cs = cs"

definition boost_split_compress :: "char \<Rightarrow> string \<Rightarrow> string list" where
  "boost_split_compress d s = boost_split d (compress_adjacent d s)"





subsection \<open>Constants\<close>

definition VERSION_3MF :: "32 word" where
  "VERSION_3MF = 2"

definition SLIC3RPE_3MF_VERSION :: string where
  "SLIC3RPE_3MF_VERSION = ''slic3rpe:Version3mf''"



definition MATRIX_KEY :: string where
  "MATRIX_KEY = ''matrix''"

subsection \<open>Attributes of an XML element\<close>

type_synonym attributes = "(string \<times> string) list"

fun get_attribute_value_charptr :: "attributes \<Rightarrow> string \<Rightarrow> string option" where
  "get_attribute_value_charptr [] attribute_key = None"
| "get_attribute_value_charptr ((k, v) # rest) attribute_key =
     (if k = attribute_key then Some v else get_attribute_value_charptr rest attribute_key)"

definition get_attribute_value_string :: "attributes \<Rightarrow> string \<Rightarrow> string" where
  "get_attribute_value_string attrs attribute_key =
     (case get_attribute_value_charptr attrs attribute_key of None \<Rightarrow> [] | Some t \<Rightarrow> t)"

definition get_attribute_value_float :: "(string \<Rightarrow> real) \<Rightarrow> attributes \<Rightarrow> string \<Rightarrow> real" where
  "get_attribute_value_float atof attrs attribute_key =
     (case get_attribute_value_charptr attrs attribute_key of None \<Rightarrow> 0 | Some t \<Rightarrow> atof t)"

definition get_attribute_value_int :: "attributes \<Rightarrow> string \<Rightarrow> int" where
  "get_attribute_value_int attrs attribute_key =
     (case get_attribute_value_charptr attrs attribute_key of None \<Rightarrow> 0 | Some t \<Rightarrow> atoi t)"

definition get_attribute_value_bool :: "attributes \<Rightarrow> string \<Rightarrow> bool" where
  "get_attribute_value_bool attrs attribute_key =
     (case get_attribute_value_charptr attrs attribute_key of
        None \<Rightarrow> True
      | Some t \<Rightarrow> atoi t \<noteq> 0)"

subsection \<open>Transforms and units\<close>

text \<open>\<open>Transform3d\<close> is Eigen's affine transform of doubles, a 4x4 matrix; it is
  a list of four rows here, and \<open>coeff m r c\<close> is the source's \<open>m(r, c)\<close>.\<close>

type_synonym Transform3d = "real list list"

definition Identity :: Transform3d where
  "Identity = [[1, 0, 0, 0], [0, 1, 0, 0], [0, 0, 1, 0], [0, 0, 0, 1]]"

definition coeff :: "Transform3d \<Rightarrow> nat \<Rightarrow> nat \<Rightarrow> real" where
  "coeff m r c = m ! r ! c"

definition set_coeff :: "Transform3d \<Rightarrow> nat \<Rightarrow> nat \<Rightarrow> real \<Rightarrow> Transform3d" where
  "set_coeff m r c v = m[r := (m ! r)[c := v]]"

text \<open>The product of two affine transforms, as Eigen computes it: the 3x3 linear
  parts are multiplied, the translation is \<open>linear a * translation b + translation a\<close>,
  and the last row is \<open>0 0 0 1\<close>.\<close>

definition transform_mul :: "Transform3d \<Rightarrow> Transform3d \<Rightarrow> Transform3d" where
  "transform_mul a b =
     map (\<lambda>r. map (\<lambda>c. (\<Sum>k \<leftarrow> [0..<3]. coeff a r k * coeff b k c)
                         + (if c = 3 then coeff a r 3 else 0)) [0..<4]) [0..<3]
     @ [[0, 0, 0, 1]]"

text \<open>The two nested loops of the source run over the columns \<open>c\<close> and, inside, the
  rows \<open>r\<close>, reading the tokens in order through the counter \<open>i\<close>.\<close>

definition get_transform_from_3mf_specs_string :: "(string \<Rightarrow> real) \<Rightarrow> string \<Rightarrow> Transform3d" where
  "get_transform_from_3mf_specs_string atof mat_str =
     (if mat_str = [] then Identity
      else
        let mat_elements_str = boost_split_compress CHR '' '' mat_str;
            size = (of_nat (length mat_elements_str) :: 32 word)
        in if size \<noteq> 12 then Identity
           else fst (foldl (\<lambda>(ret, i) c.
                        foldl (\<lambda>(ret, i) r. (set_coeff ret r c (atof (mat_elements_str ! i)), i + 1))
                          (ret, i) [0..<3])
                      (Identity, 0) [0..<4]))"

definition get_unit_factor :: "string \<Rightarrow> real" where
  "get_unit_factor unit =
     (if unit = ''micron'' then 0.001
      else if unit = ''centimeter'' then 10.0
      else if unit = ''inch'' then 25.4
      else if unit = ''foot'' then 304.8
      else if unit = ''meter'' then 1000.0
      else 1.0)"

definition is_valid_object_type :: "string \<Rightarrow> bool" where
  "is_valid_object_type type = (if type = [] then True else type = ''model'')"


fun to_string :: "nat \<Rightarrow> string" where
  "to_string n =
     (if n < 10 then [char_of (48 + n)] else to_string (n div 10) @ [char_of (48 + n mod 10)])"

declare to_string.simps [simp del]

subsection \<open>Results of a member function\<close>

text \<open>The dynamic type of a thrown exception: the file's own \<open>version_error\<close> (derived
  from \<open>std::runtime_error\<close>), a plain \<open>std::runtime_error\<close>, or another class
  derived from \<open>std::exception\<close>; each carries the text \<open>what()\<close> returns. A
  handler \<open>catch (const version_error&)\<close> catches the first only,
  \<open>catch (std::exception&)\<close> all three.\<close>

datatype exn = version_error string | runtime_error string | std_exception string


text \<open>A call returns a value, or leaves by an exception, or has undefined behaviour;
  in the first two cases the object it ran on has a new state.\<close>

datatype ('a, 's) outcome = Returns 'a 's | Throws exn 's | Undefined

subsection \<open>\<open>std::map\<close>\<close>

definition map_find :: "('k \<times> 'v) list \<Rightarrow> 'k \<Rightarrow> 'v option" where
  "map_find m k = map_of m k"

text \<open>\<open>std::map::insert\<close> leaves the map as it is when the key is present.\<close>

definition map_insert :: "'k::linorder \<Rightarrow> 'v \<Rightarrow> ('k \<times> 'v) list \<Rightarrow> ('k \<times> 'v) list" where
  "map_insert k v m = (if map_of m k = None then insort_key fst (k, v) m else m)"

definition map_erase :: "'k \<Rightarrow> ('k \<times> 'v) list \<Rightarrow> ('k \<times> 'v) list" where
  "map_erase k m = filter (\<lambda>kv. fst kv \<noteq> k) m"

text \<open>A write through an iterator \<open>it->second\<close>.\<close>

definition map_modify :: "'k \<Rightarrow> ('v \<Rightarrow> 'v) \<Rightarrow> ('k \<times> 'v) list \<Rightarrow> ('k \<times> 'v) list" where
  "map_modify k f m = map (\<lambda>kv. if fst kv = k then (fst kv, f (snd kv)) else kv) m"

subsection \<open>The scene (\<open>Model\<close>, \<open>ModelObject\<close>, \<open>ModelVolume\<close>, \<open>ModelInstance\<close>)\<close>

text \<open>The scene classes are declared in \<^verbatim>\<open>Model.hpp\<close>; the records hold the members
  the codec reads and writes. A \<open>DynamicPrintConfig\<close> is a list of keys with their
  serialized values.\<close>

type_synonym DynamicPrintConfig = "(string \<times> string) list"

type_synonym Vec3 = "real \<times> real \<times> real"

datatype ModelVolumeType =
  INVALID | MODEL_PART | PARAMETER_MODIFIER | SUPPORT_ENFORCER | SUPPORT_BLOCKER

record TriangleMesh =
  repaired :: bool
  has_shared_vertices :: bool
  original_num_facets :: int
  number_of_facets :: "32 word"
  facet_start :: "(Vec3 \<times> Vec3 \<times> Vec3) list"
  its_vertices :: "Vec3 list"
  its_indices :: "(nat \<times> nat \<times> nat) list"

record Source =
  input_file :: string
  object_idx :: int
  volume_idx :: int
  mesh_offset :: Vec3

record ModelVolume =
  mv_name :: string
  mv_type :: ModelVolumeType
  mv_source :: Source
  mv_config :: DynamicPrintConfig
  mv_mesh :: TriangleMesh
  mv_matrix :: Transform3d
  convex_hull_calculated :: bool

record ModelInstance =
  printable :: bool
  mi_matrix :: Transform3d

type_synonym SupportPoint = "real \<times> real \<times> real \<times> real \<times> bool"

type_synonym t_layer_config_ranges = "((real \<times> real) \<times> DynamicPrintConfig) list"

record ModelObject =
  mo_name :: string
  mo_config :: DynamicPrintConfig
  instances :: "ModelInstance list"
  volumes :: "ModelVolume list"
  layer_height_profile :: "real list"
  layer_config_ranges :: t_layer_config_ranges
  sla_support_points :: "SupportPoint list"
  sla_points_user_modified :: bool

text \<open>\<open>Model::objects\<close> is a vector of pointers: each entry is the address of the
  object and the object stored there. \<open>next_ptr\<close> is the first unused address.\<close>

record Model =
  objects :: "(nat \<times> ModelObject) list"
  next_ptr :: nat

definition new_ModelObject :: ModelObject where
  "new_ModelObject =
     \<lparr>mo_name = [], mo_config = [], instances = [], volumes = [], layer_height_profile = [],
      layer_config_ranges = [], sla_support_points = [], sla_points_user_modified = False\<rparr>"

definition add_object :: "Model \<Rightarrow> nat \<times> Model" where
  "add_object m =
     (next_ptr m,
      m\<lparr>objects := objects m @ [(next_ptr m, new_ModelObject)], next_ptr := next_ptr m + 1\<rparr>)"

fun remove_ptr :: "nat \<Rightarrow> (nat \<times> ModelObject) list \<Rightarrow> (nat \<times> ModelObject) list" where
  "remove_ptr p [] = []"
| "remove_ptr p (e # es) = (if fst e = p then es else e # remove_ptr p es)"

definition delete_object :: "Model \<Rightarrow> nat \<Rightarrow> Model" where
  "delete_object m p = m\<lparr>objects := remove_ptr p (objects m)\<rparr>"

definition modify_object :: "Model \<Rightarrow> nat \<Rightarrow> (ModelObject \<Rightarrow> ModelObject) \<Rightarrow> Model" where
  "modify_object m p f = m\<lparr>objects := map_modify p f (objects m)\<rparr>"

definition add_instance :: "ModelObject \<Rightarrow> ModelObject" where
  "add_instance obj = obj\<lparr>instances := instances obj @ [\<lparr>printable = True, mi_matrix = Identity\<rparr>]\<rparr>"

subsection \<open>The reader: \<open>_3MF_Importer\<close>\<close>

record Component =
  comp_object_id :: int
  comp_transform :: Transform3d

record Geometry =
  vertices :: "real list"
  triangles :: "32 word list"

definition geometry_empty :: "Geometry \<Rightarrow> bool" where
  "geometry_empty g = (vertices g = [] \<or> triangles g = [])"

definition geometry_reset :: Geometry where
  "geometry_reset = \<lparr>vertices = [], triangles = []\<rparr>"

record CurrentObject =
  co_id :: int
  model_object_idx :: int
  geometry :: Geometry
  object_ptr :: "nat option"
  components :: "Component list"

definition CurrentObject_reset :: CurrentObject where
  "CurrentObject_reset =
     \<lparr>co_id = - 1, model_object_idx = - 1, geometry = geometry_reset, object_ptr = None,
      components = []\<rparr>"

record CurrentConfig =
  cfg_object_id :: int
  cfg_volume_id :: int

text \<open>An \<open>Instance\<close> holds a \<open>ModelInstance*\<close>: the address of the object and the
  position of the instance in the object's \<open>instances\<close>.\<close>

record Instance =
  inst_ptr :: "nat \<times> nat"
  inst_transform :: Transform3d

record Metadata =
  md_key :: string
  md_value :: string

record VolumeMetadata =
  first_triangle_id :: "32 word"
  last_triangle_id :: "32 word"
  vm_metadata :: "Metadata list"

record ObjectMetadata =
  om_metadata :: "Metadata list"
  om_volumes :: "VolumeMetadata list"

record Importer =
  m_version :: "32 word"
  m_check_version :: bool
  m_model :: Model
  m_unit_factor :: real
  m_curr_object :: CurrentObject
  m_objects :: "(int \<times> int) list"
  m_objects_aliases :: "(int \<times> Component list) list"
  m_instances :: "Instance list"
  m_geometries :: "(int \<times> Geometry) list"
  m_curr_config :: CurrentConfig
  m_objects_metadata :: "(int \<times> ObjectMetadata) list"
  m_layer_heights_profiles :: "(int \<times> real list) list"
  m_layer_config_ranges :: "(int \<times> t_layer_config_ranges) list"
  m_sla_support_points :: "(int \<times> SupportPoint list) list"
  m_curr_metadata_name :: string
  m_curr_characters :: string
  m_name :: string
  m_errors :: "string list"

definition add_error :: "Importer \<Rightarrow> string \<Rightarrow> Importer" where
  "add_error s error = s\<lparr>m_errors := m_errors s @ [error]\<rparr>"


subsubsection \<open>Handlers of the geometry part (\<open>3D/3dmodel.model\<close>)\<close>

definition handle_start_model :: "Importer \<Rightarrow> attributes \<Rightarrow> bool \<times> Importer" where
  "handle_start_model s attrs =
     (True, s\<lparr>m_unit_factor := get_unit_factor (get_attribute_value_string attrs ''unit'')\<rparr>)"

text \<open>Modelled from the spec: \<open>Slic3r::Geometry::Transformation\<close> (Geometry.hpp) is not
  in the sources. The spec (4.4) says that a transform with a zero scale-factor component
  is rejected and that any other is installed on the instance; the scale factors of a
  transform are the lengths of the three columns of its linear part.\<close>

definition scaling_factor_all :: "Transform3d \<Rightarrow> bool" where
  "scaling_factor_all t = list_all (\<lambda>c. \<exists>r \<in> set [0..<3]. coeff t r c \<noteq> 0) [0..<3]"

definition apply_transform :: "ModelInstance \<Rightarrow> Transform3d \<Rightarrow> ModelInstance" where
  "apply_transform inst t = (if \<not> scaling_factor_all t then inst else inst\<lparr>mi_matrix := t\<rparr>)"

text \<open>First loop of \<open>_handle_end_model\<close>: \<open>m_model->objects[object.second]\<close> is an
  unchecked read of the vector; an object without instances is deleted, which moves
  the later entries of the vector down.\<close>

fun delete_non_instanced :: "Model \<Rightarrow> (int \<times> int) list \<Rightarrow> Model option" where
  "delete_non_instanced m [] = Some m"
| "delete_non_instanced m ((object_id, idx) # rest) =
     (if idx < 0 \<or> length (objects m) \<le> nat idx then None
      else let (p, model_object) = objects m ! nat idx
           in delete_non_instanced
                (if instances model_object = [] then delete_object m p else m) rest)"

text \<open>Second loop: the instance behind each pointer of \<open>m_instances\<close> receives its
  transform; a pointer to an instance of a deleted object cannot be followed.\<close>

fun apply_instances :: "Model \<Rightarrow> Instance list \<Rightarrow> Model option" where
  "apply_instances m [] = Some m"
| "apply_instances m (i # rest) =
     (case map_of (objects m) (fst (inst_ptr i)) of
        None \<Rightarrow> None
      | Some obj \<Rightarrow>
          if length (instances obj) \<le> snd (inst_ptr i) then None
          else apply_instances
                 (modify_object m (fst (inst_ptr i))
                    (\<lambda>obj. obj\<lparr>instances := (instances obj)
                       [snd (inst_ptr i) :=
                          apply_transform (instances obj ! snd (inst_ptr i)) (inst_transform i)]\<rparr>))
                 rest)"

definition handle_end_model :: "Importer \<Rightarrow> (bool, Importer) outcome" where
  "handle_end_model s =
     (case delete_non_instanced (m_model s) (m_objects s) of
        None \<Rightarrow> Undefined
      | Some m \<Rightarrow>
          (case apply_instances m (m_instances s) of
             None \<Rightarrow> Undefined
           | Some m' \<Rightarrow> Returns True (s\<lparr>m_model := m'\<rparr>)))"

text \<open>\<open>Model::add_object\<close> never returns a null pointer, so the branch that reports
  "Unable to create object" is not reachable and is left out.\<close>

definition handle_start_object :: "Importer \<Rightarrow> attributes \<Rightarrow> bool \<times> Importer" where
  "handle_start_object s0 attrs =
     (let s = s0\<lparr>m_curr_object := CurrentObject_reset\<rparr>
      in if is_valid_object_type (get_attribute_value_string attrs ''type'') then
           let idx = int (length (objects (m_model s)));
               (p, m) = add_object (m_model s);
               name = get_attribute_value_string attrs ''name'';
               name' = (if name = [] then m_name s @ ''_'' @ to_string (length (objects m))
                        else name);
               m' = modify_object m p (\<lambda>obj. obj\<lparr>mo_name := name'\<rparr>)
           in (True,
               s\<lparr>m_model := m',
                 m_curr_object := (m_curr_object s)
                   \<lparr>model_object_idx := idx, object_ptr := Some p,
                    co_id := get_attribute_value_int attrs ''id''\<rparr>\<rparr>)
         else (True, s))"

text \<open>\<open>std::move(m_curr_object.geometry)\<close> leaves the vectors of the current object
  empty.\<close>

definition handle_end_object :: "Importer \<Rightarrow> bool \<times> Importer" where
  "handle_end_object s =
     (let cur = m_curr_object s in
      case object_ptr cur of
        None \<Rightarrow> (True, s)
      | Some p \<Rightarrow>
          if geometry_empty (geometry cur) then
            let s1 = s\<lparr>m_model := delete_object (m_model s) p\<rparr>
            in if components cur = [] then
                 (True, s1\<lparr>m_objects := map_erase (co_id cur) (m_objects s1),
                           m_objects_aliases := map_erase (co_id cur) (m_objects_aliases s1)\<rparr>)
               else
                 (True, s1\<lparr>m_objects_aliases :=
                             map_insert (co_id cur) (components cur) (m_objects_aliases s1)\<rparr>)
          else
            let s1 = s\<lparr>m_geometries := map_insert (co_id cur) (geometry cur) (m_geometries s),
                       m_curr_object := cur\<lparr>geometry := geometry_reset\<rparr>\<rparr>
            in if map_find (m_objects s1) (co_id cur) = None then
                 (True, s1\<lparr>m_objects := map_insert (co_id cur) (model_object_idx cur) (m_objects s1),
                           m_objects_aliases :=
                             map_insert (co_id cur)
                               [\<lparr>comp_object_id = co_id cur, comp_transform = Identity\<rparr>]
                               (m_objects_aliases s1)\<rparr>)
               else (False, add_error s1 ''Found object with duplicate id''))"

definition handle_start_mesh :: "Importer \<Rightarrow> attributes \<Rightarrow> bool \<times> Importer" where
  "handle_start_mesh s attrs =
     (True, s\<lparr>m_curr_object := (m_curr_object s)\<lparr>geometry := geometry_reset\<rparr>\<rparr>)"

definition handle_start_vertices :: "Importer \<Rightarrow> attributes \<Rightarrow> bool \<times> Importer" where
  "handle_start_vertices s attrs =
     (True, s\<lparr>m_curr_object := (m_curr_object s)
                \<lparr>geometry := (geometry (m_curr_object s))\<lparr>vertices := []\<rparr>\<rparr>\<rparr>)"

definition handle_start_vertex :: "(string \<Rightarrow> real) \<Rightarrow> Importer \<Rightarrow> attributes \<Rightarrow> bool \<times> Importer" where
  "handle_start_vertex atof s attrs =
     (True, s\<lparr>m_curr_object := (m_curr_object s)
                \<lparr>geometry := (geometry (m_curr_object s))
                   \<lparr>vertices := vertices (geometry (m_curr_object s))
                      @ [m_unit_factor s * get_attribute_value_float atof attrs ''x'',
                         m_unit_factor s * get_attribute_value_float atof attrs ''y'',
                         m_unit_factor s * get_attribute_value_float atof attrs ''z'']\<rparr>\<rparr>\<rparr>)"

definition handle_start_triangles :: "Importer \<Rightarrow> attributes \<Rightarrow> bool \<times> Importer" where
  "handle_start_triangles s attrs =
     (True, s\<lparr>m_curr_object := (m_curr_object s)
                \<lparr>geometry := (geometry (m_curr_object s))\<lparr>triangles := []\<rparr>\<rparr>\<rparr>)"

definition handle_start_triangle :: "Importer \<Rightarrow> attributes \<Rightarrow> bool \<times> Importer" where
  "handle_start_triangle s attrs =
     (True, s\<lparr>m_curr_object := (m_curr_object s)
                \<lparr>geometry := (geometry (m_curr_object s))
                   \<lparr>triangles := triangles (geometry (m_curr_object s))
                      @ [word_of_int (get_attribute_value_int attrs ''v1''),
                         word_of_int (get_attribute_value_int attrs ''v2''),
                         word_of_int (get_attribute_value_int attrs ''v3'')]\<rparr>\<rparr>\<rparr>)"

definition handle_start_components :: "Importer \<Rightarrow> attributes \<Rightarrow> bool \<times> Importer" where
  "handle_start_components s attrs =
     (True, s\<lparr>m_curr_object := (m_curr_object s)\<lparr>components := []\<rparr>\<rparr>)"

definition handle_start_component :: "(string \<Rightarrow> real) \<Rightarrow> Importer \<Rightarrow> attributes \<Rightarrow> bool \<times> Importer" where
  "handle_start_component atof s attrs =
     (let object_id = get_attribute_value_int attrs ''objectid'';
          transform = get_transform_from_3mf_specs_string atof
                        (get_attribute_value_string attrs ''transform'')
      in if map_find (m_objects s) object_id = None
            \<and> map_find (m_objects_aliases s) object_id = None
         then (False, add_error s ''Found component with invalid object id'')
         else (True, s\<lparr>m_curr_object := (m_curr_object s)
                         \<lparr>components := components (m_curr_object s)
                            @ [\<lparr>comp_object_id = object_id, comp_transform = transform\<rparr>]\<rparr>\<rparr>))"

definition handle_start_metadata :: "Importer \<Rightarrow> attributes \<Rightarrow> bool \<times> Importer" where
  "handle_start_metadata s attrs =
     (let s1 = s\<lparr>m_curr_characters := []\<rparr>;
          name = get_attribute_value_string attrs ''name''
      in (True, if name \<noteq> [] then s1\<lparr>m_curr_metadata_name := name\<rparr> else s1))"


definition handle_end_metadata :: "string \<Rightarrow> Importer \<Rightarrow> (bool, Importer) outcome" where
  "handle_end_metadata msg s =
     (if m_curr_metadata_name s = SLIC3RPE_3MF_VERSION then
        let s1 = s\<lparr>m_version := word_of_int (atoi (m_curr_characters s))\<rparr>
        in if m_check_version s1 \<and> m_version s1 > VERSION_3MF
           then Throws (version_error msg) s1
           else Returns True s1
      else Returns True s)"

subsubsection \<open>Alias expansion\<close>

text \<open>The loop over the components of an alias: it stops at the first component whose
  expansion fails.\<close>

fun for_each_component ::
  "('s \<Rightarrow> 'c \<Rightarrow> (bool, 's) outcome) \<Rightarrow> 's \<Rightarrow> 'c list \<Rightarrow> (bool, 's) outcome" where
  "for_each_component f s [] = Returns True s"
| "for_each_component f s (c # cs) =
     (case f s c of
        Returns res s' \<Rightarrow> if res then for_each_component f s' cs else Returns False s'
      | Throws x s' \<Rightarrow> Throws x s'
      | Undefined \<Rightarrow> Undefined)"

lemma for_each_component_cong [fundef_cong]:
  "s = s' \<Longrightarrow> cs = cs' \<Longrightarrow> (\<And>x c. c \<in> set cs' \<Longrightarrow> f x c = g x c)
   \<Longrightarrow> for_each_component f s cs = for_each_component g s' cs'"
proof (induction cs arbitrary: s s' cs')
  case Nil
  then show ?case by simp
next
  case (Cons c cs)
  then show ?case by (auto split: outcome.splits)
qed

text \<open>The leaf of the expansion: \<open>add_instance\<close> on the object at index \<open>idx\<close>
  of the scene (it never returns a null pointer), the \<open>printable\<close> flag of the new
  instance, and the entry of \<open>m_instances\<close> with the pointer to the instance and its
  transform.\<close>

definition attach_instance :: "Importer \<Rightarrow> nat \<Rightarrow> Transform3d \<Rightarrow> bool \<Rightarrow> Importer" where
  "attach_instance s idx transform printable' =
     (let (p, obj) = objects (m_model s) ! idx;
          k = length (instances obj);
          m = modify_object (m_model s) p
                (\<lambda>obj. let obj' = add_instance obj
                       in obj'\<lparr>instances := (instances obj')
                            [k := (instances obj' ! k)\<lparr>printable := printable'\<rparr>]\<rparr>)
      in s\<lparr>m_model := m,
           m_instances := m_instances s @ [\<lparr>inst_ptr = (p, k), inst_transform = transform\<rparr>]\<rparr>)"

text \<open>The read \<open>m_model->objects[object_item->second]\<close> is unchecked.\<close>

function create_object_instance ::
  "Importer \<Rightarrow> int \<Rightarrow> Transform3d \<Rightarrow> bool \<Rightarrow> nat \<Rightarrow> (bool, Importer) outcome" where
  "create_object_instance s object_id transform printable' recur_counter =
     (if recur_counter > 10 then Returns False (add_error s ''Too many recursions'')
      else
        case map_find (m_objects_aliases s) object_id of
          None \<Rightarrow> Returns False (add_error s ''Found item with invalid object id'')
        | Some aliases \<Rightarrow>
            if length aliases = 1 \<and> comp_object_id (aliases ! 0) = object_id then
              (case map_find (m_objects s) object_id of
                 None \<Rightarrow> Returns False (add_error s ''Found invalid object'')
               | Some idx \<Rightarrow>
                   if idx = - 1 then Returns False (add_error s ''Found invalid object'')
                   else if idx < 0 \<or> length (objects (m_model s)) \<le> nat idx then Undefined
                   else Returns True (attach_instance s (nat idx) transform printable'))
            else
              for_each_component
                (\<lambda>s component.
                   create_object_instance s (comp_object_id component)
                     (transform_mul transform (comp_transform component)) printable'
                     (recur_counter + 1))
                s aliases)"
  by pat_completeness auto
termination
  by (relation "measure (\<lambda>(s, object_id, transform, printable', recur_counter). 11 - recur_counter)")
     auto

declare create_object_instance.simps [simp del]

definition handle_start_item :: "(string \<Rightarrow> real) \<Rightarrow> Importer \<Rightarrow> attributes \<Rightarrow> (bool, Importer) outcome" where
  "handle_start_item atof s attrs =
     (let object_id = get_attribute_value_int attrs ''objectid'';
          transform = get_transform_from_3mf_specs_string atof
                        (get_attribute_value_string attrs ''transform'');
          printable' = get_attribute_value_bool attrs ''printable''
      in create_object_instance s object_id transform printable' 1)"


subsubsection \<open>The geometry part as a stream of parser events\<close>

text \<open>The XML lexer (expat) is a black box: it turns the bytes of a part into calls
  of the start, end and character handlers, or reports an error (with its text) where
  the document is malformed. Every event comes with the line it stands on, which the
  error messages print.\<close>

datatype xml_event =
  StartElement string attributes
| EndElement string
| CharacterData string
| XmlError string

definition handle_start_model_xml_element ::
  "(string \<Rightarrow> real) \<Rightarrow> Importer \<Rightarrow> string \<Rightarrow> attributes \<Rightarrow> (bool, Importer) outcome" where
  "handle_start_model_xml_element atof s name attrs =
     (if name = ''model'' then (case handle_start_model s attrs of (res, s') \<Rightarrow> Returns res s')
      else if name = ''resources'' then Returns True s
      else if name = ''object'' then (case handle_start_object s attrs of (res, s') \<Rightarrow> Returns res s')
      else if name = ''mesh'' then (case handle_start_mesh s attrs of (res, s') \<Rightarrow> Returns res s')
      else if name = ''vertices'' then (case handle_start_vertices s attrs of (res, s') \<Rightarrow> Returns res s')
      else if name = ''vertex'' then (case handle_start_vertex atof s attrs of (res, s') \<Rightarrow> Returns res s')
      else if name = ''triangles'' then (case handle_start_triangles s attrs of (res, s') \<Rightarrow> Returns res s')
      else if name = ''triangle'' then (case handle_start_triangle s attrs of (res, s') \<Rightarrow> Returns res s')
      else if name = ''components'' then (case handle_start_components s attrs of (res, s') \<Rightarrow> Returns res s')
      else if name = ''component'' then (case handle_start_component atof s attrs of (res, s') \<Rightarrow> Returns res s')
      else if name = ''build'' then Returns True s
      else if name = ''item'' then handle_start_item atof s attrs
      else if name = ''metadata'' then (case handle_start_metadata s attrs of (res, s') \<Rightarrow> Returns res s')
      else Returns True s)"

text \<open>The end handlers of \<open>resources\<close>, \<open>mesh\<close>, \<open>vertices\<close>, \<open>vertex\<close>,
  \<open>triangles\<close>, \<open>triangle\<close>, \<open>components\<close>, \<open>component\<close>, \<open>build\<close> and
  \<open>item\<close> do nothing and return true.\<close>

definition handle_end_model_xml_element ::
  "string \<Rightarrow> Importer \<Rightarrow> string \<Rightarrow> (bool, Importer) outcome" where
  "handle_end_model_xml_element msg s name =
     (if name = ''model'' then handle_end_model s
      else if name = ''object'' then (case handle_end_object s of (res, s') \<Rightarrow> Returns res s')
      else if name = ''metadata'' then handle_end_metadata msg s
      else Returns True s)"

definition handle_model_xml_characters :: "Importer \<Rightarrow> string \<Rightarrow> Importer" where
  "handle_model_xml_characters s chars = s\<lparr>m_curr_characters := m_curr_characters s @ chars\<rparr>"

definition parse_error_message :: "string \<Rightarrow> string \<Rightarrow> nat \<Rightarrow> string" where
  "parse_error_message err filename line =
     ''Error ('' @ err @ '') while parsing '' @ [CHR 0x27] @ filename @ [CHR 0x27]
     @ '' at line '' @ to_string line"

text \<open>\<open>XML_Parse\<close> over the content of the part. A handler that returns false stops
  the parser, \<open>XML_Parse\<close> then fails with "parsing aborted", and the callback
  given to the zip reader throws a \<open>std::runtime_error\<close> with the message; so it does
  for a malformed document. An exception of a handler leaves through the parser.\<close>

fun parse_model_xml ::
  "(string \<Rightarrow> real) \<Rightarrow> string \<Rightarrow> string \<Rightarrow> Importer \<Rightarrow> (nat \<times> xml_event) list
   \<Rightarrow> (unit, Importer) outcome" where
  "parse_model_xml atof msg filename s [] = Returns () s"
| "parse_model_xml atof msg filename s ((line, XmlError err) # es) =
     Throws (runtime_error (parse_error_message err filename line)) s"
| "parse_model_xml atof msg filename s ((line, CharacterData chars) # es) =
     parse_model_xml atof msg filename (handle_model_xml_characters s chars) es"
| "parse_model_xml atof msg filename s ((line, StartElement name attrs) # es) =
     (case handle_start_model_xml_element atof s name attrs of
        Returns res s' \<Rightarrow>
          if res then parse_model_xml atof msg filename s' es
          else Throws (runtime_error (parse_error_message ''parsing aborted'' filename line)) s'
      | Throws x s' \<Rightarrow> Throws x s'
      | Undefined \<Rightarrow> Undefined)"
| "parse_model_xml atof msg filename s ((line, EndElement name) # es) =
     (case handle_end_model_xml_element msg s name of
        Returns res s' \<Rightarrow>
          if res then parse_model_xml atof msg filename s' es
          else Throws (runtime_error (parse_error_message ''parsing aborted'' filename line)) s'
      | Throws x s' \<Rightarrow> Throws x s'
      | Undefined \<Rightarrow> Undefined)"

text \<open>An entry of the zip archive (miniz is a black box): whether
  \<open>mz_zip_reader_file_stat\<close> succeeds, the name, the content, whether the
  extraction of the content succeeds, and the events the XML lexer makes of the
  content.\<close>

record zip_entry =
  stat_ok :: bool
  m_filename :: string
  content :: string
  extract_ok :: bool
  xml_events :: "(nat \<times> xml_event) list"

definition m_uncomp_size :: "zip_entry \<Rightarrow> nat" where
  "m_uncomp_size stat = length (content stat)"


subsubsection \<open>Handlers of the sidecar part (\<open>Metadata/Slic3r_PE_model.config\<close>)\<close>

definition handle_start_config_object :: "Importer \<Rightarrow> attributes \<Rightarrow> bool \<times> Importer" where
  "handle_start_config_object s attrs =
     (let object_id = get_attribute_value_int attrs ''id''
      in if map_find (m_objects_metadata s) object_id \<noteq> None
         then (False, add_error s ''Found duplicated object id'')
         else (True,
               s\<lparr>m_objects_metadata :=
                   map_insert object_id \<lparr>om_metadata = [], om_volumes = []\<rparr> (m_objects_metadata s),
                 m_curr_config := (m_curr_config s)\<lparr>cfg_object_id := object_id\<rparr>\<rparr>))"

definition handle_start_config_volume :: "Importer \<Rightarrow> attributes \<Rightarrow> bool \<times> Importer" where
  "handle_start_config_volume s attrs =
     (case map_find (m_objects_metadata s) (cfg_object_id (m_curr_config s)) of
        None \<Rightarrow> (False, add_error s ''Cannot assign volume to a valid object'')
      | Some object \<Rightarrow>
          let first_triangle_id' = (word_of_int (get_attribute_value_int attrs ''firstid'') :: 32 word);
              last_triangle_id' = (word_of_int (get_attribute_value_int attrs ''lastid'') :: 32 word)
          in (True,
              s\<lparr>m_curr_config := (m_curr_config s)\<lparr>cfg_volume_id := int (length (om_volumes object))\<rparr>,
                m_objects_metadata :=
                  map_modify (cfg_object_id (m_curr_config s))
                    (\<lambda>object. object\<lparr>om_volumes := om_volumes object
                       @ [\<lparr>first_triangle_id = first_triangle_id',
                           last_triangle_id = last_triangle_id', vm_metadata = []\<rparr>]\<rparr>)
                    (m_objects_metadata s)\<rparr>))"

text \<open>\<open>size_t(m_curr_config.volume_id) < object->second.volumes.size()\<close>: a negative
  \<open>volume_id\<close> converts to a \<open>size_t\<close> above every size.\<close>

definition handle_start_config_metadata :: "Importer \<Rightarrow> attributes \<Rightarrow> bool \<times> Importer" where
  "handle_start_config_metadata s attrs =
     (case map_find (m_objects_metadata s) (cfg_object_id (m_curr_config s)) of
        None \<Rightarrow> (False, add_error s ''Cannot assign metadata to valid object id'')
      | Some object \<Rightarrow>
          let type = get_attribute_value_string attrs ''type'';
              key = get_attribute_value_string attrs ''key'';
              val = get_attribute_value_string attrs ''value'';
              volume_id = cfg_volume_id (m_curr_config s)
          in if type = ''object'' then
               (True,
                s\<lparr>m_objects_metadata :=
                    map_modify (cfg_object_id (m_curr_config s))
                      (\<lambda>object. object\<lparr>om_metadata := om_metadata object
                         @ [\<lparr>md_key = key, md_value = val\<rparr>]\<rparr>)
                      (m_objects_metadata s)\<rparr>)
             else if type = ''volume'' then
               (if 0 \<le> volume_id \<and> nat volume_id < length (om_volumes object) then
                  (True,
                   s\<lparr>m_objects_metadata :=
                       map_modify (cfg_object_id (m_curr_config s))
                         (\<lambda>object. object\<lparr>om_volumes := (om_volumes object)
                            [nat volume_id := (om_volumes object ! nat volume_id)
                               \<lparr>vm_metadata := vm_metadata (om_volumes object ! nat volume_id)
                                  @ [\<lparr>md_key = key, md_value = val\<rparr>]\<rparr>]\<rparr>)
                         (m_objects_metadata s)\<rparr>)
                else (True, s))
             else (False, add_error s ''Found invalid metadata type''))"

definition handle_start_config_xml_element ::
  "Importer \<Rightarrow> string \<Rightarrow> attributes \<Rightarrow> bool \<times> Importer" where
  "handle_start_config_xml_element s name attrs =
     (if name = ''config'' then (True, s)
      else if name = ''object'' then handle_start_config_object s attrs
      else if name = ''volume'' then handle_start_config_volume s attrs
      else if name = ''metadata'' then handle_start_config_metadata s attrs
      else (True, s))"

definition config_error_message :: "string \<Rightarrow> nat \<Rightarrow> string" where
  "config_error_message err line =
     ''Error ('' @ err @ '') while parsing xml file at line '' @ to_string line"

text \<open>\<open>XML_ParseBuffer\<close> over the sidecar: the end handlers and the character data
  do nothing; the result is whether the parser reached the end of the document.\<close>

fun parse_config_xml :: "Importer \<Rightarrow> (nat \<times> xml_event) list \<Rightarrow> bool \<times> Importer" where
  "parse_config_xml s [] = (True, s)"
| "parse_config_xml s ((line, XmlError err) # es) = (False, add_error s (config_error_message err line))"
| "parse_config_xml s ((line, StartElement name attrs) # es) =
     (case handle_start_config_xml_element s name attrs of
        (res, s') \<Rightarrow>
          if res then parse_config_xml s' es
          else (False, add_error s' (config_error_message ''parsing aborted'' line)))"
| "parse_config_xml s ((line, e) # es) = parse_config_xml s es"


subsubsection \<open>The layer-height-profile part\<close>

text \<open>The body of the loop over the lines of
  \<open>Metadata/Slic3r_PE_layer_heights_profile.txt\<close>; each \<open>continue\<close> of the source
  ends the line with the error recorded.\<close>

definition layer_heights_profile_line :: "(string \<Rightarrow> real) \<Rightarrow> Importer \<Rightarrow> string \<Rightarrow> Importer" where
  "layer_heights_profile_line atof s object =
     (let object_data = boost_split CHR ''|'' object
      in if length object_data \<noteq> 2 then add_error s ''Error while reading object data''
         else
           let object_data_id = boost_split CHR ''='' (object_data ! 0)
           in if length object_data_id \<noteq> 2 then add_error s ''Error while reading object id''
              else
                let object_id = atoi (object_data_id ! 1)
                in if object_id = 0 then add_error s ''Found invalid object id''
                   else if map_find (m_layer_heights_profiles s) object_id \<noteq> None
                   then add_error s ''Found duplicated layer heights profile''
                   else
                     let object_data_profile = boost_split CHR '';'' (object_data ! 1)
                     in if length object_data_profile \<le> 4 \<or> length object_data_profile mod 2 \<noteq> 0
                        then add_error s ''Found invalid layer heights profile''
                        else s\<lparr>m_layer_heights_profiles :=
                                 map_insert object_id (map atof object_data_profile)
                                   (m_layer_heights_profiles s)\<rparr>)"

definition extract_layer_heights_profile_config_from_archive ::
  "(string \<Rightarrow> real) \<Rightarrow> Importer \<Rightarrow> zip_entry \<Rightarrow> Importer" where
  "extract_layer_heights_profile_config_from_archive atof s stat =
     (if m_uncomp_size stat > 0 then
        if \<not> extract_ok stat
        then add_error s ''Error while reading layer heights profile data to buffer''
        else
          let buffer = content stat;
              buffer' = (if last buffer = CHR 0x0A then butlast buffer else buffer);
              objects = boost_split (CHR 0x0A) buffer'
          in foldl (layer_heights_profile_line atof) s objects
      else s)"


subsubsection \<open>Volumes\<close>

text \<open>What \<open>_generate_volumes\<close> calls outside this file: \<open>atof\<close>; the matrix a
  \<open>Transformation\<close> holds after \<open>set_from_string\<close>; Eigen's inverse; the repair
  of a mesh (\<open>stl_get_size\<close> and \<open>TriangleMesh::repair\<close>);
  \<open>ModelVolume::type_from_string\<close>; and \<open>set_deserialize\<close> of a print
  configuration.\<close>

record externals =
  ext_atof :: "string \<Rightarrow> real"
  matrix_from_string :: "string \<Rightarrow> Transform3d"
  matrix_inverse :: "Transform3d \<Rightarrow> Transform3d"
  mesh_repair :: "TriangleMesh \<Rightarrow> TriangleMesh"
  type_from_string :: "string \<Rightarrow> ModelVolumeType"
  set_deserialize :: "DynamicPrintConfig \<Rightarrow> string \<Rightarrow> string \<Rightarrow> DynamicPrintConfig"

definition transform_point :: "Transform3d \<Rightarrow> Vec3 \<Rightarrow> Vec3" where
  "transform_point m v =
     (case v of (x, y, z) \<Rightarrow>
        (coeff m 0 0 * x + coeff m 0 1 * y + coeff m 0 2 * z + coeff m 0 3,
         coeff m 1 0 * x + coeff m 1 1 * y + coeff m 1 2 * z + coeff m 1 3,
         coeff m 2 0 * x + coeff m 2 1 * y + coeff m 2 2 * z + coeff m 2 3))"

text \<open>A read \<open>v[i]\<close> of a \<open>std::vector\<close>: undefined out of range.\<close>

definition vector_at :: "'a list \<Rightarrow> nat \<Rightarrow> 'a option" where
  "vector_at xs i = (if i < length xs then Some (xs ! i) else None)"

text \<open>One corner of a facet: \<open>tri_id = geometry.triangles[src_start_id + ii + v] * 3\<close>
  in unsigned arithmetic, then the three coordinates at \<open>tri_id + 0\<close>, \<open>tri_id + 1\<close>
  and \<open>tri_id + 2\<close>; with a version above 1 the vertex is multiplied by the inverse
  matrix.\<close>

definition facet_vertex ::
  "Importer \<Rightarrow> Geometry \<Rightarrow> Transform3d \<Rightarrow> 32 word \<Rightarrow> 32 word \<Rightarrow> 32 word \<Rightarrow> Vec3 option" where
  "facet_vertex s geo inv_matrix src_start_id ii v =
     (case vector_at (triangles geo) (unat (src_start_id + ii + v)) of
        None \<Rightarrow> None
      | Some t \<Rightarrow>
          let tri_id = t * 3
          in (case (vector_at (vertices geo) (unat (tri_id + 0)),
                    vector_at (vertices geo) (unat (tri_id + 1)),
                    vector_at (vertices geo) (unat (tri_id + 2))) of
                (Some x, Some y, Some z) \<Rightarrow>
                  Some (if m_version s > 1 then transform_point inv_matrix (x, y, z) else (x, y, z))
              | _ \<Rightarrow> None))"

definition facet_at ::
  "Importer \<Rightarrow> Geometry \<Rightarrow> Transform3d \<Rightarrow> 32 word \<Rightarrow> nat \<Rightarrow> (Vec3 \<times> Vec3 \<times> Vec3) option" where
  "facet_at s geo inv_matrix src_start_id i =
     (let ii = (of_nat i :: 32 word) * 3
      in case (facet_vertex s geo inv_matrix src_start_id ii 0,
               facet_vertex s geo inv_matrix src_start_id ii 1,
               facet_vertex s geo inv_matrix src_start_id ii 2) of
           (Some a, Some b, Some c) \<Rightarrow> Some (a, b, c)
         | _ \<Rightarrow> None)"

fun all_defined :: "'a option list \<Rightarrow> 'a list option" where
  "all_defined [] = Some []"
| "all_defined (None # xs) = None"
| "all_defined (Some x # xs) = (case all_defined xs of None \<Rightarrow> None | Some ys \<Rightarrow> Some (x # ys))"

fun find_matrix :: "Metadata list \<Rightarrow> string option" where
  "find_matrix [] = None"
| "find_matrix (m # ms) = (if md_key m = MATRIX_KEY then Some (md_value m) else find_matrix ms)"

definition new_ModelVolume :: "TriangleMesh \<Rightarrow> ModelVolume" where
  "new_ModelVolume mesh =
     \<lparr>mv_name = [], mv_type = MODEL_PART,
      mv_source = \<lparr>input_file = [], object_idx = - 1, volume_idx = - 1, mesh_offset = (0, 0, 0)\<rparr>,
      mv_config = [], mv_mesh = mesh, mv_matrix = Identity, convex_hull_calculated = False\<rparr>"

text \<open>The last loop of \<open>_generate_volumes\<close>: one metadata entry applied to the volume.\<close>

definition apply_volume_metadata :: "externals \<Rightarrow> ModelVolume \<Rightarrow> Metadata \<Rightarrow> ModelVolume" where
  "apply_volume_metadata ext volume metadata =
     (let k = md_key metadata; v = md_value metadata; src = mv_source volume
      in if k = ''name'' then volume\<lparr>mv_name := v\<rparr>
         else if k = ''modifier'' \<and> v = ''1'' then volume\<lparr>mv_type := PARAMETER_MODIFIER\<rparr>
         else if k = ''volume_type'' then volume\<lparr>mv_type := type_from_string ext v\<rparr>
         else if k = ''source_file'' then volume\<lparr>mv_source := src\<lparr>input_file := v\<rparr>\<rparr>
         else if k = ''source_object_id'' then volume\<lparr>mv_source := src\<lparr>object_idx := atoi v\<rparr>\<rparr>
         else if k = ''source_volume_id'' then volume\<lparr>mv_source := src\<lparr>volume_idx := atoi v\<rparr>\<rparr>
         else if k = ''source_offset_x'' then
           volume\<lparr>mv_source := src\<lparr>mesh_offset :=
             (case mesh_offset src of (x, y, z) \<Rightarrow> (ext_atof ext v, y, z))\<rparr>\<rparr>
         else if k = ''source_offset_y'' then
           volume\<lparr>mv_source := src\<lparr>mesh_offset :=
             (case mesh_offset src of (x, y, z) \<Rightarrow> (x, ext_atof ext v, z))\<rparr>\<rparr>
         else if k = ''source_offset_z'' then
           volume\<lparr>mv_source := src\<lparr>mesh_offset :=
             (case mesh_offset src of (x, y, z) \<Rightarrow> (x, y, ext_atof ext v))\<rparr>\<rparr>
         else volume\<lparr>mv_config := set_deserialize ext (mv_config volume) k v\<rparr>)"

text \<open>The body of the loop over the volumes of the sidecar, after the check of the
  triangle range: the mesh is cut out of the geometry of the object and the volume is
  added to the object. \<open>None\<close> is an out-of-range read.\<close>

definition volume_transform :: "externals \<Rightarrow> Importer \<Rightarrow> VolumeMetadata \<Rightarrow> Transform3d" where
  "volume_transform ext s volume_data =
     (if m_version s > 1
      then (case find_matrix (vm_metadata volume_data) of
              None \<Rightarrow> Identity
            | Some v \<Rightarrow> matrix_from_string ext v)
      else Identity)"

text \<open>The mesh cut out of the geometry, as it is before \<open>stl_get_size\<close> and
  \<open>repair\<close>: \<open>last - first + 1\<close> facets, read from the triangle
  \<open>3 * first\<close> on.\<close>

definition cut_mesh :: "externals \<Rightarrow> Importer \<Rightarrow> Geometry \<Rightarrow> VolumeMetadata \<Rightarrow> TriangleMesh option" where
  "cut_mesh ext s geo volume_data =
     (let inv_matrix = matrix_inverse ext (volume_transform ext s volume_data);
          triangles_count = last_triangle_id volume_data - first_triangle_id volume_data + 1;
          src_start_id = first_triangle_id volume_data * 3
      in case all_defined (map (facet_at s geo inv_matrix src_start_id) [0..<unat triangles_count]) of
           None \<Rightarrow> None
         | Some facets \<Rightarrow>
             Some \<lparr>repaired = False, has_shared_vertices = False,
                   original_num_facets = sint triangles_count,
                   number_of_facets = triangles_count, facet_start = facets,
                   its_vertices = [], its_indices = []\<rparr>)"

definition finish_volume :: "externals \<Rightarrow> Importer \<Rightarrow> VolumeMetadata \<Rightarrow> TriangleMesh \<Rightarrow> ModelVolume" where
  "finish_volume ext s volume_data mesh =
     (let volume = new_ModelVolume (mesh_repair ext mesh);
          volume1 = (if m_version s > 1
                     then volume\<lparr>mv_matrix := volume_transform ext s volume_data\<rparr>
                     else volume);
          volume2 = volume1\<lparr>convex_hull_calculated := True\<rparr>
      in foldl (apply_volume_metadata ext) volume2 (vm_metadata volume_data))"

definition make_volume ::
  "externals \<Rightarrow> Importer \<Rightarrow> Geometry \<Rightarrow> VolumeMetadata \<Rightarrow> ModelVolume option" where
  "make_volume ext s geo volume_data =
     (case cut_mesh ext s geo volume_data of
        None \<Rightarrow> None
      | Some mesh \<Rightarrow> Some (finish_volume ext s volume_data mesh))"

fun generate_volumes_loop ::
  "externals \<Rightarrow> Geometry \<Rightarrow> 32 word \<Rightarrow> Importer \<times> ModelObject \<Rightarrow> VolumeMetadata list
   \<Rightarrow> (bool, Importer \<times> ModelObject) outcome" where
  "generate_volumes_loop ext geo geo_tri_count (s, object) [] = Returns True (s, object)"
| "generate_volumes_loop ext geo geo_tri_count (s, object) (volume_data # rest) =
     (if geo_tri_count \<le> first_triangle_id volume_data
         \<or> geo_tri_count \<le> last_triangle_id volume_data
         \<or> last_triangle_id volume_data < first_triangle_id volume_data
      then Returns False (add_error s ''Found invalid triangle id'', object)
      else
        case make_volume ext s geo volume_data of
          None \<Rightarrow> Undefined
        | Some volume \<Rightarrow>
            generate_volumes_loop ext geo geo_tri_count
              (s, object\<lparr>volumes := volumes object @ [volume]\<rparr>) rest)"

definition generate_volumes ::
  "externals \<Rightarrow> Importer \<Rightarrow> ModelObject \<Rightarrow> Geometry \<Rightarrow> VolumeMetadata list
   \<Rightarrow> (bool, Importer \<times> ModelObject) outcome" where
  "generate_volumes ext s object geo volumes' =
     (if volumes object \<noteq> [] then Returns False (add_error s ''Found invalid volumes count'', object)
      else
        let geo_tri_count = (of_nat (length (triangles geo)) :: 32 word) div 3
        in generate_volumes_loop ext geo geo_tri_count (s, object) volumes')"


subsubsection \<open>\<open>load_3mf\<close>\<close>

definition LAYER_HEIGHTS_PROFILE_FILE :: string where
  "LAYER_HEIGHTS_PROFILE_FILE = ''Metadata/Slic3r_PE_layer_heights_profile.txt''"

definition LAYER_CONFIG_RANGES_FILE :: string where
  "LAYER_CONFIG_RANGES_FILE = ''Metadata/Prusa_Slicer_layer_config_ranges.xml''"

definition SLA_SUPPORT_POINTS_FILE :: string where
  "SLA_SUPPORT_POINTS_FILE = ''Metadata/Slic3r_PE_sla_support_points.txt''"

definition PRINT_CONFIG_FILE :: string where
  "PRINT_CONFIG_FILE = ''Metadata/Slic3r_PE.config''"

definition MODEL_CONFIG_FILE :: string where
  "MODEL_CONFIG_FILE = ''Metadata/Slic3r_PE_model.config''"









text \<open>The public \<open>load_model_from_file\<close> first resets the reader; \<open>m_name\<close> keeps
  the value the constructor gave it.\<close>

definition Importer_reset :: "Model \<Rightarrow> bool \<Rightarrow> Importer" where
  "Importer_reset model check_version =
     \<lparr>m_version = 0, m_check_version = check_version, m_model = model, m_unit_factor = 1.0,
      m_curr_object = CurrentObject_reset, m_objects = [], m_objects_aliases = [],
      m_instances = [], m_geometries = [],
      m_curr_config = \<lparr>cfg_object_id = - 1, cfg_volume_id = - 1\<rparr>,
      m_objects_metadata = [], m_layer_heights_profiles = [], m_layer_config_ranges = [],
      m_sla_support_points = [], m_curr_metadata_name = [], m_curr_characters = [],
      m_name = [], m_errors = []\<rparr>"




subsection \<open>The writer: \<open>_3MF_Exporter\<close>\<close>

definition CONTENT_TYPES_FILE :: string where
  "CONTENT_TYPES_FILE = ''[Content_Types].xml''"

definition RELATIONSHIPS_FILE :: string where
  "RELATIONSHIPS_FILE = ''_rels/.rels''"

definition THUMBNAIL_FILE :: string where
  "THUMBNAIL_FILE = ''Metadata/thumbnail.png''"

definition MODEL_FILE :: string where
  "MODEL_FILE = ''3D/3dmodel.model''"

text \<open>The zip writer (miniz) and the file system are black boxes: whether the archive
  can be opened for writing, whether a part of a given name can be added, whether the
  thumbnail can be encoded as PNG, and whether the archive can be finalized.\<close>

record writer_env =
  open_zip_writer_ok :: bool
  add_mem_ok :: "string \<Rightarrow> bool"
  png_ok :: bool
  finalize_archive_ok :: bool

text \<open>The state of the writer: its errors, and the output file: whether it exists,
  the names of the parts added so far, whether the archive handle is open and whether
  the archive has been finalized. The text of the XML parts is not modelled, nor are
  the offsets of the volumes (\<open>objects_data\<close>), which only feed that text; what
  decides the control flow is.\<close>

record Exporter =
  x_errors :: "string list"
  file_exists :: bool
  archive_parts :: "string list"
  archive_open :: bool
  archive_finalized :: bool

definition x_add_error :: "Exporter \<Rightarrow> string \<Rightarrow> Exporter" where
  "x_add_error x error = x\<lparr>x_errors := x_errors x @ [error]\<rparr>"

text \<open>\<open>mz_zip_writer_add_mem\<close> for a part, with the error the caller records when it
  fails.\<close>

definition add_part :: "writer_env \<Rightarrow> Exporter \<Rightarrow> string \<Rightarrow> string \<Rightarrow> bool \<times> Exporter" where
  "add_part env x name error =
     (if add_mem_ok env name then (True, x\<lparr>archive_parts := archive_parts x @ [name]\<rparr>)
      else (False, x_add_error x error))"

definition add_content_types_file_to_archive :: "writer_env \<Rightarrow> Exporter \<Rightarrow> bool \<times> Exporter" where
  "add_content_types_file_to_archive env x =
     add_part env x CONTENT_TYPES_FILE ''Unable to add content types file to archive''"

definition add_thumbnail_file_to_archive :: "writer_env \<Rightarrow> Exporter \<Rightarrow> bool \<times> Exporter" where
  "add_thumbnail_file_to_archive env x =
     (if png_ok env then add_part env x THUMBNAIL_FILE ''Unable to add thumbnail file to archive''
      else (False, x_add_error x ''Unable to add thumbnail file to archive''))"

definition add_relationships_file_to_archive :: "writer_env \<Rightarrow> Exporter \<Rightarrow> bool \<times> Exporter" where
  "add_relationships_file_to_archive env x =
     add_part env x RELATIONSHIPS_FILE ''Unable to add relationships file to archive''"

record BuildItem =
  bi_id :: "32 word"
  bi_transform :: Transform3d
  bi_printable :: bool

text \<open>The loop of \<open>_add_mesh_to_object_stream\<close> over the volumes that writes the
  vertices: the two \<open>throw\<close> statements and the check for a mesh without vertices.
  (The second loop, over the triangles, only writes text and fills the offsets.)\<close>

fun add_mesh_to_object_stream :: "Exporter \<Rightarrow> ModelVolume list \<Rightarrow> (bool, Exporter) outcome" where
  "add_mesh_to_object_stream x [] = Returns True x"
| "add_mesh_to_object_stream x (volume # rest) =
     (if \<not> repaired (mv_mesh volume) then Throws (runtime_error ''store_3mf() requires repair()'') x
      else if \<not> has_shared_vertices (mv_mesh volume)
      then Throws (runtime_error ''store_3mf() requires shared vertices'') x
      else if its_vertices (mv_mesh volume) = [] then Returns False (x_add_error x ''Found invalid mesh'')
      else add_mesh_to_object_stream x rest)"

text \<open>The numbers the writer emits. What \<open>stream << x\<close> writes for a floating-point
  \<open>x\<close> depends on the precision of the stream: \<open>stream_out p x\<close> is the text at
  precision \<open>p\<close> (a black box, the C++ library). \<open>_add_model_file_to_archive\<close> sets the
  precision of its stream to \<open>std::numeric_limits<float>::max_digits10\<close>;
  \<open>_add_model_config_file_to_archive\<close> writes to a new \<open>std::stringstream\<close>, whose
  precision it does not set, so that it is the default of six digits.\<close>

definition FLOAT_MAX_DIGITS10 :: nat where
  "FLOAT_MAX_DIGITS10 = 9"

definition DEFAULT_PRECISION :: nat where
  "DEFAULT_PRECISION = 6"

text \<open>The first loop of \<open>_add_mesh_to_object_stream\<close> for one volume: the attributes of
  the \<open>vertex\<close> elements, each vertex of the mesh multiplied by the matrix of the
  volume. The second loop: the attributes of the \<open>triangle\<close> elements, the indices
  shifted by the first vertex of the volume (in unsigned arithmetic).\<close>

definition vertex_attributes :: "(nat \<Rightarrow> real \<Rightarrow> string) \<Rightarrow> ModelVolume \<Rightarrow> attributes list" where
  "vertex_attributes stream_out volume =
     map (\<lambda>vertex.
            case transform_point (mv_matrix volume) vertex of
              (x, y, z) \<Rightarrow>
                [(''x'', stream_out FLOAT_MAX_DIGITS10 x),
                 (''y'', stream_out FLOAT_MAX_DIGITS10 y),
                 (''z'', stream_out FLOAT_MAX_DIGITS10 z)])
         (its_vertices (mv_mesh volume))"

definition triangle_attributes :: "nat \<Rightarrow> ModelVolume \<Rightarrow> attributes list" where
  "triangle_attributes first_vertex_id volume =
     map (\<lambda>(a, b, c).
            [(''v1'', to_string ((a + first_vertex_id) mod 2 ^ 32)),
             (''v2'', to_string ((b + first_vertex_id) mod 2 ^ 32)),
             (''v3'', to_string ((c + first_vertex_id) mod 2 ^ 32))])
         (its_indices (mv_mesh volume))"

text \<open>The value of the \<open>matrix\<close> metadata of a volume in the sidecar: the sixteen
  coefficients row by row, with a space after each but the last.\<close>

definition matrix_value :: "(nat \<Rightarrow> real \<Rightarrow> string) \<Rightarrow> Transform3d \<Rightarrow> string" where
  "matrix_value stream_out matrix =
     concat (map (\<lambda>r. concat (map (\<lambda>c. stream_out DEFAULT_PRECISION (coeff matrix r c)
                                          @ (if r \<noteq> 3 \<or> c \<noteq> 3 then '' '' else []))
                                  [0..<4]))
               [0..<4])"

text \<open>The loop of \<open>_add_object_to_model_stream\<close> over the instances of an object:
  the first instance writes the mesh, every instance gives a build item. \<open>id'\<close> is
  the local counter \<open>id\<close>; the function returns the new value of \<open>object_id\<close>,
  which is not advanced when the mesh cannot be written.\<close>

fun object_instances ::
  "Exporter \<Rightarrow> 32 word \<Rightarrow> ModelObject \<Rightarrow> 32 word \<Rightarrow> BuildItem list \<Rightarrow> ModelInstance list
   \<Rightarrow> (bool \<times> 32 word \<times> BuildItem list, Exporter) outcome" where
  "object_instances x object_id object id' build_items [] =
     Returns (True, object_id + id', build_items) x"
| "object_instances x object_id object id' build_items (inst # rest) =
     (let instance_id = object_id + id';
          item = \<lparr>bi_id = instance_id, bi_transform = mi_matrix inst, bi_printable = printable inst\<rparr>
      in if id' = 0 then
           (case add_mesh_to_object_stream x (volumes object) of
              Returns res x' \<Rightarrow>
                if \<not> res
                then Returns (False, object_id, build_items)
                       (x_add_error x' ''Unable to add mesh to archive'')
                else object_instances x' object_id object (id' + 1) (build_items @ [item]) rest
            | Throws e x' \<Rightarrow> Throws e x'
            | Undefined \<Rightarrow> Undefined)
         else object_instances x object_id object (id' + 1) (build_items @ [item]) rest)"

definition add_object_to_model_stream ::
  "Exporter \<Rightarrow> 32 word \<Rightarrow> ModelObject \<Rightarrow> BuildItem list
   \<Rightarrow> (bool \<times> 32 word \<times> BuildItem list, Exporter) outcome" where
  "add_object_to_model_stream x object_id object build_items =
     object_instances x object_id object 0 build_items (instances object)"

definition add_build_to_model_stream :: "Exporter \<Rightarrow> BuildItem list \<Rightarrow> bool \<times> Exporter" where
  "add_build_to_model_stream x build_items =
     (if length build_items = 0 then (False, x_add_error x ''No build item found'') else (True, x))"

text \<open>The loop of \<open>_add_model_file_to_archive\<close> over the objects of the scene.\<close>

fun model_objects ::
  "Exporter \<Rightarrow> 32 word \<Rightarrow> BuildItem list \<Rightarrow> (nat \<times> ModelObject) list
   \<Rightarrow> (bool \<times> BuildItem list, Exporter) outcome" where
  "model_objects x object_id build_items [] = Returns (True, build_items) x"
| "model_objects x object_id build_items ((p, obj) # rest) =
     (case add_object_to_model_stream x object_id obj build_items of
        Returns (res, object_id', build_items') x' \<Rightarrow>
          if \<not> res
          then Returns (False, build_items') (x_add_error x' ''Unable to add object to archive'')
          else model_objects x' object_id' build_items' rest
      | Throws e x' \<Rightarrow> Throws e x'
      | Undefined \<Rightarrow> Undefined)"

definition add_model_file_to_archive ::
  "writer_env \<Rightarrow> Exporter \<Rightarrow> Model \<Rightarrow> (bool, Exporter) outcome" where
  "add_model_file_to_archive env x model =
     (case model_objects x 1 [] (objects model) of
        Returns (res, build_items) x1 \<Rightarrow>
          if \<not> res then Returns False x1
          else
            (case add_build_to_model_stream x1 build_items of
               (res2, x2) \<Rightarrow>
                 if \<not> res2
                 then Returns False (x_add_error x2 ''Unable to add build to archive'')
                 else
                   (case add_part env x2 MODEL_FILE ''Unable to add model file to archive'' of
                      (res3, x3) \<Rightarrow> Returns res3 x3))
      | Throws e x1 \<Rightarrow> Throws e x1
      | Undefined \<Rightarrow> Undefined)"

text \<open>The text of the layer-height-profile part: one line per object whose profile has
  an even number of entries, at least four. \<open>fmt_f\<close> is \<open>sprintf\<close> with \<open>%f\<close>.\<close>

fun profile_text :: "(real \<Rightarrow> string) \<Rightarrow> nat \<Rightarrow> real list \<Rightarrow> string" where
  "profile_text fmt_f i [] = []"
| "profile_text fmt_f i (h # hs) =
     (if i = 0 then fmt_f h else '';'' @ fmt_f h) @ profile_text fmt_f (i + 1) hs"

fun layer_height_profile_out :: "(real \<Rightarrow> string) \<Rightarrow> nat \<Rightarrow> (nat \<times> ModelObject) list \<Rightarrow> string" where
  "layer_height_profile_out fmt_f count [] = []"
| "layer_height_profile_out fmt_f count ((p, object) # rest) =
     (let count' = count + 1;
          profile = layer_height_profile object
      in (if length profile \<ge> 4 \<and> length profile mod 2 = 0
          then ''object_id='' @ to_string count' @ ''|'' @ profile_text fmt_f 0 profile @ [CHR 0x0A]
          else [])
         @ layer_height_profile_out fmt_f count' rest)"

definition add_layer_height_profile_file_to_archive ::
  "writer_env \<Rightarrow> (real \<Rightarrow> string) \<Rightarrow> Exporter \<Rightarrow> Model \<Rightarrow> bool \<times> Exporter" where
  "add_layer_height_profile_file_to_archive env fmt_f x model =
     (if layer_height_profile_out fmt_f 0 (objects model) \<noteq> []
      then add_part env x LAYER_HEIGHTS_PROFILE_FILE
             ''Unable to add layer heights profile file to archive''
      else (True, x))"

text \<open>The ranges part is written when an object has a range, the support-points part
  when an object has a support point; the print configuration (when the caller gives
  one) and the sidecar are always written.\<close>

definition add_layer_config_ranges_file_to_archive ::
  "writer_env \<Rightarrow> Exporter \<Rightarrow> Model \<Rightarrow> bool \<times> Exporter" where
  "add_layer_config_ranges_file_to_archive env x model =
     (if list_ex (\<lambda>po. layer_config_ranges (snd po) \<noteq> []) (objects model)
      then add_part env x LAYER_CONFIG_RANGES_FILE
             ''Unable to add layer heights profile file to archive''
      else (True, x))"

definition add_sla_support_points_file_to_archive ::
  "writer_env \<Rightarrow> Exporter \<Rightarrow> Model \<Rightarrow> bool \<times> Exporter" where
  "add_sla_support_points_file_to_archive env x model =
     (if list_ex (\<lambda>po. sla_support_points (snd po) \<noteq> []) (objects model)
      then add_part env x SLA_SUPPORT_POINTS_FILE
             ''Unable to add sla support points file to archive''
      else (True, x))"

definition add_print_config_file_to_archive :: "writer_env \<Rightarrow> Exporter \<Rightarrow> bool \<times> Exporter" where
  "add_print_config_file_to_archive env x =
     add_part env x PRINT_CONFIG_FILE ''Unable to add print config file to archive''"

definition add_model_config_file_to_archive ::
  "writer_env \<Rightarrow> Exporter \<Rightarrow> Model \<Rightarrow> bool \<times> Exporter" where
  "add_model_config_file_to_archive env x model =
     add_part env x MODEL_CONFIG_FILE ''Unable to add model config file to archive''"

text \<open>\<open>close_zip_writer(&archive); boost::filesystem::remove(filename);\<close>\<close>

definition close_and_remove :: "Exporter \<Rightarrow> Exporter" where
  "close_and_remove x = x\<lparr>archive_open := False, file_exists := False\<rparr>"

text \<open>The private \<open>_save_model_to_file\<close>. \<open>config\<close> is whether the caller gives a
  print configuration; \<open>thumbnail_data\<close> is \<open>None\<close> for a null pointer (and in a
  build without the thumbnail generator), and otherwise holds \<open>is_valid()\<close>.\<close>

definition save_model_to_file_impl ::
  "writer_env \<Rightarrow> (real \<Rightarrow> string) \<Rightarrow> Exporter \<Rightarrow> Model \<Rightarrow> bool \<Rightarrow> bool option
   \<Rightarrow> (bool, Exporter) outcome" where
  "save_model_to_file_impl env fmt_f x0 model config thumbnail_data =
     (if \<not> open_zip_writer_ok env then Returns False (x_add_error x0 ''Unable to open the file'')
      else
        let x = x0\<lparr>file_exists := True, archive_parts := [], archive_open := True,
                   archive_finalized := False\<rparr>
        in case add_content_types_file_to_archive env x of (r1, x1) \<Rightarrow>
           if \<not> r1 then Returns False (close_and_remove x1) else
           case (if thumbnail_data = Some True then add_thumbnail_file_to_archive env x1
                 else (True, x1)) of (r2, x2) \<Rightarrow>
           if \<not> r2 then Returns False (close_and_remove x2) else
           case add_relationships_file_to_archive env x2 of (r3, x3) \<Rightarrow>
           if \<not> r3 then Returns False (close_and_remove x3) else
           (case add_model_file_to_archive env x3 model of
              Throws e x4 \<Rightarrow> Throws e x4
            | Undefined \<Rightarrow> Undefined
            | Returns r4 x4 \<Rightarrow>
           if \<not> r4 then Returns False (close_and_remove x4) else
           case add_layer_height_profile_file_to_archive env fmt_f x4 model of (r5, x5) \<Rightarrow>
           if \<not> r5 then Returns False (close_and_remove x5) else
           case add_layer_config_ranges_file_to_archive env x5 model of (r6, x6) \<Rightarrow>
           if \<not> r6 then Returns False (close_and_remove x6) else
           case add_sla_support_points_file_to_archive env x6 model of (r7, x7) \<Rightarrow>
           if \<not> r7 then Returns False (close_and_remove x7) else
           case (if config then add_print_config_file_to_archive env x7 else (True, x7)) of (r8, x8) \<Rightarrow>
           if \<not> r8 then Returns False (close_and_remove x8) else
           case add_model_config_file_to_archive env x8 model of (r9, x9) \<Rightarrow>
           if \<not> r9 then Returns False (close_and_remove x9) else
           if \<not> finalize_archive_ok env
           then Returns False (x_add_error (close_and_remove x9) ''Unable to finalize the archive'')
           else Returns True (x9\<lparr>archive_finalized := True, archive_open := False\<rparr>)))"

text \<open>\<open>store_3mf\<close> for a path and a scene that are not null, on a file system where
  the output file exists or not (\<open>exists_before\<close>): a new writer, whose errors are
  empty; there is no \<open>catch\<close> clause.\<close>

definition store_3mf ::
  "writer_env \<Rightarrow> (real \<Rightarrow> string) \<Rightarrow> bool \<Rightarrow> Model \<Rightarrow> bool \<Rightarrow> bool option
   \<Rightarrow> (bool, Exporter) outcome" where
  "store_3mf env fmt_f exists_before model config thumbnail_data =
     save_model_to_file_impl env fmt_f
       \<lparr>x_errors = [], file_exists = exists_before, archive_parts = [], archive_open = False,
        archive_finalized = False\<rparr>
       model config thumbnail_data"

subsection \<open>Notions used to state the properties\<close>

text \<open>A chain of aliases from the object \<open>i\<close>: every object of the chain but the
  last has exactly one component, which refers to the next object; the last object is
  a geometry-bearing object, which aliases itself. The list holds the components
  followed; the depth of the chain, counting the build item, is its length plus one.\<close>

fun alias_chain :: "(int \<times> Component list) list \<Rightarrow> int \<Rightarrow> Component list \<Rightarrow> bool" where
  "alias_chain aliases i [] =
     (case map_find aliases i of Some [c] \<Rightarrow> comp_object_id c = i | _ \<Rightarrow> False)"
| "alias_chain aliases i (c # cs) =
     (map_find aliases i = Some [c] \<and> comp_object_id c \<noteq> i
      \<and> alias_chain aliases (comp_object_id c) cs)"

definition chain_end :: "int \<Rightarrow> Component list \<Rightarrow> int" where
  "chain_end i cs = (if cs = [] then i else comp_object_id (last cs))"

text \<open>The triangles a sidecar volume covers, and a list of volumes whose ranges are
  pairwise disjoint.\<close>

definition range_set :: "VolumeMetadata \<Rightarrow> nat set" where
  "range_set v = {unat (first_triangle_id v) .. unat (last_triangle_id v)}"

fun disjoint_ranges :: "VolumeMetadata list \<Rightarrow> bool" where
  "disjoint_ranges [] = True"
| "disjoint_ranges (v # vs) =
     (range_set v \<inter> \<Union> (set (map range_set vs)) = {} \<and> disjoint_ranges vs)"

text \<open>The vertex indices of the triangles of a geometry are within its vertices: the
  handler of a triangle stores the three indices it reads without a check, and
  \<open>_generate_volumes\<close> reads \<open>geometry.vertices\<close> at three times each index.\<close>

definition indices_in_range :: "Geometry \<Rightarrow> bool" where
  "indices_in_range geo =
     list_all (\<lambda>t. 3 * unat t + 2 < length (vertices geo)) (triangles geo)"

text \<open>The number of triangles of a sidecar volume: \<open>last - first + 1\<close>, in unsigned
  arithmetic.\<close>

definition triangle_count :: "VolumeMetadata \<Rightarrow> nat" where
  "triangle_count v = unat (last_triangle_id v - first_triangle_id v + 1)"

text \<open>The mesh the reader cuts for a volume that the writer wrote as the only volume
  of its object: the vertex and triangle elements go through the handlers of the
  geometry part, the sidecar gives the range of the triangles and the \<open>matrix\<close>
  metadata, and \<open>_generate_volumes\<close> cuts the mesh. (The XML lexer hands every attribute
  to the handlers as it was written.)\<close>

definition read_back ::
  "externals \<Rightarrow> (nat \<Rightarrow> real \<Rightarrow> string) \<Rightarrow> Importer \<Rightarrow> ModelVolume \<Rightarrow> TriangleMesh option" where
  "read_back ext stream_out s volume =
     (let s1 = foldl (\<lambda>s attrs. snd (handle_start_vertex (ext_atof ext) s attrs)) s
                 (vertex_attributes stream_out volume);
          s2 = foldl (\<lambda>s attrs. snd (handle_start_triangle s attrs)) s1
                 (triangle_attributes 0 volume);
          volume_data =
            \<lparr>first_triangle_id = 0,
             last_triangle_id = of_nat (length (its_indices (mv_mesh volume))) - 1,
             vm_metadata =
               [\<lparr>md_key = MATRIX_KEY, md_value = matrix_value stream_out (mv_matrix volume)\<rparr>]\<rparr>
      in cut_mesh ext s2 (geometry (m_curr_object s2)) volume_data)"

text \<open>The members of the reader that alias expansion may change: the scene, the list
  of instances and the errors.\<close>

definition scene_frame :: "Importer \<Rightarrow> Importer \<Rightarrow> bool" where
  "scene_frame s s' = (\<exists>m i e. s' = s\<lparr>m_model := m, m_instances := i, m_errors := e\<rparr>)"

text \<open>The version check and the unit factor are the same in both states.\<close>

definition keeps :: "Importer \<Rightarrow> Importer \<Rightarrow> bool" where
  "keeps s s' = (m_check_version s' = m_check_version s \<and> m_unit_factor s' = m_unit_factor s)"



text \<open>The writer between the opening of the archive and its finalization: the output
  file exists, the archive handle is open, and every part added so far was accepted by
  the zip writer.\<close>

definition writing :: "writer_env \<Rightarrow> Exporter \<Rightarrow> bool" where
  "writing env x = (file_exists x \<and> archive_open x \<and> \<not> archive_finalized x
                    \<and> list_all (add_mem_ok env) (archive_parts x))"

text \<open>The two exceptions \<open>_add_mesh_to_object_stream\<close> throws for a mesh that does not meet
  the preconditions of the writer.\<close>

definition precondition_error :: "exn \<Rightarrow> bool" where
  "precondition_error e =
     (e = runtime_error ''store_3mf() requires repair()''
      \<or> e = runtime_error ''store_3mf() requires shared vertices'')"

text \<open>What a store leaves: after \<open>true\<close> a finalized archive all of whose parts were
  accepted, after \<open>false\<close> no output file and no open handle, and no exception but the
  two above.\<close>

definition store_result_ok :: "writer_env \<Rightarrow> (bool, Exporter) outcome \<Rightarrow> bool" where
  "store_result_ok env res =
     (case res of
        Returns r x \<Rightarrow>
          if r then file_exists x \<and> \<not> archive_open x \<and> archive_finalized x
                    \<and> finalize_archive_ok env \<and> list_all (add_mem_ok env) (archive_parts x)
          else \<not> file_exists x \<and> \<not> archive_open x
      | Throws e x \<Rightarrow> precondition_error e
      | Undefined \<Rightarrow> False)"




text \<open>What the mesh writer asks of a volume: a mesh that is ready (repaired, with shared
  vertices), the precondition of the store; and one that has vertices. The exception it
  throws for a mesh that is not ready. An object is writable when the mesh writer is
  not called for it, or accepts each of its volumes.\<close>

definition mesh_ready :: "ModelVolume \<Rightarrow> bool" where
  "mesh_ready volume = (repaired (mv_mesh volume) \<and> has_shared_vertices (mv_mesh volume))"

definition writable_volume :: "ModelVolume \<Rightarrow> bool" where
  "writable_volume volume = (mesh_ready volume \<and> its_vertices (mv_mesh volume) \<noteq> [])"

definition mesh_error :: "ModelVolume \<Rightarrow> exn" where
  "mesh_error volume =
     (if \<not> repaired (mv_mesh volume) then runtime_error ''store_3mf() requires repair()''
      else runtime_error ''store_3mf() requires shared vertices'')"

definition writable_object :: "ModelObject \<Rightarrow> bool" where
  "writable_object object = (instances object = [] \<or> list_all writable_volume (volumes object))"

text \<open>The scenes for which the mesh writer cannot throw; and the scenes of which the model
  file can be composed: every object is writable and some object has an instance, so
  that there is a build item.\<close>

definition meshes_ready :: "Model \<Rightarrow> bool" where
  "meshes_ready model =
     list_all (\<lambda>po. instances (snd po) = [] \<or> list_all mesh_ready (volumes (snd po)))
       (objects model)"

definition composes :: "Model \<Rightarrow> bool" where
  "composes model =
     (list_all (\<lambda>po. writable_object (snd po)) (objects model)
      \<and> list_ex (\<lambda>po. instances (snd po) \<noteq> []) (objects model))"

text \<open>The parts a store has to add, in the order in which it adds them.\<close>

definition written_parts :: "(real \<Rightarrow> string) \<Rightarrow> Model \<Rightarrow> bool \<Rightarrow> bool option \<Rightarrow> string list" where
  "written_parts fmt_f model config thumbnail_data =
     [CONTENT_TYPES_FILE]
     @ (if thumbnail_data = Some True then [THUMBNAIL_FILE] else [])
     @ [RELATIONSHIPS_FILE, MODEL_FILE]
     @ (if layer_height_profile_out fmt_f 0 (objects model) \<noteq> []
        then [LAYER_HEIGHTS_PROFILE_FILE] else [])
     @ (if list_ex (\<lambda>po. layer_config_ranges (snd po) \<noteq> []) (objects model)
        then [LAYER_CONFIG_RANGES_FILE] else [])
     @ (if list_ex (\<lambda>po. sla_support_points (snd po) \<noteq> []) (objects model)
        then [SLA_SUPPORT_POINTS_FILE] else [])
     @ (if config then [PRINT_CONFIG_FILE] else [])
     @ [MODEL_CONFIG_FILE]"


subsection \<open>Example inputs\<close>

text \<open>An \<open>atof\<close> for strings that hold an integer; a translation by 10 along x; and
  the reader after a geometry-bearing object 1 (at index 0 of the scene) and a composite
  object 2, whose only component is object 1 moved by that translation.\<close>

definition atof_int :: "string \<Rightarrow> real" where
  "atof_int t = real_of_int (atoi t)"

definition translation_10 :: Transform3d where
  "translation_10 = [[1, 0, 0, 10], [0, 1, 0, 0], [0, 0, 1, 0], [0, 0, 0, 1]]"

definition composite_scene :: Importer where
  "composite_scene =
     (Importer_reset \<lparr>objects = [(0, new_ModelObject)], next_ptr = 1\<rparr> True)
       \<lparr>m_objects := [(1, 0)],
        m_objects_aliases :=
          [(1, [\<lparr>comp_object_id = 1, comp_transform = Identity\<rparr>]),
           (2, [\<lparr>comp_object_id = 1, comp_transform = translation_10\<rparr>])]\<rparr>"

text \<open>Collaborators for the examples; an archive whose only part is a geometry part
  with the version metadata 3; and the reader at the end of that metadata element.\<close>

definition example_externals :: externals where
  "example_externals =
     \<lparr>ext_atof = atof_int, matrix_from_string = (\<lambda>t. Identity), matrix_inverse = (\<lambda>m. m),
      mesh_repair = (\<lambda>m. m\<lparr>repaired := True\<rparr>), type_from_string = (\<lambda>t. MODEL_PART),
      set_deserialize = (\<lambda>c k v. c @ [(k, v)])\<rparr>"




definition empty_Model :: Model where
  "empty_Model = \<lparr>objects = [], next_ptr = 0\<rparr>"


text \<open>A zip writer for which every step succeeds; a \<open>sprintf\<close> for heights that are
  whole numbers; a repaired mesh of one vertex; a scene of one object with one instance
  and one volume of a given mesh; and a scene whose only object has no instance.\<close>

definition example_writer_env :: writer_env where
  "example_writer_env =
     \<lparr>open_zip_writer_ok = True, add_mem_ok = (\<lambda>name. True), png_ok = True,
      finalize_archive_ok = True\<rparr>"

definition example_fmt_f :: "real \<Rightarrow> string" where
  "example_fmt_f h = to_string (nat \<lfloor>h\<rfloor>) @ ''.000000''"

definition one_vertex_mesh :: TriangleMesh where
  "one_vertex_mesh =
     \<lparr>repaired = True, has_shared_vertices = True, original_num_facets = 0,
      number_of_facets = 0, facet_start = [], its_vertices = [(0, 0, 0)], its_indices = []\<rparr>"

definition one_volume_scene :: "TriangleMesh \<Rightarrow> Model" where
  "one_volume_scene mesh =
     \<lparr>objects =
        [(0, new_ModelObject
               \<lparr>instances := [\<lparr>printable = True, mi_matrix = Identity\<rparr>],
                volumes := [new_ModelVolume mesh]\<rparr>)],
      next_ptr = 1\<rparr>"

definition no_instance_scene :: Model where
  "no_instance_scene =
     \<lparr>objects = [(0, new_ModelObject\<lparr>volumes := [new_ModelVolume one_vertex_mesh]\<rparr>)],
      next_ptr = 1\<rparr>"

text \<open>A sidecar volume of a given range, without metadata; and the geometry of three
  faces of a tetrahedron.\<close>

definition volume_of_range :: "32 word \<Rightarrow> 32 word \<Rightarrow> VolumeMetadata" where
  "volume_of_range first_id last_id =
     \<lparr>first_triangle_id = first_id, last_triangle_id = last_id, vm_metadata = []\<rparr>"

definition tetrahedron_faces :: Geometry where
  "tetrahedron_faces =
     \<lparr>vertices = [0, 0, 0, 1, 0, 0, 0, 1, 0, 0, 0, 1],
      triangles = [0, 1, 2, 0, 1, 3, 0, 2, 3]\<rparr>"

text \<open>Collaborators for a round trip. The stream output of the numbers used below at the
  two precisions of the writer, six and nine: whole numbers in full, and 1234.5625 and
  1235.5625 with six significant digits at precision six, in full at precision nine. An
  \<open>atof\<close> for unsigned decimal numbers. Eigen's inverse for a transform whose linear part
  is the identity.\<close>

definition example_stream_out :: "nat \<Rightarrow> real \<Rightarrow> string" where
  "example_stream_out p x =
     (if x = 12345625 / 10000 then (if p = 6 then ''1234.56'' else ''1234.5625'')
      else if x = 12355625 / 10000 then (if p = 6 then ''1235.56'' else ''1235.5625'')
      else to_string (nat \<lfloor>x\<rfloor>))"

definition atof_decimal :: "string \<Rightarrow> real" where
  "atof_decimal t =
     (let whole = takeWhile (\<lambda>c. c \<noteq> CHR ''.'') t;
          frac = takeWhile isdigit (drop (length whole + 1) t)
      in real_of_int (atoi whole) + real_of_int (atoi_digits 0 frac) / 10 ^ length frac)"

definition inverse_of_translation :: "Transform3d \<Rightarrow> Transform3d" where
  "inverse_of_translation m =
     [[1, 0, 0, - coeff m 0 3], [0, 1, 0, - coeff m 1 3], [0, 0, 1, - coeff m 2 3], [0, 0, 0, 1]]"

text \<open>Modelled from the spec: \<open>Slic3r::Geometry::Transformation::set_from_string\<close>
  (Geometry.cpp) is not in the sources. The spec (4.3) describes the value of the
  \<open>matrix\<close> key as sixteen space-separated floats, a 4x4 matrix in row-major order.\<close>

definition matrix_of_sixteen :: "(string \<Rightarrow> real) \<Rightarrow> string \<Rightarrow> Transform3d" where
  "matrix_of_sixteen atof t =
     (let xs = map atof (boost_split_compress CHR '' '' t)
      in if length xs = 16
         then [take 4 xs, take 4 (drop 4 xs), take 4 (drop 8 xs), take 4 (drop 12 xs)]
         else Identity)"

definition round_trip_externals :: externals where
  "round_trip_externals =
     example_externals
       \<lparr>ext_atof := atof_decimal, matrix_from_string := matrix_of_sixteen atof_decimal,
        matrix_inverse := inverse_of_translation\<rparr>"

text \<open>The reader once it has seen the version the writer emits; a mesh of one triangle;
  and two volumes of that mesh, moved along x by 1234.5625 and by 10.\<close>

definition version_2_reader :: Importer where
  "version_2_reader = (Importer_reset empty_Model True)\<lparr>m_version := VERSION_3MF\<rparr>"

definition triangle_mesh :: TriangleMesh where
  "triangle_mesh =
     \<lparr>repaired = True, has_shared_vertices = True, original_num_facets = 1,
      number_of_facets = 1, facet_start = [((0, 0, 0), (1, 0, 0), (0, 1, 0))],
      its_vertices = [(0, 0, 0), (1, 0, 0), (0, 1, 0)], its_indices = [(0, 1, 2)]\<rparr>"

definition shifted_triangle :: ModelVolume where
  "shifted_triangle =
     (new_ModelVolume triangle_mesh)
       \<lparr>mv_matrix := [[1, 0, 0, 12345625 / 10000], [0, 1, 0, 0], [0, 0, 1, 0], [0, 0, 0, 1]]\<rparr>"

definition moved_triangle :: ModelVolume where
  "moved_triangle = (new_ModelVolume triangle_mesh)\<lparr>mv_matrix := translation_10\<rparr>"








text \<open>A zip writer that refuses the sidecar and accepts every other part.\<close>

definition sidecar_refused :: writer_env where
  "sidecar_refused = example_writer_env\<lparr>add_mem_ok := (\<lambda>name. name \<noteq> MODEL_CONFIG_FILE)\<rparr>"


section \<open>Properties\<close>


subsection \<open>Evaluation of the library functions\<close>

lemma to_string_1: "to_string (Suc 0) = ''1''"
  by code_simp

lemmas atoi_eval = atoi_def isspace_def isdigit_def

subsection \<open>What the handlers of the geometry part leave unchanged\<close>


lemma scene_frame_refl: "scene_frame s s"
  unfolding scene_frame_def
  by (rule exI[of _ "m_model s"], rule exI[of _ "m_instances s"], rule exI[of _ "m_errors s"]) simp

lemma scene_frame_trans:
  assumes "scene_frame a b" and "scene_frame b c"
  shows "scene_frame a c"
proof -
  obtain m i e where b: "b = a\<lparr>m_model := m, m_instances := i, m_errors := e\<rparr>"
    using assms(1) unfolding scene_frame_def by blast
  obtain m' i' e' where c: "c = b\<lparr>m_model := m', m_instances := i', m_errors := e'\<rparr>"
    using assms(2) unfolding scene_frame_def by blast
  have "c = a\<lparr>m_model := m', m_instances := i', m_errors := e'\<rparr>"
    by (simp add: b c)
  then show ?thesis unfolding scene_frame_def by blast
qed

lemma scene_frame_add_error: "scene_frame s (add_error s e)"
  unfolding scene_frame_def add_error_def
  by (rule exI[of _ "m_model s"], rule exI[of _ "m_instances s"], rule exI[of _ "m_errors s @ [e]"]) simp

lemma scene_frame_attach: "scene_frame s (attach_instance s idx t p)"
proof -
  obtain m i where "attach_instance s idx t p = s\<lparr>m_model := m, m_instances := i\<rparr>"
    by (simp add: attach_instance_def Let_def split_def)
  then have "attach_instance s idx t p = s\<lparr>m_model := m, m_instances := i, m_errors := m_errors s\<rparr>"
    by simp
  then show ?thesis unfolding scene_frame_def by blast
qed

lemma for_each_component_returns:
  assumes "for_each_component f s cs = Returns r s'"
      and "\<And>x. R x x" and "\<And>x y z. R x y \<Longrightarrow> R y z \<Longrightarrow> R x z"
      and "\<And>x c r x'. c \<in> set cs \<Longrightarrow> f x c = Returns r x' \<Longrightarrow> R x x'"
  shows "R s s'"
  using assms(1,4)
proof (induction cs arbitrary: s)
  case Nil
  then show ?case using assms(2) by simp
next
  case (Cons c cs)
  show ?case
  proof (cases "f s c")
    case (Returns res x)
    have step: "R s x" using Cons.prems(2)[of c s res x] Returns by simp
    show ?thesis
    proof (cases res)
      case True
      then have rest: "for_each_component f x cs = Returns r s'" using Cons.prems(1) Returns by simp
      have "R x s'"
      proof (rule Cons.IH[OF rest])
        fix c' y r' y'
        assume "c' \<in> set cs" "f y c' = Returns r' y'"
        then show "R y y'" using Cons.prems(2)[of c' y r' y'] by simp
      qed
      then show ?thesis using step assms(3) by blast
    next
      case False
      then show ?thesis using Cons.prems(1) Returns step by simp
    qed
  next
    case (Throws e x)
    then show ?thesis using Cons.prems(1) by simp
  next
    case Undefined
    then show ?thesis using Cons.prems(1) by simp
  qed
qed


lemma create_object_instance_frame:
  "create_object_instance s object_id t p n = Returns r s' \<Longrightarrow> scene_frame s s'"
proof (induction s object_id t p n arbitrary: r s' rule: create_object_instance.induct)
  case (1 s object_id transform printable' recur_counter)
  show ?case
  proof (cases "10 < recur_counter")
    case True
    then show ?thesis using "1.prems"
      by (auto simp: create_object_instance.simps scene_frame_add_error)
  next
    case False
    note nf = this
    show ?thesis
    proof (cases "map_find (m_objects_aliases s) object_id")
      case None
      then show ?thesis using "1.prems" nf
        by (auto simp: create_object_instance.simps scene_frame_add_error)
    next
      case (Some aliases)
      show ?thesis
      proof (cases "length aliases = 1 \<and> comp_object_id (aliases ! 0) = object_id")
        case True
        then show ?thesis using "1.prems" nf Some
          by (auto simp: create_object_instance.simps scene_frame_add_error scene_frame_attach
                split: option.splits if_splits)
      next
        case False
        then have loop: "for_each_component
                (\<lambda>s component.
                   create_object_instance s (comp_object_id component)
                     (transform_mul transform (comp_transform component)) printable'
                     (recur_counter + 1))
                s aliases = Returns r s'"
          using "1.prems" nf Some
          by (auto simp: create_object_instance.simps[of s object_id transform printable' recur_counter])
        show ?thesis
          by (rule for_each_component_returns[OF loop, of scene_frame])
             (auto intro: scene_frame_refl scene_frame_trans "1.IH"[OF nf Some False])
      qed
    qed
  qed
qed


lemma scene_frame_fields:
  "scene_frame s s' \<Longrightarrow> m_check_version s' = m_check_version s \<and> m_unit_factor s' = m_unit_factor s
     \<and> m_objects_aliases s' = m_objects_aliases s \<and> m_objects s' = m_objects s"
  unfolding scene_frame_def by auto


lemma keeps_start_object: "handle_start_object s attrs = (r, s') \<Longrightarrow> keeps s s'"
  by (auto simp: keeps_def handle_start_object_def add_object_def Let_def split_def split: if_splits)

lemma keeps_end_object: "handle_end_object s = (r, s') \<Longrightarrow> keeps s s'"
  by (auto simp: keeps_def handle_end_object_def add_error_def Let_def split: if_splits option.splits)

lemma keeps_start_mesh: "handle_start_mesh s attrs = (r, s') \<Longrightarrow> keeps s s'"
  by (auto simp: keeps_def handle_start_mesh_def)

lemma keeps_start_vertices: "handle_start_vertices s attrs = (r, s') \<Longrightarrow> keeps s s'"
  by (auto simp: keeps_def handle_start_vertices_def)

lemma keeps_start_vertex: "handle_start_vertex atof s attrs = (r, s') \<Longrightarrow> keeps s s'"
  by (auto simp: keeps_def handle_start_vertex_def)

lemma keeps_start_triangles: "handle_start_triangles s attrs = (r, s') \<Longrightarrow> keeps s s'"
  by (auto simp: keeps_def handle_start_triangles_def)

lemma keeps_start_triangle: "handle_start_triangle s attrs = (r, s') \<Longrightarrow> keeps s s'"
  by (auto simp: keeps_def handle_start_triangle_def)

lemma keeps_start_components: "handle_start_components s attrs = (r, s') \<Longrightarrow> keeps s s'"
  by (auto simp: keeps_def handle_start_components_def)

lemma keeps_start_component: "handle_start_component atof s attrs = (r, s') \<Longrightarrow> keeps s s'"
  by (auto simp: keeps_def handle_start_component_def add_error_def Let_def split: if_splits)

lemma keeps_start_metadata: "handle_start_metadata s attrs = (r, s') \<Longrightarrow> keeps s s'"
  by (auto simp: keeps_def handle_start_metadata_def Let_def split: if_splits)

lemma keeps_start_item: "handle_start_item atof s attrs = Returns r s' \<Longrightarrow> keeps s s'"
  unfolding handle_start_item_def Let_def keeps_def
  using create_object_instance_frame scene_frame_fields by blast

lemma keeps_end_model: "handle_end_model s = Returns r s' \<Longrightarrow> keeps s s'"
  by (auto simp: keeps_def handle_end_model_def split: option.splits)

lemma keeps_end_metadata: "handle_end_metadata msg s = Returns r s' \<Longrightarrow> keeps s s'"
  by (auto simp: keeps_def handle_end_metadata_def Let_def split: if_splits)

lemma start_model_check: "handle_start_model s attrs = (r, s') \<Longrightarrow> m_check_version s' = m_check_version s"
  by (auto simp: handle_start_model_def)

lemmas keeps_handlers = keeps_start_object keeps_start_mesh keeps_start_vertices
  keeps_start_vertex keeps_start_triangles keeps_start_triangle keeps_start_components
  keeps_start_component keeps_start_metadata keeps_start_item


lemma start_dispatch_fields:
  assumes "handle_start_model_xml_element atof s name attrs = Returns r s'"
  shows "m_check_version s' = m_check_version s
       \<and> (name \<noteq> ''model'' \<longrightarrow> m_unit_factor s' = m_unit_factor s)"
proof (cases "name = ''model''")
  case True
  then show ?thesis using assms
    by (auto simp: handle_start_model_xml_element_def split: prod.splits dest: start_model_check)
next
  case False
  have "keeps s s'"
    using assms False unfolding handle_start_model_xml_element_def
    by (auto split: if_splits prod.splits dest: keeps_handlers simp: keeps_def)
  then show ?thesis by (simp add: keeps_def)
qed

lemma end_dispatch_fields:
  assumes "handle_end_model_xml_element msg s name = Returns r s'"
  shows "keeps s s'"
  using assms unfolding handle_end_model_xml_element_def
  by (auto split: if_splits prod.splits dest: keeps_end_object keeps_end_model keeps_end_metadata
        simp: keeps_def)


lemma parse_append:
  "parse_model_xml atof msg fn s es = Returns () s1
   \<Longrightarrow> parse_model_xml atof msg fn s (es @ es') = parse_model_xml atof msg fn s1 es'"
proof (induction atof msg fn s es rule: parse_model_xml.induct)
  case (1 atof msg filename s)
  then show ?case by simp
next
  case (2 atof msg filename s line err es)
  then show ?case by simp
next
  case (3 atof msg filename s line chars es)
  then show ?case by simp
next
  case (4 atof msg filename s line name attrs es)
  then show ?case by (auto split: outcome.splits if_splits)
next
  case (5 atof msg filename s line name es)
  then show ?case by (auto split: outcome.splits if_splits)
qed

lemma parse_unit_factor:
  "parse_model_xml atof msg fn s es = Returns () s'
   \<Longrightarrow> \<forall>le \<in> set es. \<forall>a. snd le \<noteq> StartElement ''model'' a
   \<Longrightarrow> m_unit_factor s' = m_unit_factor s"
proof (induction atof msg fn s es rule: parse_model_xml.induct)
  case (1 atof msg filename s)
  then show ?case by simp
next
  case (2 atof msg filename s line err es)
  then show ?case by simp
next
  case (3 atof msg filename s line chars es)
  then show ?case by (simp add: handle_model_xml_characters_def)
next
  case (4 atof msg filename s line name attrs es)
  then show ?case
    by (auto split: outcome.splits if_splits dest!: start_dispatch_fields)
next
  case (5 atof msg filename s line name es)
  then show ?case
    by (auto split: outcome.splits if_splits dest!: end_dispatch_fields simp: keeps_def)
qed



subsection \<open>The layer-height profile of four entries\<close>

text \<open>
  Claim C1. A line \<open>object_id=<n>|<f>;<f>;...\<close> of the layer-height-profile part
  whose list of floats has an even length of at least 4 is recorded for the object; a
  list of odd length or of length below 4 is skipped with an error.

  The reader does not record a list of exactly four entries: its test is
  \<open>size() <= 4\<close>. The writer (\<open>_add_layer_height_profile_file_to_archive\<close>, whose
  test is \<open>size() >= 4\<close>) writes the line for a profile \<open>[h0, h1, h2, h3]\<close> of the
  first object; the reader, given the line the writer makes of the profile
  \<open>[0, 0.2, 10, 0.2]\<close>, records the error "Found invalid layer heights profile" and
  no profile.
\<close>

theorem profile_of_four_entries_is_rejected:
  "layer_height_profile_out fmt_f 0 [(p, new_ModelObject\<lparr>layer_height_profile := [h0, h1, h2, h3]\<rparr>)]
     = ''object_id=1|'' @ fmt_f h0 @ '';'' @ fmt_f h1 @ '';'' @ fmt_f h2 @ '';'' @ fmt_f h3 @ [CHR 0x0A]
   \<and> extract_layer_heights_profile_config_from_archive atof (Importer_reset model check_version)
         \<lparr>stat_ok = True, m_filename = LAYER_HEIGHTS_PROFILE_FILE,
          content = ''object_id=1|0.000000;0.200000;10.000000;0.200000'' @ [CHR 0x0A],
          extract_ok = True, xml_events = []\<rparr>
       = add_error (Importer_reset model check_version) ''Found invalid layer heights profile''"
  by (simp add: extract_layer_heights_profile_config_from_archive_def m_uncomp_size_def to_string_1)
     (simp add: layer_heights_profile_line_def atoi_eval map_find_def Importer_reset_def add_error_def)

subsection \<open>Volume metadata before the first volume\<close>

text \<open>
  Claim C10. When a \<open>metadata\<close> element of type "volume" of the sidecar is met
  while the volume list of the current object is empty, the handler returns true and
  the key and the value are dropped: the state of the reader, its errors included, is
  what it was, and the parse goes on with the next event.
\<close>

theorem volume_metadata_without_volume_is_discarded:
  assumes "map_find (m_objects_metadata s) (cfg_object_id (m_curr_config s)) = Some object"
      and "om_volumes object = []"
      and "get_attribute_value_string attrs ''type'' = ''volume''"
  shows "handle_start_config_metadata s attrs = (True, s)
       \<and> handle_start_config_xml_element s ''metadata'' attrs = (True, s)
       \<and> parse_config_xml s ((line, StartElement ''metadata'' attrs) # es) = parse_config_xml s es"
  using assms
  by (simp add: handle_start_config_metadata_def handle_start_config_xml_element_def Let_def)

theorem volume_metadata_without_volume_is_discarded_witness:
  "(let s = snd (handle_start_config_object (Importer_reset \<lparr>objects = [], next_ptr = 0\<rparr> False)
                 [(''id'', ''1'')])
    in handle_start_config_metadata s
         [(''type'', ''volume''), (''key'', ''name''), (''value'', ''cube'')] = (True, s))"
proof -
  define s where
    "s = snd (handle_start_config_object (Importer_reset \<lparr>objects = [], next_ptr = 0\<rparr> False)
               [(''id'', ''1'')])"
  have found: "map_find (m_objects_metadata s) (cfg_object_id (m_curr_config s))
                 = Some \<lparr>om_metadata = [], om_volumes = []\<rparr>"
    by (simp add: s_def handle_start_config_object_def Importer_reset_def map_find_def
          map_insert_def get_attribute_value_int_def atoi_eval)
  have "handle_start_config_metadata s
          [(''type'', ''volume''), (''key'', ''name''), (''value'', ''cube'')] = (True, s)"
    using volume_metadata_without_volume_is_discarded
            [OF found, of "[(''type'', ''volume''), (''key'', ''name''), (''value'', ''cube'')]"]
    by (simp add: get_attribute_value_string_def)
  then show ?thesis by (simp add: s_def Let_def)
qed

subsection \<open>The unit of the model\<close>

text \<open>
  Claim C7. The unit attribute of the \<open>model\<close> element gives the factor 0.001 for
  "micron", 10 for "centimeter", 25.4 for "inch", 304.8 for "foot", 1000 for "meter" and
  1 for every other string ("millimeter", the default, included), and every vertex
  read afterwards is stored as its three source coordinates times that factor.

  The events after the start of the \<open>model\<close> element are any that the reader
  handles without stopping, with no second \<open>model\<close> element among them; the
  vertex that follows appends the three products to the vertices of the current
  object.
\<close>

theorem unit_factor_scales_every_vertex:
  assumes "parse_model_xml atof msg filename s ((l0, StartElement ''model'' attrs) # events)
             = Returns () s1"
      and "\<forall>le \<in> set events. \<forall>a. snd le \<noteq> StartElement ''model'' a"
  shows "get_unit_factor ''micron'' = 0.001 \<and> get_unit_factor ''centimeter'' = 10
       \<and> get_unit_factor ''inch'' = 25.4 \<and> get_unit_factor ''foot'' = 304.8
       \<and> get_unit_factor ''meter'' = 1000 \<and> get_unit_factor ''millimeter'' = 1
       \<and> (unit \<notin> {''micron'', ''centimeter'', ''inch'', ''foot'', ''meter''}
            \<longrightarrow> get_unit_factor unit = 1)
       \<and> parse_model_xml atof msg filename s
            ((l0, StartElement ''model'' attrs) # events @ [(l, StartElement ''vertex'' vattrs)])
          = Returns ()
              (s1\<lparr>m_curr_object := (m_curr_object s1)
                   \<lparr>geometry := (geometry (m_curr_object s1))
                      \<lparr>vertices := vertices (geometry (m_curr_object s1))
                         @ [get_unit_factor (get_attribute_value_string attrs ''unit'')
                              * get_attribute_value_float atof vattrs ''x'',
                            get_unit_factor (get_attribute_value_string attrs ''unit'')
                              * get_attribute_value_float atof vattrs ''y'',
                            get_unit_factor (get_attribute_value_string attrs ''unit'')
                              * get_attribute_value_float atof vattrs ''z'']\<rparr>\<rparr>\<rparr>)"
proof -
  let ?s0 = "s\<lparr>m_unit_factor := get_unit_factor (get_attribute_value_string attrs ''unit'')\<rparr>"
  have rest: "parse_model_xml atof msg filename ?s0 events = Returns () s1"
    using assms(1) by (simp add: handle_start_model_xml_element_def handle_start_model_def)
  have factor: "m_unit_factor s1 = get_unit_factor (get_attribute_value_string attrs ''unit'')"
    using parse_unit_factor[OF rest assms(2)] by simp
  have "parse_model_xml atof msg filename s
          (((l0, StartElement ''model'' attrs) # events) @ [(l, StartElement ''vertex'' vattrs)])
        = parse_model_xml atof msg filename s1 [(l, StartElement ''vertex'' vattrs)]"
    by (rule parse_append[OF assms(1)])
  then have "parse_model_xml atof msg filename s
          ((l0, StartElement ''model'' attrs) # events @ [(l, StartElement ''vertex'' vattrs)])
        = parse_model_xml atof msg filename s1 [(l, StartElement ''vertex'' vattrs)]"
    by simp
  moreover have "parse_model_xml atof msg filename s1 [(l, StartElement ''vertex'' vattrs)]
        = Returns ()
              (s1\<lparr>m_curr_object := (m_curr_object s1)
                   \<lparr>geometry := (geometry (m_curr_object s1))
                      \<lparr>vertices := vertices (geometry (m_curr_object s1))
                         @ [get_unit_factor (get_attribute_value_string attrs ''unit'')
                              * get_attribute_value_float atof vattrs ''x'',
                            get_unit_factor (get_attribute_value_string attrs ''unit'')
                              * get_attribute_value_float atof vattrs ''y'',
                            get_unit_factor (get_attribute_value_string attrs ''unit'')
                              * get_attribute_value_float atof vattrs ''z'']\<rparr>\<rparr>\<rparr>)"
    by (simp add: handle_start_model_xml_element_def handle_start_vertex_def factor)
  moreover have "get_unit_factor ''micron'' = 0.001 \<and> get_unit_factor ''centimeter'' = 10
       \<and> get_unit_factor ''inch'' = 25.4 \<and> get_unit_factor ''foot'' = 304.8
       \<and> get_unit_factor ''meter'' = 1000 \<and> get_unit_factor ''millimeter'' = 1
       \<and> (unit \<notin> {''micron'', ''centimeter'', ''inch'', ''foot'', ''meter''}
            \<longrightarrow> get_unit_factor unit = 1)"
    by (simp add: get_unit_factor_def)
  ultimately show ?thesis by simp
qed

theorem unit_factor_scales_every_vertex_witness:
  "\<exists>s1. parse_model_xml (\<lambda>t. real_of_int (atoi t)) [] ''3D/3dmodel.model''
          (Importer_reset \<lparr>objects = [], next_ptr = 0\<rparr> True)
          ((1, StartElement ''model'' [(''unit'', ''inch'')])
           # [(2, StartElement ''resources'' []), (3, StartElement ''object'' [(''id'', ''1'')]),
              (4, StartElement ''mesh'' []), (5, StartElement ''vertices'' [])]
           @ [(6, StartElement ''vertex'' [(''x'', ''1''), (''y'', ''0''), (''z'', ''0'')])])
        = Returns () s1
      \<and> vertices (geometry (m_curr_object s1)) = [25.4, 0, 0]"
proof -
  let ?atof = "\<lambda>t. real_of_int (atoi t)"
  let ?s = "Importer_reset \<lparr>objects = [], next_ptr = 0\<rparr> True"
  let ?events = "[(2::nat, StartElement ''resources'' []), (3, StartElement ''object'' [(''id'', ''1'')]),
              (4, StartElement ''mesh'' []), (5, StartElement ''vertices'' [])]"
  obtain s1 where run: "parse_model_xml ?atof [] ''3D/3dmodel.model'' ?s
            ((1, StartElement ''model'' [(''unit'', ''inch'')]) # ?events) = Returns () s1"
    by (simp add: handle_start_model_xml_element_def handle_start_model_def
          handle_start_object_def handle_start_mesh_def handle_start_vertices_def
          is_valid_object_type_def get_attribute_value_string_def Let_def add_object_def)
  have empty: "vertices (geometry (m_curr_object s1)) = []"
    using run
    by (simp add: handle_start_model_xml_element_def handle_start_model_def
          handle_start_object_def handle_start_mesh_def handle_start_vertices_def
          is_valid_object_type_def get_attribute_value_string_def Let_def add_object_def)
       auto
  have nomodel: "\<forall>le \<in> set ?events. \<forall>a. snd le \<noteq> StartElement ''model'' a"
    by simp
  show ?thesis
    using unit_factor_scales_every_vertex[OF run nomodel, of _ 6 "[(''x'', ''1''), (''y'', ''0''), (''z'', ''0'')]"]
      empty
    by (simp add: get_unit_factor_def get_attribute_value_string_def get_attribute_value_float_def
          atoi_eval)
qed

subsection \<open>The depth of alias expansion\<close>

lemma alias_chain_leaf:
  "alias_chain aliases i [] \<Longrightarrow> \<exists>c. map_find aliases i = Some [c] \<and> comp_object_id c = i"
  by (auto split: option.splits list.splits)

lemma chain_expands:
  assumes "alias_chain (m_objects_aliases s) i cs"
      and "n + length cs \<le> 10"
      and "map_find (m_objects s) (chain_end i cs) = Some idx"
      and "0 \<le> idx" and "nat idx < length (objects (m_model s))"
  shows "create_object_instance s i T pr n
         = Returns True (attach_instance s (nat idx) (foldl transform_mul T (map comp_transform cs)) pr)"
  using assms(1,2,3)
proof (induction cs arbitrary: i T n)
  case Nil
  obtain c where c: "map_find (m_objects_aliases s) i = Some [c]" "comp_object_id c = i"
    using alias_chain_leaf[OF Nil.prems(1)] by blast
  have "map_find (m_objects s) i = Some idx" using Nil.prems(3) by (simp add: chain_end_def)
  then show ?case using c Nil.prems(2) assms(4,5)
    by (simp add: create_object_instance.simps[of s i T pr n])
next
  case (Cons c cs)
  have c: "map_find (m_objects_aliases s) i = Some [c]" "comp_object_id c \<noteq> i"
    and rest: "alias_chain (m_objects_aliases s) (comp_object_id c) cs"
    using Cons.prems(1) by simp_all
  have "chain_end (comp_object_id c) cs = chain_end i (c # cs)"
    by (simp add: chain_end_def)
  then have leaf: "map_find (m_objects s) (chain_end (comp_object_id c) cs) = Some idx"
    using Cons.prems(3) by simp
  have depth: "Suc n + length cs \<le> 10" using Cons.prems(2) by simp
  have inner: "create_object_instance s (comp_object_id c) (transform_mul T (comp_transform c)) pr (Suc n)
        = Returns True (attach_instance s (nat idx)
            (foldl transform_mul (transform_mul T (comp_transform c)) (map comp_transform cs)) pr)"
    by (rule Cons.IH[OF rest depth leaf])
  have "\<not> 10 < n" using Cons.prems(2) by simp
  then show ?case using c inner
    by (simp add: create_object_instance.simps[of s i T pr n])
qed



lemma transform_of_twelve:
  assumes "mat_str \<noteq> []"
      and "boost_split_compress CHR '' '' mat_str = [t0, t1, t2, t3, t4, t5, t6, t7, t8, t9, t10, t11]"
  shows "get_transform_from_3mf_specs_string atof mat_str
         = [[atof t0, atof t3, atof t6, atof t9],
            [atof t1, atof t4, atof t7, atof t10],
            [atof t2, atof t5, atof t8, atof t11],
            [0, 0, 0, 1]]"
  using assms
  by (simp add: get_transform_from_3mf_specs_string_def Identity_def set_coeff_def upt_rec)

lemma composite_chain:
  "alias_chain (m_objects_aliases composite_scene) 2 [\<lparr>comp_object_id = 1, comp_transform = translation_10\<rparr>]"
  by (simp add: composite_scene_def map_find_def)
























subsection \<open>Missing and present transforms\<close>

lemma transform_absent:
  "get_attribute_value_charptr attrs ''transform'' = None
   \<Longrightarrow> get_transform_from_3mf_specs_string atof (get_attribute_value_string attrs ''transform'') = Identity"
  by (simp add: get_transform_from_3mf_specs_string_def get_attribute_value_string_def)

lemma objectid_2: "get_attribute_value_int [(''objectid'', ''2'')] ''objectid'' = 2"
  by (simp add: get_attribute_value_int_def atoi_eval)

lemma mul_identity_translation: "transform_mul Identity translation_10 = translation_10"
  by (simp add: transform_mul_def Identity_def translation_10_def coeff_def upt_rec)

text \<open>
  Claim C8, as stated: every \<open>item\<close> element with no transform attribute gives an
  instance with the identity world transform. It fails for an item of a composite
  object: the item of object 2 of \<open>composite_scene\<close> gives one instance of object 1
  whose transform is the translation of the component.
\<close>

theorem item_of_composite_counterexample:
  "get_attribute_value_charptr [(''objectid'', ''2'')] ''transform'' = None
   \<and> handle_start_item atof_int composite_scene [(''objectid'', ''2'')]
       = Returns True (attach_instance composite_scene 0 translation_10 True)
   \<and> map inst_transform (m_instances (attach_instance composite_scene 0 translation_10 True))
       = [translation_10]
   \<and> translation_10 \<noteq> Identity"
proof -
  have "handle_start_item atof_int composite_scene [(''objectid'', ''2'')]
       = Returns True (attach_instance composite_scene 0 translation_10 True)"
    using chain_expands[of composite_scene 2 "[\<lparr>comp_object_id = 1, comp_transform = translation_10\<rparr>]" 1 0 Identity True]
      composite_chain
    by (simp add: handle_start_item_def objectid_2 chain_end_def composite_scene_def map_find_def
          Importer_reset_def get_transform_from_3mf_specs_string_def get_attribute_value_string_def
          get_attribute_value_bool_def mul_identity_translation)
  moreover have "map inst_transform (m_instances (attach_instance composite_scene 0 translation_10 True))
       = [translation_10]"
    by (simp add: attach_instance_def composite_scene_def Importer_reset_def Let_def)
  moreover have "translation_10 \<noteq> Identity"
    by (simp add: translation_10_def Identity_def)
  ultimately show ?thesis by simp
qed

text \<open>
  Claim C8, amended. For an \<open>item\<close> element with no transform attribute the
  expansion starts from the identity: along a chain of aliases the instance receives
  the identity multiplied by the transforms of the components, which is the identity
  for an item of a geometry-bearing object. For a \<open>component\<close> element with no
  transform attribute (and a known object id) the component is recorded with the
  identity. A transform string of exactly twelve tokens is read column by column into
  the first three rows of the matrix, whose last row is \<open>0 0 0 1\<close>.
\<close>

theorem missing_transform_is_identity:
  assumes "get_attribute_value_charptr attrs ''transform'' = None"
  shows "handle_start_item atof s attrs
           = create_object_instance s (get_attribute_value_int attrs ''objectid'') Identity
               (get_attribute_value_bool attrs ''printable'') 1
       \<and> (alias_chain (m_objects_aliases s) (get_attribute_value_int attrs ''objectid'') cs
          \<and> length cs + 1 \<le> 10
          \<and> map_find (m_objects s) (chain_end (get_attribute_value_int attrs ''objectid'') cs) = Some idx
          \<and> 0 \<le> idx \<and> nat idx < length (objects (m_model s))
          \<longrightarrow> handle_start_item atof s attrs
              = Returns True
                  (attach_instance s (nat idx) (foldl transform_mul Identity (map comp_transform cs))
                     (get_attribute_value_bool attrs ''printable''))
            \<and> (cs = [] \<longrightarrow> inst_transform (last (m_instances
                   (attach_instance s (nat idx) (foldl transform_mul Identity (map comp_transform cs))
                     (get_attribute_value_bool attrs ''printable'')))) = Identity))
       \<and> (map_find (m_objects s) (get_attribute_value_int attrs ''objectid'') \<noteq> None
          \<or> map_find (m_objects_aliases s) (get_attribute_value_int attrs ''objectid'') \<noteq> None
          \<longrightarrow> handle_start_component atof s attrs
              = (True, s\<lparr>m_curr_object := (m_curr_object s)
                          \<lparr>components := components (m_curr_object s)
                             @ [\<lparr>comp_object_id = get_attribute_value_int attrs ''objectid'',
                                 comp_transform = Identity\<rparr>]\<rparr>\<rparr>))
       \<and> (mat_str \<noteq> []
          \<and> boost_split_compress CHR '' '' mat_str = [t0, t1, t2, t3, t4, t5, t6, t7, t8, t9, t10, t11]
          \<longrightarrow> get_transform_from_3mf_specs_string atof mat_str
              = [[atof t0, atof t3, atof t6, atof t9],
                 [atof t1, atof t4, atof t7, atof t10],
                 [atof t2, atof t5, atof t8, atof t11],
                 [0, 0, 0, 1]])"
proof (intro conjI impI)
  show item: "handle_start_item atof s attrs
           = create_object_instance s (get_attribute_value_int attrs ''objectid'') Identity
               (get_attribute_value_bool attrs ''printable'') 1"
    using transform_absent[OF assms] by (simp add: handle_start_item_def)
next
  assume a: "alias_chain (m_objects_aliases s) (get_attribute_value_int attrs ''objectid'') cs
          \<and> length cs + 1 \<le> 10
          \<and> map_find (m_objects s) (chain_end (get_attribute_value_int attrs ''objectid'') cs) = Some idx
          \<and> 0 \<le> idx \<and> nat idx < length (objects (m_model s))"
  then have d: "1 + length cs \<le> 10" by simp
  show "handle_start_item atof s attrs
              = Returns True
                  (attach_instance s (nat idx) (foldl transform_mul Identity (map comp_transform cs))
                     (get_attribute_value_bool attrs ''printable''))"
    using chain_expands[of s _ cs 1 idx Identity] a d transform_absent[OF assms]
    by (simp add: handle_start_item_def)
next
  assume "cs = []"
  then show "inst_transform (last (m_instances
                   (attach_instance s (nat idx) (foldl transform_mul Identity (map comp_transform cs))
                     (get_attribute_value_bool attrs ''printable'')))) = Identity"
    by (simp add: attach_instance_def Let_def split_def)
next
  assume "map_find (m_objects s) (get_attribute_value_int attrs ''objectid'') \<noteq> None
          \<or> map_find (m_objects_aliases s) (get_attribute_value_int attrs ''objectid'') \<noteq> None"
  then show "handle_start_component atof s attrs
              = (True, s\<lparr>m_curr_object := (m_curr_object s)
                          \<lparr>components := components (m_curr_object s)
                             @ [\<lparr>comp_object_id = get_attribute_value_int attrs ''objectid'',
                                 comp_transform = Identity\<rparr>]\<rparr>\<rparr>)"
    using transform_absent[OF assms] by (auto simp: handle_start_component_def Let_def)
next
  assume "mat_str \<noteq> []
          \<and> boost_split_compress CHR '' '' mat_str = [t0, t1, t2, t3, t4, t5, t6, t7, t8, t9, t10, t11]"
  then show "get_transform_from_3mf_specs_string atof mat_str
              = [[atof t0, atof t3, atof t6, atof t9],
                 [atof t1, atof t4, atof t7, atof t10],
                 [atof t2, atof t5, atof t8, atof t11],
                 [0, 0, 0, 1]]"
    using transform_of_twelve by blast
qed

theorem missing_transform_is_identity_witness:
  "handle_start_item atof_int composite_scene [(''objectid'', ''1'')]
     = Returns True (attach_instance composite_scene 0 Identity True)
   \<and> handle_start_component atof_int composite_scene [(''objectid'', ''1'')]
     = (True, composite_scene\<lparr>m_curr_object := (m_curr_object composite_scene)
                \<lparr>components := [\<lparr>comp_object_id = 1, comp_transform = Identity\<rparr>]\<rparr>\<rparr>)
   \<and> get_transform_from_3mf_specs_string atof_int ''1 0 0 0 1 0 0 0 1 10 20 30''
     = [[1, 0, 0, 10], [0, 1, 0, 20], [0, 0, 1, 30], [0, 0, 0, 1]]"
proof -
  have absent: "get_attribute_value_charptr [(''objectid'', ''1'')] ''transform'' = None"
    by simp
  have id1: "get_attribute_value_int [(''objectid'', ''1'')] ''objectid'' = 1"
    by (simp add: get_attribute_value_int_def atoi_eval)
  have split: "boost_split_compress CHR '' '' ''1 0 0 0 1 0 0 0 1 10 20 30''
               = [''1'', ''0'', ''0'', ''0'', ''1'', ''0'', ''0'', ''0'', ''1'', ''10'', ''20'', ''30'']"
    by (simp add: boost_split_compress_def)
  note inst = missing_transform_is_identity[OF absent, where s = composite_scene and atof = atof_int
      and cs = "[]" and idx = 0 and mat_str = "''1 0 0 0 1 0 0 0 1 10 20 30''"
      and ?t0.0 = "''1''" and ?t1.0 = "''0''" and ?t2.0 = "''0''" and ?t3.0 = "''0''"
      and ?t4.0 = "''1''" and ?t5.0 = "''0''" and ?t6.0 = "''0''" and ?t7.0 = "''0''"
      and ?t8.0 = "''1''" and ?t9.0 = "''10''" and ?t10.0 = "''20''" and ?t11.0 = "''30''"]
  have chain1: "alias_chain (m_objects_aliases composite_scene)
                 (get_attribute_value_int [(''objectid'', ''1'')] ''objectid'') []"
    by (simp add: id1 composite_scene_def map_find_def)
  have leaf: "map_find (m_objects composite_scene)
                (chain_end (get_attribute_value_int [(''objectid'', ''1'')] ''objectid'') []) = Some 0"
    by (simp add: id1 chain_end_def composite_scene_def map_find_def)
  have len: "nat 0 < length (objects (m_model composite_scene))"
    by (simp add: composite_scene_def Importer_reset_def)
  have comps: "components (m_curr_object composite_scene) = []"
    by (simp add: composite_scene_def Importer_reset_def CurrentObject_reset_def)
  have pr: "get_attribute_value_bool [(''objectid'', ''1'')] ''printable''"
    by (simp add: get_attribute_value_bool_def)
  have known: "map_find (m_objects composite_scene) 1 = Some 0"
    by (simp add: composite_scene_def map_find_def)
  show ?thesis
    using inst chain1 leaf len known
    by (auto simp: id1 split comps pr atof_int_def atoi_eval)
qed

subsection \<open>The version check\<close>





lemma end_metadata_unchecked:
  assumes "\<not> m_check_version s"
  shows "handle_end_metadata msg s
         = Returns True (if m_curr_metadata_name s = SLIC3RPE_3MF_VERSION
                         then s\<lparr>m_version := word_of_int (atoi (m_curr_characters s))\<rparr> else s)"
  using assms by (simp add: handle_end_metadata_def Let_def)























subsection \<open>The output file of a failed store\<close>

text \<open>Every step of the writer keeps the archive in the writing state, whatever it
  returns; the only exceptions come from the mesh writer.\<close>

lemma add_part_writing:
  "add_part env x n e = (r, x') \<Longrightarrow> writing env x \<Longrightarrow> writing env x'"
  by (auto simp: add_part_def writing_def x_add_error_def split: if_splits)

lemma x_add_error_writing: "writing env x \<Longrightarrow> writing env (x_add_error x e)"
  by (simp add: writing_def x_add_error_def)

lemma content_types_writing:
  "add_content_types_file_to_archive env x = (r, x') \<Longrightarrow> writing env x \<Longrightarrow> writing env x'"
  unfolding add_content_types_file_to_archive_def by (rule add_part_writing)

lemma thumbnail_writing:
  "add_thumbnail_file_to_archive env x = (r, x') \<Longrightarrow> writing env x \<Longrightarrow> writing env x'"
  unfolding add_thumbnail_file_to_archive_def
  by (auto split: if_splits intro: add_part_writing x_add_error_writing)

lemma relationships_writing:
  "add_relationships_file_to_archive env x = (r, x') \<Longrightarrow> writing env x \<Longrightarrow> writing env x'"
  unfolding add_relationships_file_to_archive_def by (rule add_part_writing)

lemma layer_height_writing:
  "add_layer_height_profile_file_to_archive env fmt_f x model = (r, x') \<Longrightarrow> writing env x
   \<Longrightarrow> writing env x'"
  unfolding add_layer_height_profile_file_to_archive_def
  by (auto split: if_splits intro: add_part_writing)

lemma layer_ranges_writing:
  "add_layer_config_ranges_file_to_archive env x model = (r, x') \<Longrightarrow> writing env x
   \<Longrightarrow> writing env x'"
  unfolding add_layer_config_ranges_file_to_archive_def
  by (auto split: if_splits intro: add_part_writing)

lemma sla_writing:
  "add_sla_support_points_file_to_archive env x model = (r, x') \<Longrightarrow> writing env x
   \<Longrightarrow> writing env x'"
  unfolding add_sla_support_points_file_to_archive_def
  by (auto split: if_splits intro: add_part_writing)

lemma print_config_writing:
  "add_print_config_file_to_archive env x = (r, x') \<Longrightarrow> writing env x \<Longrightarrow> writing env x'"
  unfolding add_print_config_file_to_archive_def by (rule add_part_writing)

lemma model_config_writing:
  "add_model_config_file_to_archive env x model = (r, x') \<Longrightarrow> writing env x \<Longrightarrow> writing env x'"
  unfolding add_model_config_file_to_archive_def by (rule add_part_writing)

lemma mesh_outcome:
  "(add_mesh_to_object_stream x vols = Returns r x' \<longrightarrow> (writing env x \<longrightarrow> writing env x'))
   \<and> (add_mesh_to_object_stream x vols = Throws e x' \<longrightarrow> x' = x \<and> precondition_error e)
   \<and> add_mesh_to_object_stream x vols \<noteq> Undefined"
  by (induction vols) (auto simp: precondition_error_def x_add_error_writing)

lemma instances_outcome:
  "(object_instances x oid obj i items insts = Returns r x' \<longrightarrow> (writing env x \<longrightarrow> writing env x'))
   \<and> (object_instances x oid obj i items insts = Throws e x'
        \<longrightarrow> (writing env x \<longrightarrow> writing env x') \<and> precondition_error e)
   \<and> object_instances x oid obj i items insts \<noteq> Undefined"
proof (induction insts arbitrary: x i items)
  case Nil
  then show ?case by simp
next
  case (Cons inst insts)
  show ?case
  proof (cases "i = 0")
    case False
    then show ?thesis using Cons[of x "i + 1"] by (simp add: Let_def)
  next
    case True
    show ?thesis
    proof (cases "add_mesh_to_object_stream x (volumes obj)")
      case (Returns res x1)
      then have w: "writing env x \<longrightarrow> writing env x1" using mesh_outcome[of x "volumes obj" res x1 env] by simp
      show ?thesis
      proof (cases res)
        case True
        then show ?thesis using \<open>i = 0\<close> Returns w Cons[of x1 "i + 1"] by (simp add: Let_def)
      next
        case False
        then show ?thesis using \<open>i = 0\<close> Returns w by (auto simp: Let_def x_add_error_writing)
      qed
    next
      case (Throws e1 x1)
      then have "x1 = x \<and> precondition_error e1" using mesh_outcome[of x "volumes obj" _ x1 env e1] by simp
      then show ?thesis using True Throws by (auto simp: Let_def)
    next
      case Undefined
      then show ?thesis using mesh_outcome[of x "volumes obj"] by simp
    qed
  qed
qed

lemma objects_outcome:
  "(model_objects x oid items objs = Returns r x' \<longrightarrow> (writing env x \<longrightarrow> writing env x'))
   \<and> (model_objects x oid items objs = Throws e x'
        \<longrightarrow> (writing env x \<longrightarrow> writing env x') \<and> precondition_error e)
   \<and> model_objects x oid items objs \<noteq> Undefined"
proof (induction objs arbitrary: x oid items)
  case Nil
  then show ?case by simp
next
  case (Cons po objs)
  obtain p obj where po: "po = (p, obj)" by (cases po)
  show ?case
  proof (cases "object_instances x oid obj 0 items (instances obj)")
    case (Returns res x1)
    obtain ok oid' items' where res: "res = (ok, oid', items')" by (cases res)
    have w: "writing env x \<longrightarrow> writing env x1"
      using instances_outcome[of x oid obj 0 items "instances obj" res x1 env] Returns by simp
    show ?thesis
    proof (cases ok)
      case True
      then show ?thesis using po Returns res w Cons[of x1 oid' items']
        by (simp add: add_object_to_model_stream_def)
    next
      case False
      then show ?thesis using po Returns res w
        by (auto simp: add_object_to_model_stream_def x_add_error_writing)
    qed
  next
    case (Throws e1 x1)
    then have "(writing env x \<longrightarrow> writing env x1) \<and> precondition_error e1"
      using instances_outcome[of x oid obj 0 items "instances obj" _ x1 env e1] by simp
    then show ?thesis using po Throws by (auto simp: add_object_to_model_stream_def)
  next
    case Undefined
    then show ?thesis using instances_outcome[of x oid obj 0 items "instances obj"] by simp
  qed
qed

lemma model_file_outcome:
  "(add_model_file_to_archive env x model = Returns r x' \<longrightarrow> (writing env x \<longrightarrow> writing env x'))
   \<and> (add_model_file_to_archive env x model = Throws e x'
        \<longrightarrow> (writing env x \<longrightarrow> writing env x') \<and> precondition_error e)
   \<and> add_model_file_to_archive env x model \<noteq> Undefined"
proof (cases "model_objects x 1 [] (objects model)")
  case (Returns res x1)
  obtain ok items where res: "res = (ok, items)" by (cases res)
  have w: "writing env x \<longrightarrow> writing env x1"
    using objects_outcome[of x 1 "[]" "objects model" res x1 env] Returns by simp
  show ?thesis using Returns res w
    by (auto simp: add_model_file_to_archive_def add_build_to_model_stream_def
          x_add_error_writing split: if_splits prod.splits dest: add_part_writing)
next
  case (Throws e1 x1)
  then have "(writing env x \<longrightarrow> writing env x1) \<and> precondition_error e1"
    using objects_outcome[of x 1 "[]" "objects model" _ x1 env e1] by simp
  then show ?thesis using Throws by (auto simp: add_model_file_to_archive_def)
next
  case Undefined
  then show ?thesis using objects_outcome[of x 1 "[]" "objects model"] by simp
qed

lemma close_and_remove_fields:
  "\<not> file_exists (close_and_remove x) \<and> \<not> archive_open (close_and_remove x)
   \<and> x_errors (close_and_remove x) = x_errors x"
  by (simp add: close_and_remove_def)

lemma save_outcome:
  assumes "open_zip_writer_ok env"
  shows "store_result_ok env (save_model_to_file_impl env fmt x0 model config thumb)"
proof -
  define x where "x = x0\<lparr>file_exists := True, archive_parts := [], archive_open := True,
                   archive_finalized := False\<rparr>"
  have w: "writing env x" by (simp add: writing_def x_def)
  obtain r1 x1 where s1: "add_content_types_file_to_archive env x = (r1, x1)" by force
  have w1: "writing env x1" using content_types_writing[OF s1 w] .
  obtain r2 x2 where s2: "(if thumb = Some True then add_thumbnail_file_to_archive env x1
                 else (True, x1)) = (r2, x2)" by force
  have w2: "writing env x2" using s2 w1 thumbnail_writing by (auto split: if_splits)
  obtain r3 x3 where s3: "add_relationships_file_to_archive env x2 = (r3, x3)" by force
  have w3: "writing env x3" using relationships_writing[OF s3 w2] .
  note m = model_file_outcome[of env x3 model]
  have head: "save_model_to_file_impl env fmt x0 model config thumb =
     (if \<not> r1 then Returns False (close_and_remove x1) else
      if \<not> r2 then Returns False (close_and_remove x2) else
      if \<not> r3 then Returns False (close_and_remove x3) else
      (case add_model_file_to_archive env x3 model of
              Throws e x4 \<Rightarrow> Throws e x4
            | Undefined \<Rightarrow> Undefined
            | Returns r4 x4 \<Rightarrow>
           if \<not> r4 then Returns False (close_and_remove x4) else
           case add_layer_height_profile_file_to_archive env fmt x4 model of (r5, x5) \<Rightarrow>
           if \<not> r5 then Returns False (close_and_remove x5) else
           case add_layer_config_ranges_file_to_archive env x5 model of (r6, x6) \<Rightarrow>
           if \<not> r6 then Returns False (close_and_remove x6) else
           case add_sla_support_points_file_to_archive env x6 model of (r7, x7) \<Rightarrow>
           if \<not> r7 then Returns False (close_and_remove x7) else
           case (if config then add_print_config_file_to_archive env x7 else (True, x7)) of (r8, x8) \<Rightarrow>
           if \<not> r8 then Returns False (close_and_remove x8) else
           case add_model_config_file_to_archive env x8 model of (r9, x9) \<Rightarrow>
           if \<not> r9 then Returns False (close_and_remove x9) else
           if \<not> finalize_archive_ok env
           then Returns False (x_add_error (close_and_remove x9) ''Unable to finalize the archive'')
           else Returns True (x9\<lparr>archive_finalized := True, archive_open := False\<rparr>)))"
    using assms s1 s2 s3 unfolding save_model_to_file_impl_def x_def[symmetric] Let_def
    by (simp only: if_not_P not_not split: prod.splits) auto
  show ?thesis
  proof (cases "r1 \<and> r2 \<and> r3")
    case False
    then show ?thesis unfolding head store_result_ok_def
      by (auto simp: close_and_remove_fields)
  next
    case True
    show ?thesis
    proof (cases "add_model_file_to_archive env x3 model")
      case Undefined
      then show ?thesis using m by simp
    next
      case (Throws e x4)
      then show ?thesis using m[of _ x4 e] True unfolding head store_result_ok_def by simp
    next
      case (Returns r4 x4)
      then have w4: "writing env x4" using m[of r4 x4] w3 by simp
      obtain r5 x5 where s5: "add_layer_height_profile_file_to_archive env fmt x4 model = (r5, x5)" by force
      have w5: "writing env x5" using layer_height_writing[OF s5 w4] .
      obtain r6 x6 where s6: "add_layer_config_ranges_file_to_archive env x5 model = (r6, x6)" by force
      have w6: "writing env x6" using layer_ranges_writing[OF s6 w5] .
      obtain r7 x7 where s7: "add_sla_support_points_file_to_archive env x6 model = (r7, x7)" by force
      have w7: "writing env x7" using sla_writing[OF s7 w6] .
      obtain r8 x8 where s8: "(if config then add_print_config_file_to_archive env x7 else (True, x7)) = (r8, x8)" by force
      have w8: "writing env x8" using s8 w7 print_config_writing by (auto split: if_splits)
      obtain r9 x9 where s9: "add_model_config_file_to_archive env x8 model = (r9, x9)" by force
      have w9: "writing env x9" using model_config_writing[OF s9 w8] .
      show ?thesis using True Returns s5 s6 s7 s8 s9 w9
        unfolding head store_result_ok_def
        by (auto simp: close_and_remove_fields x_add_error_def close_and_remove_def writing_def)
    qed
  qed
qed

text \<open>The mesh writer, the loop over the instances, the loop over the objects and the
  model file: when each returns true, and when each throws.\<close>

lemma mesh_writable:
  "list_all writable_volume vols \<Longrightarrow> add_mesh_to_object_stream x vols = Returns True x"
  by (induction vols) (simp_all add: writable_volume_def mesh_ready_def)

lemma mesh_unready:
  "list_all writable_volume vpre \<Longrightarrow> \<not> mesh_ready v
   \<Longrightarrow> add_mesh_to_object_stream x (vpre @ v # vs) = Throws (mesh_error v) x"
  by (induction vpre) (auto simp: writable_volume_def mesh_ready_def mesh_error_def)

lemma mesh_returns_true:
  "add_mesh_to_object_stream x vols = Returns True x' \<Longrightarrow> list_all writable_volume vols \<and> x' = x"
  by (induction vols) (auto simp: writable_volume_def mesh_ready_def split: if_splits)

lemma mesh_throws:
  "add_mesh_to_object_stream x vols = Throws e x' \<Longrightarrow> \<not> list_all mesh_ready vols"
  by (induction vols) (auto simp: mesh_ready_def split: if_splits)

lemma instances_writable:
  "list_all writable_volume (volumes obj)
   \<Longrightarrow> \<exists>oid' items'. object_instances x oid obj i items insts = Returns (True, oid', items') x
         \<and> length items' = length items + length insts"
proof (induction insts arbitrary: i items)
  case Nil
  show ?case by simp
next
  case (Cons inst insts)
  let ?item = "\<lparr>bi_id = oid + i, bi_transform = mi_matrix inst, bi_printable = printable inst\<rparr>"
  obtain oid' items' where
    "object_instances x oid obj (i + 1) (items @ [?item]) insts = Returns (True, oid', items') x"
    "length items' = length (items @ [?item]) + length insts"
    using Cons.IH[OF Cons.prems] by blast
  then show ?case using mesh_writable[OF Cons.prems, of x] by (cases "i = 0") (auto simp: Let_def)
qed

lemma instances_returns_true:
  "object_instances x oid obj i items insts = Returns (True, oid', items') x'
   \<Longrightarrow> x' = x \<and> length items' = length items + length insts"
proof (induction insts arbitrary: i items)
  case Nil
  then show ?case by simp
next
  case (Cons inst insts)
  let ?item = "\<lparr>bi_id = oid + i, bi_transform = mi_matrix inst, bi_printable = printable inst\<rparr>"
  show ?case
  proof (cases "i = 0")
    case False
    then have "object_instances x oid obj (i + 1) (items @ [?item]) insts = Returns (True, oid', items') x'"
      using Cons.prems by (simp add: Let_def)
    from Cons.IH[OF this] show ?thesis by simp
  next
    case True
    show ?thesis
    proof (cases "add_mesh_to_object_stream x (volumes obj)")
      case (Returns res x1)
      then have res: res using Cons.prems True by (auto simp: Let_def split: if_splits)
      then have x1: "x1 = x" using mesh_returns_true[of x "volumes obj" x1] Returns by simp
      then have "object_instances x oid obj (i + 1) (items @ [?item]) insts = Returns (True, oid', items') x'"
        using Cons.prems True Returns res by (simp add: Let_def)
      from Cons.IH[OF this] show ?thesis by simp
    next
      case (Throws e x1)
      then show ?thesis using Cons.prems True by (simp add: Let_def)
    next
      case Undefined
      then show ?thesis using Cons.prems True by (simp add: Let_def)
    qed
  qed
qed

lemma object_writable:
  "writable_object obj
   \<Longrightarrow> \<exists>oid' items'. add_object_to_model_stream x oid obj items = Returns (True, oid', items') x
         \<and> length items' = length items + length (instances obj)"
proof (cases "instances obj = []")
  case True
  then show ?thesis by (simp add: add_object_to_model_stream_def)
next
  case False
  assume "writable_object obj"
  then have "list_all writable_volume (volumes obj)" using False by (simp add: writable_object_def)
  then show ?thesis unfolding add_object_to_model_stream_def by (rule instances_writable)
qed

lemma object_returns_true:
  assumes "add_object_to_model_stream x oid obj items = Returns (True, oid', items') x'"
  shows "writable_object obj \<and> x' = x \<and> length items' = length items + length (instances obj)"
proof (cases "instances obj")
  case Nil
  then show ?thesis using assms by (auto simp: add_object_to_model_stream_def writable_object_def)
next
  case (Cons inst insts)
  have r: "x' = x \<and> length items' = length items + length (instances obj)"
    using instances_returns_true assms unfolding add_object_to_model_stream_def by blast
  have "\<exists>x1. add_mesh_to_object_stream x (volumes obj) = Returns True x1"
    using assms Cons
    by (auto simp: add_object_to_model_stream_def Let_def split: outcome.splits if_splits)
  then have "list_all writable_volume (volumes obj)" using mesh_returns_true by blast
  then show ?thesis using r by (simp add: writable_object_def)
qed

lemma object_unready:
  assumes "instances obj \<noteq> []" and "volumes obj = vpre @ v # vs"
      and "list_all writable_volume vpre" and "\<not> mesh_ready v"
  shows "add_object_to_model_stream x oid obj items = Throws (mesh_error v) x"
proof -
  obtain inst insts where i: "instances obj = inst # insts" using assms(1) by (cases "instances obj") auto
  show ?thesis
    using mesh_unready[OF assms(3,4), of x vs] assms(2) i
    by (simp add: add_object_to_model_stream_def Let_def)
qed

lemma object_throws:
  assumes "add_object_to_model_stream x oid obj items = Throws e x'"
  shows "instances obj \<noteq> [] \<and> \<not> list_all mesh_ready (volumes obj)"
proof -
  have "\<And>i items. object_instances x oid obj i items insts = Throws e x'
          \<Longrightarrow> insts \<noteq> [] \<and> \<not> list_all mesh_ready (volumes obj)" for insts
  proof (induction insts)
    case Nil
    then show ?case by simp
  next
    case (Cons inst insts)
    show ?case
    proof (cases "i = 0")
      case False
      then show ?thesis using Cons.prems Cons.IH by (auto simp: Let_def)
    next
      case True
      show ?thesis
      proof (cases "add_mesh_to_object_stream x (volumes obj)")
        case (Returns res x1)
        then show ?thesis using Cons.prems Cons.IH True
          by (cases res) (auto simp: Let_def dest: mesh_returns_true)
      next
        case (Throws e1 x1)
        then show ?thesis using mesh_throws by blast
      next
        case Undefined
        then show ?thesis using Cons.prems True by (simp add: Let_def)
      qed
    qed
  qed
  then show ?thesis using assms unfolding add_object_to_model_stream_def by blast
qed

lemma objects_writable:
  "list_all (\<lambda>po. writable_object (snd po)) pre
   \<Longrightarrow> \<exists>oid' items'. model_objects x oid items (pre @ rest) = model_objects x oid' items' rest
         \<and> length items' = length items + (\<Sum>po \<leftarrow> pre. length (instances (snd po)))"
proof (induction pre arbitrary: oid items)
  case Nil
  show ?case by auto
next
  case (Cons po pre)
  obtain p obj where po: "po = (p, obj)" by (cases po)
  have w: "writable_object obj" using Cons.prems po by simp
  obtain oid1 items1 where
    o: "add_object_to_model_stream x oid obj items = Returns (True, oid1, items1) x"
    and l: "length items1 = length items + length (instances obj)"
    using object_writable[OF w] by blast
  have "list_all (\<lambda>po. writable_object (snd po)) pre" using Cons.prems by simp
  from Cons.IH[OF this, of oid1 items1]
  obtain oid' items' where
    "model_objects x oid1 items1 (pre @ rest) = model_objects x oid' items' rest"
    "length items' = length items1 + (\<Sum>po \<leftarrow> pre. length (instances (snd po)))"
    by blast
  then show ?case using o l po by (intro exI[of _ oid'] exI[of _ items']) simp
qed

lemma objects_all_writable:
  assumes "list_all (\<lambda>po. writable_object (snd po)) objs"
  shows "\<exists>items'. model_objects x oid items objs = Returns (True, items') x
         \<and> length items' = length items + (\<Sum>po \<leftarrow> objs. length (instances (snd po)))"
  using objects_writable[OF assms, of x oid items "[]"] by auto

lemma objects_returns_true:
  "model_objects x oid items objs = Returns (True, items') x'
   \<Longrightarrow> list_all (\<lambda>po. writable_object (snd po)) objs \<and> x' = x
       \<and> length items' = length items + (\<Sum>po \<leftarrow> objs. length (instances (snd po)))"
proof (induction objs arbitrary: oid items)
  case Nil
  then show ?case by simp
next
  case (Cons po objs)
  obtain p obj where po: "po = (p, obj)" by (cases po)
  show ?case
  proof (cases "add_object_to_model_stream x oid obj items")
    case (Returns res x1)
    obtain ok oid1 items1 where res: "res = (ok, oid1, items1)" by (cases res)
    have ok: ok using Cons.prems po Returns res by (auto split: if_splits)
    have o: "writable_object obj \<and> x1 = x \<and> length items1 = length items + length (instances obj)"
      using object_returns_true[of x oid obj items oid1 items1 x1] Returns res ok by simp
    then have "model_objects x oid1 items1 objs = Returns (True, items') x'"
      using Cons.prems po Returns res ok by simp
    from Cons.IH[OF this] show ?thesis using o po by simp
  next
    case (Throws e x1)
    then show ?thesis using Cons.prems po by simp
  next
    case Undefined
    then show ?thesis using Cons.prems po by simp
  qed
qed

lemma objects_unready:
  assumes "list_all (\<lambda>po. writable_object (snd po)) pre"
      and "instances obj \<noteq> []" and "volumes obj = vpre @ v # vs"
      and "list_all writable_volume vpre" and "\<not> mesh_ready v"
  shows "model_objects x oid items (pre @ (p, obj) # rest) = Throws (mesh_error v) x"
proof -
  obtain oid' items' where
    "model_objects x oid items (pre @ (p, obj) # rest) = model_objects x oid' items' ((p, obj) # rest)"
    using objects_writable[OF assms(1)] by blast
  then show ?thesis using object_unready[OF assms(2,3,4,5), of x oid' items'] by simp
qed

lemma objects_throws:
  "model_objects x oid items objs = Throws e x'
   \<Longrightarrow> \<not> list_all (\<lambda>po. instances (snd po) = [] \<or> list_all mesh_ready (volumes (snd po))) objs"
proof (induction objs arbitrary: x oid items)
  case Nil
  then show ?case by simp
next
  case (Cons po objs)
  obtain p obj where po: "po = (p, obj)" by (cases po)
  show ?case
  proof (cases "add_object_to_model_stream x oid obj items")
    case (Returns res x1)
    obtain ok oid1 items1 where res: "res = (ok, oid1, items1)" by (cases res)
    show ?thesis
    proof (cases ok)
      case True
      then have "model_objects x1 oid1 items1 objs = Throws e x'"
        using Cons.prems po Returns res by simp
      from Cons.IH[OF this] show ?thesis by simp
    next
      case False
      then show ?thesis using Cons.prems po Returns res by simp
    qed
  next
    case (Throws e1 x1)
    then show ?thesis using object_throws po by fastforce
  next
    case Undefined
    then show ?thesis using Cons.prems po by simp
  qed
qed

lemma some_items:
  "list_ex (\<lambda>po. instances (snd po) \<noteq> []) objs
   \<Longrightarrow> 0 < (\<Sum>po \<leftarrow> objs. length (instances (snd po)))"
  by (induction objs) auto

lemma no_items:
  "0 < (\<Sum>po \<leftarrow> objs. length (instances (snd po)))
   \<Longrightarrow> list_ex (\<lambda>po. instances (snd po) \<noteq> []) objs"
  by (induction objs) (auto split: if_splits)

lemma model_file_composes:
  assumes "composes model"
  shows "add_model_file_to_archive env x model
           = (if add_mem_ok env MODEL_FILE
              then Returns True (x\<lparr>archive_parts := archive_parts x @ [MODEL_FILE]\<rparr>)
              else Returns False (x_add_error x ''Unable to add model file to archive''))"
proof -
  obtain items' where
    m: "model_objects x 1 [] (objects model) = Returns (True, items') x"
    and l: "length items' = length ([] :: BuildItem list) + (\<Sum>po \<leftarrow> objects model. length (instances (snd po)))"
    using objects_all_writable[of "objects model" x 1 "[]"] assms by (auto simp: composes_def)
  have "list_ex (\<lambda>po. instances (snd po) \<noteq> []) (objects model)"
    using assms unfolding composes_def by (rule conjunct2)
  then have "0 < (\<Sum>po \<leftarrow> objects model. length (instances (snd po)))" by (rule some_items)
  moreover have "length items' = (\<Sum>po \<leftarrow> objects model. length (instances (snd po)))"
    using l by simp
  ultimately have "0 < length items'" by linarith
  then have "items' \<noteq> []" by simp
  then show ?thesis using m
    by (simp add: add_model_file_to_archive_def add_build_to_model_stream_def add_part_def)
qed

lemma model_file_returns_true:
  assumes "add_model_file_to_archive env x model = Returns True x'"
  shows "composes model"
proof (cases "model_objects x 1 [] (objects model)")
  case (Returns res x1)
  obtain ok items' where res: "res = (ok, items')" by (cases res)
  have ok: ok using assms Returns res by (auto simp: add_model_file_to_archive_def split: if_splits)
  have w: "list_all (\<lambda>po. writable_object (snd po)) (objects model)"
    and l: "length items' = length ([] :: BuildItem list) + (\<Sum>po \<leftarrow> objects model. length (instances (snd po)))"
    using objects_returns_true[of x 1 "[]" "objects model" items' x1] Returns res ok by simp_all
  have "items' \<noteq> []" using assms Returns res ok
    by (auto simp: add_model_file_to_archive_def add_build_to_model_stream_def split: if_splits)
  then have "0 < length items'" by simp
  moreover have "length items' = (\<Sum>po \<leftarrow> objects model. length (instances (snd po)))"
    using l by simp
  ultimately have "0 < (\<Sum>po \<leftarrow> objects model. length (instances (snd po)))" by linarith
  then have "list_ex (\<lambda>po. instances (snd po) \<noteq> []) (objects model)" by (rule no_items)
  then show ?thesis using w unfolding composes_def by (rule conjI[rotated])
next
  case (Throws e x1)
  then show ?thesis using assms by (simp add: add_model_file_to_archive_def)
next
  case Undefined
  then show ?thesis using assms by (simp add: add_model_file_to_archive_def)
qed

lemma model_file_throws:
  assumes "add_model_file_to_archive env x model = Throws e x'"
  shows "\<not> meshes_ready model"
proof -
  have "model_objects x 1 [] (objects model) = Throws e x'"
    using assms
    by (auto simp: add_model_file_to_archive_def split: outcome.splits prod.splits if_splits)
  then show ?thesis unfolding meshes_ready_def by (rule objects_throws)
qed

lemma model_file_unready:
  assumes "objects model = pre @ (p, obj) # rest"
      and "list_all (\<lambda>po. writable_object (snd po)) pre"
      and "instances obj \<noteq> []" and "volumes obj = vpre @ v # vs"
      and "list_all writable_volume vpre" and "\<not> mesh_ready v"
  shows "add_model_file_to_archive env x model = Throws (mesh_error v) x"
  using objects_unready[OF assms(2,3,4,5,6), of x 1 "[]" p rest] assms(1)
  by (simp add: add_model_file_to_archive_def)

text \<open>The store of a scene whose model file can be composed returns true exactly when every
  part is accepted and the archive finalized; the store of another scene never returns
  true; an exception needs the three parts before the model file to be accepted.\<close>

lemmas part_defs = add_content_types_file_to_archive_def add_thumbnail_file_to_archive_def
  add_relationships_file_to_archive_def add_layer_height_profile_file_to_archive_def
  add_layer_config_ranges_file_to_archive_def add_sla_support_points_file_to_archive_def
  add_print_config_file_to_archive_def add_model_config_file_to_archive_def add_part_def

lemma save_composes:
  assumes "open_zip_writer_ok env" and "composes model"
  shows "save_model_to_file_impl env fmt_f x0 model config thumbnail_data = Returns True x
         \<longleftrightarrow> (thumbnail_data = Some True \<longrightarrow> png_ok env)
             \<and> list_all (add_mem_ok env) (written_parts fmt_f model config thumbnail_data)
             \<and> finalize_archive_ok env
             \<and> x = x0\<lparr>file_exists := True,
                      archive_parts := written_parts fmt_f model config thumbnail_data,
                      archive_open := False, archive_finalized := True\<rparr>"
  unfolding save_model_to_file_impl_def written_parts_def Let_def
  using assms(1)
  by (cases "thumbnail_data = Some True";
      cases "layer_height_profile_out fmt_f 0 (objects model) \<noteq> []";
      cases "list_ex (\<lambda>po. layer_config_ranges (snd po) \<noteq> []) (objects model)";
      cases "list_ex (\<lambda>po. sla_support_points (snd po) \<noteq> []) (objects model)";
      cases config)
     (auto simp: part_defs model_file_composes[OF assms(2)] close_and_remove_def x_add_error_def)

lemma save_not_composes:
  assumes "\<not> composes model"
  shows "save_model_to_file_impl env fmt_f x0 model config thumbnail_data \<noteq> Returns True x"
proof
  assume r: "save_model_to_file_impl env fmt_f x0 model config thumbnail_data = Returns True x"
  have o: "open_zip_writer_ok env"
    using r by (auto simp: save_model_to_file_impl_def split: if_splits)
  define y where "y = x0\<lparr>file_exists := True, archive_parts := [], archive_open := True,
                   archive_finalized := False\<rparr>"
  obtain r1 x1 where s1: "add_content_types_file_to_archive env y = (r1, x1)" by force
  obtain r2 x2 where s2: "(if thumbnail_data = Some True then add_thumbnail_file_to_archive env x1
                 else (True, x1)) = (r2, x2)" by force
  obtain r3 x3 where s3: "add_relationships_file_to_archive env x2 = (r3, x3)" by force
  have "\<exists>x4. add_model_file_to_archive env x3 model = Returns True x4"
    using r o s1 s2 s3 unfolding save_model_to_file_impl_def y_def[symmetric] Let_def
    by (cases "add_model_file_to_archive env x3 model") (auto split: if_splits prod.splits)
  then show False using assms model_file_returns_true by blast
qed

lemma save_throws:
  assumes "save_model_to_file_impl env fmt_f x0 model config thumbnail_data = Throws e x"
  shows "\<not> meshes_ready model \<and> open_zip_writer_ok env \<and> add_mem_ok env CONTENT_TYPES_FILE
         \<and> (thumbnail_data = Some True \<longrightarrow> png_ok env \<and> add_mem_ok env THUMBNAIL_FILE)
         \<and> add_mem_ok env RELATIONSHIPS_FILE"
proof -
  have o: "open_zip_writer_ok env"
    using assms by (auto simp: save_model_to_file_impl_def split: if_splits)
  define y where "y = x0\<lparr>file_exists := True, archive_parts := [], archive_open := True,
                   archive_finalized := False\<rparr>"
  obtain r1 x1 where s1: "add_content_types_file_to_archive env y = (r1, x1)" by force
  obtain r2 x2 where s2: "(if thumbnail_data = Some True then add_thumbnail_file_to_archive env x1
                 else (True, x1)) = (r2, x2)" by force
  obtain r3 x3 where s3: "add_relationships_file_to_archive env x2 = (r3, x3)" by force
  have t: "r1 \<and> r2 \<and> r3 \<and> (\<exists>x4. add_model_file_to_archive env x3 model = Throws e x4)"
    using assms o s1 s2 s3 unfolding save_model_to_file_impl_def y_def[symmetric] Let_def
    by (cases "add_model_file_to_archive env x3 model") (auto split: if_splits prod.splits)
  have "add_mem_ok env CONTENT_TYPES_FILE" using s1 t by (auto simp: part_defs split: if_splits)
  moreover have "thumbnail_data = Some True \<longrightarrow> png_ok env \<and> add_mem_ok env THUMBNAIL_FILE"
    using s2 t by (auto simp: part_defs split: if_splits)
  moreover have "add_mem_ok env RELATIONSHIPS_FILE" using s3 t by (auto simp: part_defs split: if_splits)
  moreover have "\<not> meshes_ready model" using t model_file_throws by blast
  ultimately show ?thesis using o by simp
qed

lemma save_unready:
  assumes "open_zip_writer_ok env" and "add_mem_ok env CONTENT_TYPES_FILE"
      and "thumbnail_data = Some True \<longrightarrow> png_ok env \<and> add_mem_ok env THUMBNAIL_FILE"
      and "add_mem_ok env RELATIONSHIPS_FILE"
      and "objects model = pre @ (p, obj) # rest"
      and "list_all (\<lambda>po. writable_object (snd po)) pre"
      and "instances obj \<noteq> []" and "volumes obj = vpre @ v # vs"
      and "list_all writable_volume vpre" and "\<not> mesh_ready v"
  shows "\<exists>x. save_model_to_file_impl env fmt_f x0 model config thumbnail_data
               = Throws (mesh_error v) x"
  using assms(1,2,3,4)
  by (cases "thumbnail_data = Some True")
     (simp_all add: save_model_to_file_impl_def Let_def part_defs
        model_file_unready[OF assms(5,6,7,8,9,10)])

lemma store_ok:
  assumes "open_zip_writer_ok env"
  shows "store_result_ok env (store_3mf env fmt_f exists_before model config thumbnail_data)"
  unfolding store_3mf_def by (rule save_outcome[OF assms])

lemma store_classified:
  assumes "open_zip_writer_ok env"
  shows "(\<exists>x. store_3mf env fmt_f exists_before model config thumbnail_data = Returns True x)
       \<or> (\<exists>x. store_3mf env fmt_f exists_before model config thumbnail_data = Returns False x
                \<and> \<not> file_exists x \<and> \<not> archive_open x)
       \<or> (\<exists>e x. store_3mf env fmt_f exists_before model config thumbnail_data = Throws e x
                \<and> precondition_error e)"
proof -
  have ok: "store_result_ok env (store_3mf env fmt_f exists_before model config thumbnail_data)"
    unfolding store_3mf_def by (rule save_outcome[OF assms])
  show ?thesis
  proof (cases "store_3mf env fmt_f exists_before model config thumbnail_data")
    case (Returns r x)
    then show ?thesis using ok by (cases r) (auto simp: store_result_ok_def)
  next
    case (Throws e x)
    then show ?thesis using ok by (auto simp: store_result_ok_def)
  next
    case Undefined
    then show ?thesis using ok by (auto simp: store_result_ok_def)
  qed
qed

lemma store_true_iff:
  assumes "open_zip_writer_ok env"
  shows "store_3mf env fmt_f exists_before model config thumbnail_data = Returns True x
         \<longleftrightarrow> (thumbnail_data = Some True \<longrightarrow> png_ok env)
             \<and> list_all (add_mem_ok env) (written_parts fmt_f model config thumbnail_data)
             \<and> composes model
             \<and> finalize_archive_ok env
             \<and> x = \<lparr>x_errors = [], file_exists = True,
                     archive_parts = written_parts fmt_f model config thumbnail_data,
                     archive_open = False, archive_finalized = True\<rparr>"
proof (cases "composes model")
  case True
  show ?thesis unfolding store_3mf_def save_composes[OF assms True] using True by auto
next
  case False
  then show ?thesis unfolding store_3mf_def using save_not_composes by blast
qed

lemma store_false_removed:
  assumes "open_zip_writer_ok env"
  shows "store_3mf env fmt_f exists_before model config thumbnail_data = Returns False x
         \<longrightarrow> \<not> file_exists x \<and> \<not> archive_open x"
  using store_ok[OF assms, of fmt_f exists_before model config thumbnail_data]
  by (auto simp: store_result_ok_def)

lemma store_defined:
  assumes "open_zip_writer_ok env"
  shows "store_3mf env fmt_f exists_before model config thumbnail_data \<noteq> Undefined"
  using store_ok[OF assms, of fmt_f exists_before model config thumbnail_data]
  by (auto simp: store_result_ok_def)

lemma store_throws:
  assumes "open_zip_writer_ok env"
  shows "store_3mf env fmt_f exists_before model config thumbnail_data = Throws e x
         \<longrightarrow> (e = runtime_error ''store_3mf() requires repair()''
               \<or> e = runtime_error ''store_3mf() requires shared vertices'')
             \<and> \<not> meshes_ready model
             \<and> add_mem_ok env CONTENT_TYPES_FILE
             \<and> (thumbnail_data = Some True \<longrightarrow> png_ok env \<and> add_mem_ok env THUMBNAIL_FILE)
             \<and> add_mem_ok env RELATIONSHIPS_FILE"
proof
  assume t: "store_3mf env fmt_f exists_before model config thumbnail_data = Throws e x"
  have "precondition_error e"
    using store_ok[OF assms, of fmt_f exists_before model config thumbnail_data] t
    by (auto simp: store_result_ok_def)
  then show "(e = runtime_error ''store_3mf() requires repair()''
               \<or> e = runtime_error ''store_3mf() requires shared vertices'')
             \<and> \<not> meshes_ready model
             \<and> add_mem_ok env CONTENT_TYPES_FILE
             \<and> (thumbnail_data = Some True \<longrightarrow> png_ok env \<and> add_mem_ok env THUMBNAIL_FILE)
             \<and> add_mem_ok env RELATIONSHIPS_FILE"
    using save_throws[OF t[unfolded store_3mf_def]] by (simp add: precondition_error_def)
qed

lemma store_fails:
  assumes "open_zip_writer_ok env"
  shows "meshes_ready model
         \<and> \<not> ((thumbnail_data = Some True \<longrightarrow> png_ok env)
               \<and> list_all (add_mem_ok env) (written_parts fmt_f model config thumbnail_data)
               \<and> composes model
               \<and> finalize_archive_ok env)
         \<longrightarrow> (\<exists>x'. store_3mf env fmt_f exists_before model config thumbnail_data = Returns False x'
                   \<and> \<not> file_exists x' \<and> \<not> archive_open x')"
proof
  let ?store = "store_3mf env fmt_f exists_before model config thumbnail_data"
  assume a: "meshes_ready model
         \<and> \<not> ((thumbnail_data = Some True \<longrightarrow> png_ok env)
               \<and> list_all (add_mem_ok env) (written_parts fmt_f model config thumbnail_data)
               \<and> composes model
               \<and> finalize_archive_ok env)"
  have "\<not> (\<exists>x. ?store = Returns True x)"
    using a store_true_iff[OF assms, of fmt_f exists_before model config thumbnail_data] by blast
  moreover have "\<not> (\<exists>e x. ?store = Throws e x)"
    using a store_throws[OF assms, of fmt_f exists_before model config thumbnail_data] by blast
  ultimately show "\<exists>x'. ?store = Returns False x' \<and> \<not> file_exists x' \<and> \<not> archive_open x'"
    using store_classified[OF assms, of fmt_f exists_before model config thumbnail_data] by blast
qed

lemma store_unready:
  assumes "open_zip_writer_ok env"
  shows "add_mem_ok env CONTENT_TYPES_FILE
         \<and> (thumbnail_data = Some True \<longrightarrow> png_ok env \<and> add_mem_ok env THUMBNAIL_FILE)
         \<and> add_mem_ok env RELATIONSHIPS_FILE
         \<and> objects model = pre @ (p, obj) # rest
         \<and> list_all (\<lambda>po. writable_object (snd po)) pre
         \<and> instances obj \<noteq> []
         \<and> volumes obj = vpre @ v # vs
         \<and> list_all writable_volume vpre
         \<and> \<not> mesh_ready v
         \<longrightarrow> (\<exists>x'. store_3mf env fmt_f exists_before model config thumbnail_data
                     = Throws (mesh_error v) x')"
  unfolding store_3mf_def
  using save_unready[OF assms, of thumbnail_data model pre p obj rest vpre v vs fmt_f _ config]
  by blast

lemma store_not_opened:
  assumes "\<not> open_zip_writer_ok env"
  shows "store_3mf env fmt_f exists_before model config thumbnail_data
        = Returns False
            \<lparr>x_errors = [''Unable to open the file''], file_exists = exists_before,
             archive_parts = [], archive_open = False, archive_finalized = False\<rparr>"
  using assms by (simp add: store_3mf_def save_model_to_file_impl_def x_add_error_def)

text \<open>Claim C6, amended. For every store whose archive can be opened. The store returns
  true exactly when the thumbnail (if one is given) can be encoded, the zip writer
  accepts every part the store has to add, the model file can be composed and the
  archive is finalized; the output file then exists, closed and finalized, with exactly
  these parts. When the store returns false, whichever part was refused or whatever else
  failed, the archive has been closed and the output file removed. For a scene whose
  meshes are ready each of these failures (a part that is refused, a thumbnail that
  cannot be encoded, a mesh without vertices, a scene without build item, a failed
  finalization) does make the store return false. The only exceptions that leave the
  store are the two \<open>std::runtime_error\<close> of the mesh writer, and only for a scene with
  a mesh that is not ready, after the three parts before the model file were accepted;
  and the store does throw when, these parts being accepted, the first volume that is
  not writable in the first object that is not writable has a mesh that is not ready:
  it does not return false then. When the archive cannot be opened, the store returns
  false with the error \<open>Unable to open the file\<close> and touches no file.\<close>

theorem failed_store_removes_file:
  "(open_zip_writer_ok env \<longrightarrow>
      (store_3mf env fmt_f exists_before model config thumbnail_data = Returns True x
         \<longleftrightarrow> (thumbnail_data = Some True \<longrightarrow> png_ok env)
             \<and> list_all (add_mem_ok env) (written_parts fmt_f model config thumbnail_data)
             \<and> composes model
             \<and> finalize_archive_ok env
             \<and> x = \<lparr>x_errors = [], file_exists = True,
                     archive_parts = written_parts fmt_f model config thumbnail_data,
                     archive_open = False, archive_finalized = True\<rparr>)
    \<and> (store_3mf env fmt_f exists_before model config thumbnail_data = Returns False x
         \<longrightarrow> \<not> file_exists x \<and> \<not> archive_open x)
    \<and> (meshes_ready model
         \<and> \<not> ((thumbnail_data = Some True \<longrightarrow> png_ok env)
               \<and> list_all (add_mem_ok env) (written_parts fmt_f model config thumbnail_data)
               \<and> composes model
               \<and> finalize_archive_ok env)
         \<longrightarrow> (\<exists>x'. store_3mf env fmt_f exists_before model config thumbnail_data = Returns False x'
                   \<and> \<not> file_exists x' \<and> \<not> archive_open x'))
    \<and> (store_3mf env fmt_f exists_before model config thumbnail_data = Throws e x
         \<longrightarrow> (e = runtime_error ''store_3mf() requires repair()''
               \<or> e = runtime_error ''store_3mf() requires shared vertices'')
             \<and> \<not> meshes_ready model
             \<and> add_mem_ok env CONTENT_TYPES_FILE
             \<and> (thumbnail_data = Some True \<longrightarrow> png_ok env \<and> add_mem_ok env THUMBNAIL_FILE)
             \<and> add_mem_ok env RELATIONSHIPS_FILE)
    \<and> (add_mem_ok env CONTENT_TYPES_FILE
         \<and> (thumbnail_data = Some True \<longrightarrow> png_ok env \<and> add_mem_ok env THUMBNAIL_FILE)
         \<and> add_mem_ok env RELATIONSHIPS_FILE
         \<and> objects model = pre @ (p, obj) # rest
         \<and> list_all (\<lambda>po. writable_object (snd po)) pre
         \<and> instances obj \<noteq> []
         \<and> volumes obj = vpre @ v # vs
         \<and> list_all writable_volume vpre
         \<and> \<not> mesh_ready v
         \<longrightarrow> (\<exists>x'. store_3mf env fmt_f exists_before model config thumbnail_data
                     = Throws (mesh_error v) x'))
    \<and> store_3mf env fmt_f exists_before model config thumbnail_data \<noteq> Undefined)
   \<and> (\<not> open_zip_writer_ok env \<longrightarrow>
      store_3mf env fmt_f exists_before model config thumbnail_data
        = Returns False
            \<lparr>x_errors = [''Unable to open the file''], file_exists = exists_before,
             archive_parts = [], archive_open = False, archive_finalized = False\<rparr>)"
proof (rule conjI)
  show "\<not> open_zip_writer_ok env \<longrightarrow>
      store_3mf env fmt_f exists_before model config thumbnail_data
        = Returns False
            \<lparr>x_errors = [''Unable to open the file''], file_exists = exists_before,
             archive_parts = [], archive_open = False, archive_finalized = False\<rparr>"
    using store_not_opened by blast
next
  show "open_zip_writer_ok env \<longrightarrow>
      (store_3mf env fmt_f exists_before model config thumbnail_data = Returns True x
         \<longleftrightarrow> (thumbnail_data = Some True \<longrightarrow> png_ok env)
             \<and> list_all (add_mem_ok env) (written_parts fmt_f model config thumbnail_data)
             \<and> composes model
             \<and> finalize_archive_ok env
             \<and> x = \<lparr>x_errors = [], file_exists = True,
                     archive_parts = written_parts fmt_f model config thumbnail_data,
                     archive_open = False, archive_finalized = True\<rparr>)
    \<and> (store_3mf env fmt_f exists_before model config thumbnail_data = Returns False x
         \<longrightarrow> \<not> file_exists x \<and> \<not> archive_open x)
    \<and> (meshes_ready model
         \<and> \<not> ((thumbnail_data = Some True \<longrightarrow> png_ok env)
               \<and> list_all (add_mem_ok env) (written_parts fmt_f model config thumbnail_data)
               \<and> composes model
               \<and> finalize_archive_ok env)
         \<longrightarrow> (\<exists>x'. store_3mf env fmt_f exists_before model config thumbnail_data = Returns False x'
                   \<and> \<not> file_exists x' \<and> \<not> archive_open x'))
    \<and> (store_3mf env fmt_f exists_before model config thumbnail_data = Throws e x
         \<longrightarrow> (e = runtime_error ''store_3mf() requires repair()''
               \<or> e = runtime_error ''store_3mf() requires shared vertices'')
             \<and> \<not> meshes_ready model
             \<and> add_mem_ok env CONTENT_TYPES_FILE
             \<and> (thumbnail_data = Some True \<longrightarrow> png_ok env \<and> add_mem_ok env THUMBNAIL_FILE)
             \<and> add_mem_ok env RELATIONSHIPS_FILE)
    \<and> (add_mem_ok env CONTENT_TYPES_FILE
         \<and> (thumbnail_data = Some True \<longrightarrow> png_ok env \<and> add_mem_ok env THUMBNAIL_FILE)
         \<and> add_mem_ok env RELATIONSHIPS_FILE
         \<and> objects model = pre @ (p, obj) # rest
         \<and> list_all (\<lambda>po. writable_object (snd po)) pre
         \<and> instances obj \<noteq> []
         \<and> volumes obj = vpre @ v # vs
         \<and> list_all writable_volume vpre
         \<and> \<not> mesh_ready v
         \<longrightarrow> (\<exists>x'. store_3mf env fmt_f exists_before model config thumbnail_data
                     = Throws (mesh_error v) x'))
    \<and> store_3mf env fmt_f exists_before model config thumbnail_data \<noteq> Undefined"
  proof (rule impI)
    assume o: "open_zip_writer_ok env"
    show "(store_3mf env fmt_f exists_before model config thumbnail_data = Returns True x
         \<longleftrightarrow> (thumbnail_data = Some True \<longrightarrow> png_ok env)
             \<and> list_all (add_mem_ok env) (written_parts fmt_f model config thumbnail_data)
             \<and> composes model
             \<and> finalize_archive_ok env
             \<and> x = \<lparr>x_errors = [], file_exists = True,
                     archive_parts = written_parts fmt_f model config thumbnail_data,
                     archive_open = False, archive_finalized = True\<rparr>)
    \<and> (store_3mf env fmt_f exists_before model config thumbnail_data = Returns False x
         \<longrightarrow> \<not> file_exists x \<and> \<not> archive_open x)
    \<and> (meshes_ready model
         \<and> \<not> ((thumbnail_data = Some True \<longrightarrow> png_ok env)
               \<and> list_all (add_mem_ok env) (written_parts fmt_f model config thumbnail_data)
               \<and> composes model
               \<and> finalize_archive_ok env)
         \<longrightarrow> (\<exists>x'. store_3mf env fmt_f exists_before model config thumbnail_data = Returns False x'
                   \<and> \<not> file_exists x' \<and> \<not> archive_open x'))
    \<and> (store_3mf env fmt_f exists_before model config thumbnail_data = Throws e x
         \<longrightarrow> (e = runtime_error ''store_3mf() requires repair()''
               \<or> e = runtime_error ''store_3mf() requires shared vertices'')
             \<and> \<not> meshes_ready model
             \<and> add_mem_ok env CONTENT_TYPES_FILE
             \<and> (thumbnail_data = Some True \<longrightarrow> png_ok env \<and> add_mem_ok env THUMBNAIL_FILE)
             \<and> add_mem_ok env RELATIONSHIPS_FILE)
    \<and> (add_mem_ok env CONTENT_TYPES_FILE
         \<and> (thumbnail_data = Some True \<longrightarrow> png_ok env \<and> add_mem_ok env THUMBNAIL_FILE)
         \<and> add_mem_ok env RELATIONSHIPS_FILE
         \<and> objects model = pre @ (p, obj) # rest
         \<and> list_all (\<lambda>po. writable_object (snd po)) pre
         \<and> instances obj \<noteq> []
         \<and> volumes obj = vpre @ v # vs
         \<and> list_all writable_volume vpre
         \<and> \<not> mesh_ready v
         \<longrightarrow> (\<exists>x'. store_3mf env fmt_f exists_before model config thumbnail_data
                     = Throws (mesh_error v) x'))
    \<and> store_3mf env fmt_f exists_before model config thumbnail_data \<noteq> Undefined"
      by (intro conjI store_true_iff[OF o] store_false_removed[OF o] store_fails[OF o]
            store_throws[OF o] store_unready[OF o] store_defined[OF o])
  qed
qed

text \<open>The theorem at a scene of one object with one instance and one volume: when the zip
  writer refuses the sidecar the store returns false and the output file is removed;
  when every step succeeds the store returns true and the file holds the five parts;
  and when the mesh of the volume is not repaired the store throws.\<close>

theorem failed_store_removes_file_witness:
  "(\<exists>x'. store_3mf sidecar_refused example_fmt_f False (one_volume_scene one_vertex_mesh) True None
            = Returns False x'
          \<and> \<not> file_exists x' \<and> \<not> archive_open x')
   \<and> store_3mf example_writer_env example_fmt_f False (one_volume_scene one_vertex_mesh) True None
       = Returns True
           \<lparr>x_errors = [], file_exists = True,
            archive_parts = [CONTENT_TYPES_FILE, RELATIONSHIPS_FILE, MODEL_FILE,
                             PRINT_CONFIG_FILE, MODEL_CONFIG_FILE],
            archive_open = False, archive_finalized = True\<rparr>
   \<and> (\<exists>x'. store_3mf example_writer_env example_fmt_f False
              (one_volume_scene (one_vertex_mesh\<lparr>repaired := False\<rparr>)) True None
            = Throws (runtime_error ''store_3mf() requires repair()'') x')"
proof -
  let ?scene = "one_volume_scene one_vertex_mesh"
  let ?bad = "one_volume_scene (one_vertex_mesh\<lparr>repaired := False\<rparr>)"
  have parts: "written_parts example_fmt_f ?scene True None
                 = [CONTENT_TYPES_FILE, RELATIONSHIPS_FILE, MODEL_FILE, PRINT_CONFIG_FILE,
                    MODEL_CONFIG_FILE]"
    by (simp add: written_parts_def one_volume_scene_def new_ModelObject_def)
  have ready: "meshes_ready ?scene"
    by (simp add: meshes_ready_def one_volume_scene_def new_ModelObject_def new_ModelVolume_def
          one_vertex_mesh_def mesh_ready_def)
  have composes: "composes ?scene"
    by (simp add: composes_def writable_object_def writable_volume_def mesh_ready_def
          one_volume_scene_def new_ModelObject_def new_ModelVolume_def one_vertex_mesh_def)
  have open1: "open_zip_writer_ok sidecar_refused"
    by (simp add: sidecar_refused_def example_writer_env_def)
  have open2: "open_zip_writer_ok example_writer_env"
    by (simp add: example_writer_env_def)
  have refused: "\<not> list_all (add_mem_ok sidecar_refused) (written_parts example_fmt_f ?scene True None)"
    unfolding parts by (simp add: sidecar_refused_def)
  have accepted: "list_all (add_mem_ok example_writer_env) (written_parts example_fmt_f ?scene True None)"
    unfolding parts by (simp add: example_writer_env_def)
  have fin: "finalize_archive_ok example_writer_env" by (simp add: example_writer_env_def)
  have first: "add_mem_ok example_writer_env CONTENT_TYPES_FILE"
      "add_mem_ok example_writer_env RELATIONSHIPS_FILE"
    by (simp_all add: example_writer_env_def)
  have objs: "objects ?bad
        = [] @ (0, new_ModelObject
               \<lparr>instances := [\<lparr>printable = True, mi_matrix = Identity\<rparr>],
                volumes := [new_ModelVolume (one_vertex_mesh\<lparr>repaired := False\<rparr>)]\<rparr>) # []"
    by (simp add: one_volume_scene_def)
  have unready: "\<not> mesh_ready (new_ModelVolume (one_vertex_mesh\<lparr>repaired := False\<rparr>))"
    by (simp add: mesh_ready_def new_ModelVolume_def)
  have err: "mesh_error (new_ModelVolume (one_vertex_mesh\<lparr>repaired := False\<rparr>))
               = runtime_error ''store_3mf() requires repair()''"
    by (simp add: mesh_error_def new_ModelVolume_def)
  note t1 = failed_store_removes_file
              [where env = sidecar_refused and fmt_f = example_fmt_f and exists_before = False
                 and model = ?scene and config = True and thumbnail_data = None,
               THEN conjunct1, THEN mp, OF open1]
  have a: "\<exists>x'. store_3mf sidecar_refused example_fmt_f False ?scene True None = Returns False x'
          \<and> \<not> file_exists x' \<and> \<not> archive_open x'"
    using t1[THEN conjunct2, THEN conjunct2, THEN conjunct1] ready refused by blast
  note t2 = failed_store_removes_file
              [where env = example_writer_env and fmt_f = example_fmt_f and exists_before = False
                 and model = ?scene and config = True and thumbnail_data = None
                 and x = "\<lparr>x_errors = [], file_exists = True,
                          archive_parts = written_parts example_fmt_f ?scene True None,
                          archive_open = False, archive_finalized = True\<rparr>",
               THEN conjunct1, THEN mp, OF open2, THEN conjunct1]
  have b: "store_3mf example_writer_env example_fmt_f False ?scene True None
       = Returns True
           \<lparr>x_errors = [], file_exists = True,
            archive_parts = written_parts example_fmt_f ?scene True None,
            archive_open = False, archive_finalized = True\<rparr>"
    using t2 accepted composes fin by simp
  note t3 = failed_store_removes_file
              [where env = example_writer_env and fmt_f = example_fmt_f and exists_before = False
                 and model = ?bad and config = True and thumbnail_data = None
                 and pre = "[]" and p = 0 and rest = "[]" and vpre = "[]" and vs = "[]"
                 and v = "new_ModelVolume (one_vertex_mesh\<lparr>repaired := False\<rparr>)"
                 and obj = "new_ModelObject
               \<lparr>instances := [\<lparr>printable = True, mi_matrix = Identity\<rparr>],
                volumes := [new_ModelVolume (one_vertex_mesh\<lparr>repaired := False\<rparr>)]\<rparr>",
               THEN conjunct1, THEN mp, OF open2]
  have c: "\<exists>x'. store_3mf example_writer_env example_fmt_f False ?bad True None
            = Throws (runtime_error ''store_3mf() requires repair()'') x'"
    using t3[THEN conjunct2, THEN conjunct2, THEN conjunct2, THEN conjunct2, THEN conjunct1]
      first objs unready
    unfolding err by simp
  show ?thesis using a b c unfolding parts by blast
qed


text \<open>Claim C6, as stated, fails: a store of a scene whose volume has a mesh that is not
  repaired does not return false. It throws \<open>std::runtime_error\<close>, and at that point the
  output file, with the two parts written so far, is still on disk and the archive
  handle is open.\<close>

theorem store_of_unrepaired_mesh_counterexample:
  "store_3mf example_writer_env example_fmt_f False
       (one_volume_scene (one_vertex_mesh\<lparr>repaired := False\<rparr>)) True None
     = Throws (runtime_error ''store_3mf() requires repair()'')
         \<lparr>x_errors = [], file_exists = True,
          archive_parts = [CONTENT_TYPES_FILE, RELATIONSHIPS_FILE], archive_open = True,
          archive_finalized = False\<rparr>"
  by (simp add: store_3mf_def save_model_to_file_impl_def example_writer_env_def
        one_volume_scene_def one_vertex_mesh_def add_content_types_file_to_archive_def
        add_relationships_file_to_archive_def add_part_def add_model_file_to_archive_def
        add_object_to_model_stream_def new_ModelObject_def new_ModelVolume_def Let_def)


subsection \<open>A scene without build item\<close>

lemma model_objects_no_instances:
  "\<forall>po \<in> set objs. instances (snd po) = []
   \<Longrightarrow> model_objects x object_id build_items objs = Returns (True, build_items) x"
proof (induction objs arbitrary: object_id)
  case Nil
  show ?case by simp
next
  case (Cons po rest)
  obtain p obj where po: "po = (p, obj)" by (cases po)
  have "instances obj = []" using Cons.prems po by simp
  then have "add_object_to_model_stream x object_id obj build_items
               = Returns (True, object_id + 0, build_items) x"
    by (simp add: add_object_to_model_stream_def)
  moreover have "model_objects x (object_id + 0) build_items rest = Returns (True, build_items) x"
    by (rule Cons.IH) (use Cons.prems in simp)
  ultimately show ?case using po by simp
qed

lemma model_file_no_instances:
  assumes "\<forall>po \<in> set (objects model). instances (snd po) = []"
  shows "add_model_file_to_archive env x model
           = Returns False
               (x_add_error (x_add_error x ''No build item found'')
                  ''Unable to add build to archive'')"
  by (simp add: add_model_file_to_archive_def model_objects_no_instances[OF assms]
        add_build_to_model_stream_def)

text \<open>Claim C9. For every scene none of whose objects has an instance: the loop over the
  objects gives no build item, the build-section writer records
  \<open>No build item found\<close> and returns false, the model-file writer adds
  \<open>Unable to add build to archive\<close> and returns false, and store returns false; when the
  archive could be opened, the output file has been removed and the archive closed, and
  when the parts written before the model file were accepted, these two errors are all
  the errors of the store.\<close>

theorem store_without_build_item_fails:
  assumes "\<forall>po \<in> set (objects model). instances (snd po) = []"
  shows "model_objects x 1 [] (objects model) = Returns (True, []) x
       \<and> add_build_to_model_stream x [] = (False, x_add_error x ''No build item found'')
       \<and> add_model_file_to_archive env x model
           = Returns False
               (x_add_error (x_add_error x ''No build item found'')
                  ''Unable to add build to archive'')
       \<and> (\<exists>x'. store_3mf env fmt_f exists_before model config thumbnail_data = Returns False x'
             \<and> (open_zip_writer_ok env \<longrightarrow> \<not> file_exists x' \<and> \<not> archive_open x')
             \<and> (open_zip_writer_ok env \<and> add_mem_ok env CONTENT_TYPES_FILE
                  \<and> (thumbnail_data = Some True \<longrightarrow> png_ok env \<and> add_mem_ok env THUMBNAIL_FILE)
                  \<and> add_mem_ok env RELATIONSHIPS_FILE
                \<longrightarrow> x_errors x' = [''No build item found'', ''Unable to add build to archive'']))"
proof (intro conjI)
  show "model_objects x 1 [] (objects model) = Returns (True, []) x"
    by (rule model_objects_no_instances[OF assms])
  show "add_build_to_model_stream x [] = (False, x_add_error x ''No build item found'')"
    by (simp add: add_build_to_model_stream_def)
  show "add_model_file_to_archive env x model
           = Returns False
               (x_add_error (x_add_error x ''No build item found'')
                  ''Unable to add build to archive'')"
    by (rule model_file_no_instances[OF assms])
  show "\<exists>x'. store_3mf env fmt_f exists_before model config thumbnail_data = Returns False x'
             \<and> (open_zip_writer_ok env \<longrightarrow> \<not> file_exists x' \<and> \<not> archive_open x')
             \<and> (open_zip_writer_ok env \<and> add_mem_ok env CONTENT_TYPES_FILE
                  \<and> (thumbnail_data = Some True \<longrightarrow> png_ok env \<and> add_mem_ok env THUMBNAIL_FILE)
                  \<and> add_mem_ok env RELATIONSHIPS_FILE
                \<longrightarrow> x_errors x' = [''No build item found'', ''Unable to add build to archive''])"
    unfolding store_3mf_def save_model_to_file_impl_def
    by (simp add: model_file_no_instances[OF assms] add_content_types_file_to_archive_def
          add_thumbnail_file_to_archive_def add_relationships_file_to_archive_def add_part_def
          close_and_remove_def x_add_error_def Let_def)
qed

text \<open>The theorem at a scene of one object with a volume and no instance.\<close>

theorem store_without_build_item_fails_witness:
  "store_3mf example_writer_env example_fmt_f False no_instance_scene True None
     = Returns False
         \<lparr>x_errors = [''No build item found'', ''Unable to add build to archive''],
          file_exists = False, archive_parts = [CONTENT_TYPES_FILE, RELATIONSHIPS_FILE],
          archive_open = False, archive_finalized = False\<rparr>"
proof -
  have none: "\<forall>po \<in> set (objects no_instance_scene). instances (snd po) = []"
    by (simp add: no_instance_scene_def new_ModelObject_def)
  have model_file: "\<And>env x. add_model_file_to_archive env x no_instance_scene
           = Returns False
               (x_add_error (x_add_error x ''No build item found'')
                  ''Unable to add build to archive'')"
    using store_without_build_item_fails[OF none] by blast
  show ?thesis
    unfolding store_3mf_def save_model_to_file_impl_def
    by (simp add: model_file add_content_types_file_to_archive_def
          add_relationships_file_to_archive_def add_part_def example_writer_env_def
          close_and_remove_def x_add_error_def Let_def)
qed


subsection \<open>The triangle ranges of the volumes\<close>

text \<open>Within a valid range every read of the triangles and, when the vertex indices are
  in range, of the vertices is defined, so that the mesh of the volume is cut out with
  \<open>last - first + 1\<close> facets.\<close>

lemma unat_of_nat_le: "unat (of_nat n :: 32 word) \<le> n"
  by (simp add: unat_of_nat)

lemma all_defined_map:
  "\<forall>x \<in> set xs. f x \<noteq> None
   \<Longrightarrow> \<exists>ys. all_defined (map f xs) = Some ys \<and> length ys = length xs"
  by (induction xs) auto

lemma vertex_read:
  assumes "indices_in_range geo" and "t \<in> set (triangles geo)" and "k \<le> 2"
  shows "vector_at (vertices geo) (unat (t * 3 + of_nat k)) \<noteq> None"
proof -
  have "t * 3 + of_nat k = (of_nat (unat t * 3 + k) :: 32 word)" by simp
  then have "unat (t * 3 + of_nat k) \<le> unat t * 3 + k"
    using unat_of_nat_le[of "unat t * 3 + k"] by simp
  moreover have "3 * unat t + 2 < length (vertices geo)"
    using assms(1,2) by (simp add: indices_in_range_def list_all_iff)
  ultimately show ?thesis using assms(3) by (simp add: vector_at_def)
qed

lemma facet_vertex_defined:
  assumes inv: "indices_in_range geo"
      and idx: "unat (src_start_id + ii + v) < length (triangles geo)"
  shows "facet_vertex s geo inv_matrix src_start_id ii v \<noteq> None"
proof -
  let ?t = "triangles geo ! unat (src_start_id + ii + v)"
  have t: "?t \<in> set (triangles geo)" using idx by simp
  obtain x where x: "vector_at (vertices geo) (unat (?t * 3 + 0)) = Some x"
    using vertex_read[OF inv t, of 0] by auto
  obtain y where y: "vector_at (vertices geo) (unat (?t * 3 + 1)) = Some y"
    using vertex_read[OF inv t, of 1] by auto
  obtain z where z: "vector_at (vertices geo) (unat (?t * 3 + 2)) = Some z"
    using vertex_read[OF inv t, of 2] by auto
  have "vector_at (triangles geo) (unat (src_start_id + ii + v)) = Some ?t"
    using idx by (simp add: vector_at_def)
  then show ?thesis using x y z by (simp add: facet_vertex_def Let_def)
qed

lemma range_count:
  fixes first_id last_id :: "32 word"
  assumes "first_id \<le> last_id" and "unat last_id < n" and "n < 2 ^ 32"
  shows "unat (last_id - first_id + 1) = unat last_id - unat first_id + 1"
proof -
  have le: "unat first_id \<le> unat last_id" using assms(1) by (simp add: word_le_nat_alt)
  have sub: "unat (last_id - first_id) = unat last_id - unat first_id"
    using assms(1) by (simp add: unat_sub)
  have "unat (last_id - first_id) + unat (1 :: 32 word) < 2 ^ LENGTH(32)"
    using sub assms(2,3) by simp
  then have "unat (last_id - first_id + 1) = unat (last_id - first_id) + unat (1 :: 32 word)"
    by (simp only: unat_add_lem[THEN iffD1])
  then show ?thesis using sub by simp
qed

lemma triangle_read:
  fixes first_id last_id :: "32 word"
  assumes "first_id \<le> last_id" and "unat last_id < n" and "3 * n \<le> len" and "n < 2 ^ 32"
      and "i < unat (last_id - first_id + 1)" and "k \<le> 2"
  shows "unat (first_id * 3 + of_nat i * 3 + of_nat k) < len"
proof -
  have cnt: "unat (last_id - first_id + 1) = unat last_id - unat first_id + 1"
    by (rule range_count[OF assms(1,2,4)])
  have le: "unat first_id \<le> unat last_id" using assms(1) by (simp add: word_le_nat_alt)
  have "unat first_id + i \<le> unat last_id" using cnt assms(5) le by simp
  then have bound: "unat first_id * 3 + i * 3 + k < 3 * n" using assms(2,6) by simp
  have "first_id * 3 + of_nat i * 3 + of_nat k
          = (of_nat (unat first_id * 3 + i * 3 + k) :: 32 word)" by simp
  then have "unat (first_id * 3 + of_nat i * 3 + of_nat k) \<le> unat first_id * 3 + i * 3 + k"
    using unat_of_nat_le[of "unat first_id * 3 + i * 3 + k"] by simp
  then show ?thesis using bound assms(3) by simp
qed

lemma facet_at_defined:
  assumes inv: "indices_in_range geo"
      and "first_id \<le> last_id" and "unat last_id < n" and "3 * n \<le> length (triangles geo)"
      and "n < 2 ^ 32" and "i < unat (last_id - first_id + 1)"
  shows "facet_at s geo inv_matrix (first_id * 3) i \<noteq> None"
proof -
  note r = triangle_read[OF assms(2,3,4,5,6)]
  have "facet_vertex s geo inv_matrix (first_id * 3) (of_nat i * 3) 0 \<noteq> None"
    using facet_vertex_defined[OF inv, of "first_id * 3" "of_nat i * 3" 0] r[of 0] by simp
  moreover have "facet_vertex s geo inv_matrix (first_id * 3) (of_nat i * 3) 1 \<noteq> None"
    using facet_vertex_defined[OF inv, of "first_id * 3" "of_nat i * 3" 1] r[of 1] by simp
  moreover have "facet_vertex s geo inv_matrix (first_id * 3) (of_nat i * 3) 2 \<noteq> None"
    using facet_vertex_defined[OF inv, of "first_id * 3" "of_nat i * 3" 2] r[of 2] by simp
  ultimately show ?thesis by (auto simp: facet_at_def Let_def)
qed

lemma cut_mesh_defined:
  assumes inv: "indices_in_range geo"
      and "first_triangle_id v \<le> last_triangle_id v" and "unat (last_triangle_id v) < n"
      and "3 * n \<le> length (triangles geo)" and "n < 2 ^ 32"
  shows "\<exists>mesh. cut_mesh ext s geo v = Some mesh
           \<and> number_of_facets mesh = last_triangle_id v - first_triangle_id v + 1
           \<and> length (facet_start mesh) = triangle_count v"
proof -
  let ?inv = "matrix_inverse ext (volume_transform ext s v)"
  let ?count = "last_triangle_id v - first_triangle_id v + 1"
  have "\<forall>i \<in> set [0..<unat ?count]. facet_at s geo ?inv (first_triangle_id v * 3) i \<noteq> None"
    using facet_at_defined[OF inv assms(2,3,4,5)] by simp
  from all_defined_map[OF this]
  obtain facets where
    "all_defined (map (facet_at s geo ?inv (first_triangle_id v * 3)) [0..<unat ?count]) = Some facets"
    and "length facets = unat ?count" by auto
  then show ?thesis by (simp add: cut_mesh_def Let_def triangle_count_def)
qed

lemma loop_valid:
  assumes inv: "indices_in_range geo"
      and n: "3 * n \<le> length (triangles geo)" "n < 2 ^ 32" "unat cnt = n"
      and valid: "\<forall>v \<in> set vols. first_triangle_id v \<le> last_triangle_id v
                     \<and> unat (last_triangle_id v) < n"
  shows "\<exists>meshes.
           list_all2 (\<lambda>v mesh. cut_mesh ext s geo v = Some mesh
                        \<and> unat (number_of_facets mesh) = triangle_count v
                        \<and> length (facet_start mesh) = triangle_count v) vols meshes
           \<and> generate_volumes_loop ext geo cnt (s, object) vols
               = Returns True
                   (s, object\<lparr>volumes := volumes object @ map2 (finish_volume ext s) vols meshes\<rparr>)"
  using valid
proof (induction vols arbitrary: object)
  case Nil
  show ?case by simp
next
  case (Cons v rest)
  have v: "first_triangle_id v \<le> last_triangle_id v" "unat (last_triangle_id v) < n"
    using Cons.prems by simp_all
  have check: "\<not> (cnt \<le> first_triangle_id v \<or> cnt \<le> last_triangle_id v
                    \<or> last_triangle_id v < first_triangle_id v)"
    using v n(3) by (auto simp: word_le_nat_alt word_less_nat_alt)
  obtain mesh where mesh: "cut_mesh ext s geo v = Some mesh"
      "number_of_facets mesh = last_triangle_id v - first_triangle_id v + 1"
      "length (facet_start mesh) = triangle_count v"
    using cut_mesh_defined[OF inv v n(1,2)] by blast
  let ?object = "object\<lparr>volumes := volumes object @ [finish_volume ext s v mesh]\<rparr>"
  have "\<forall>v \<in> set rest. first_triangle_id v \<le> last_triangle_id v \<and> unat (last_triangle_id v) < n"
    using Cons.prems by simp
  from Cons.IH[OF this, of ?object]
  obtain meshes where meshes:
    "list_all2 (\<lambda>v mesh. cut_mesh ext s geo v = Some mesh
                        \<and> unat (number_of_facets mesh) = triangle_count v
                        \<and> length (facet_start mesh) = triangle_count v) rest meshes"
    "generate_volumes_loop ext geo cnt (s, ?object) rest
       = Returns True
           (s, ?object\<lparr>volumes := volumes ?object @ map2 (finish_volume ext s) rest meshes\<rparr>)"
    by blast
  have step: "generate_volumes_loop ext geo cnt (s, object) (v # rest)
                = generate_volumes_loop ext geo cnt (s, ?object) rest"
    using check mesh(1) by (simp add: make_volume_def)
  have "list_all2 (\<lambda>v mesh. cut_mesh ext s geo v = Some mesh
                        \<and> unat (number_of_facets mesh) = triangle_count v
                        \<and> length (facet_start mesh) = triangle_count v) (v # rest) (mesh # meshes)"
    using mesh meshes(1) by (simp add: triangle_count_def)
  moreover have "generate_volumes_loop ext geo cnt (s, object) (v # rest)
               = Returns True
                   (s, object\<lparr>volumes := volumes object
                                  @ map2 (finish_volume ext s) (v # rest) (mesh # meshes)\<rparr>)"
    unfolding step meshes(2) by simp
  ultimately show ?case by blast
qed

lemma loop_invalid:
  assumes inv: "indices_in_range geo"
      and n: "3 * n \<le> length (triangles geo)" "n < 2 ^ 32" "unat cnt = n"
      and invalid: "\<exists>v \<in> set vols. \<not> (first_triangle_id v \<le> last_triangle_id v
                                       \<and> unat (last_triangle_id v) < n)"
  shows "\<exists>object'. generate_volumes_loop ext geo cnt (s, object) vols
                      = Returns False (add_error s ''Found invalid triangle id'', object')"
  using invalid
proof (induction vols arbitrary: object)
  case Nil
  then show ?case by simp
next
  case (Cons v rest)
  show ?case
  proof (cases "first_triangle_id v \<le> last_triangle_id v \<and> unat (last_triangle_id v) < n")
    case False
    then have "cnt \<le> first_triangle_id v \<or> cnt \<le> last_triangle_id v
                    \<or> last_triangle_id v < first_triangle_id v"
      using n(3) by (auto simp: word_le_nat_alt word_less_nat_alt)
    then show ?thesis by auto
  next
    case True
    then have v: "first_triangle_id v \<le> last_triangle_id v" "unat (last_triangle_id v) < n"
      by simp_all
    have check: "\<not> (cnt \<le> first_triangle_id v \<or> cnt \<le> last_triangle_id v
                    \<or> last_triangle_id v < first_triangle_id v)"
      using v n(3) by (auto simp: word_le_nat_alt word_less_nat_alt)
    obtain mesh where mesh: "cut_mesh ext s geo v = Some mesh"
      using cut_mesh_defined[OF inv v n(1,2)] by blast
    let ?object = "object\<lparr>volumes := volumes object @ [finish_volume ext s v mesh]\<rparr>"
    have step: "generate_volumes_loop ext geo cnt (s, object) (v # rest)
                = generate_volumes_loop ext geo cnt (s, ?object) rest"
      using check mesh by (simp add: make_volume_def)
    have "\<exists>v \<in> set rest. \<not> (first_triangle_id v \<le> last_triangle_id v
                             \<and> unat (last_triangle_id v) < n)"
      using Cons.prems True by auto
    from Cons.IH[OF this, of ?object] show ?thesis unfolding step .
  qed
qed

lemma card_range_set:
  assumes "first_triangle_id v \<le> last_triangle_id v" and "unat (last_triangle_id v) < n"
      and "n < 2 ^ 32"
  shows "card (range_set v) = triangle_count v"
proof -
  have "unat (first_triangle_id v) \<le> unat (last_triangle_id v)"
    using assms(1) by (simp add: word_le_nat_alt)
  then show ?thesis
    using range_count[OF assms] by (simp add: range_set_def triangle_count_def)
qed

lemma sum_of_ranges:
  assumes "\<forall>v \<in> set vols. first_triangle_id v \<le> last_triangle_id v
                     \<and> unat (last_triangle_id v) < n"
      and "n < 2 ^ 32" and "disjoint_ranges vols"
  shows "sum_list (map triangle_count vols) = card (\<Union>v \<in> set vols. range_set v)"
  using assms(1,3)
proof (induction vols)
  case Nil
  show ?case by simp
next
  case (Cons v rest)
  have fin: "finite (range_set v)" "finite (\<Union>v \<in> set rest. range_set v)"
    by (simp_all add: range_set_def)
  have disj: "range_set v \<inter> (\<Union>v \<in> set rest. range_set v) = {}"
    using Cons.prems(2) by simp
  have "card (\<Union>v \<in> set (v # rest). range_set v)
          = card (range_set v) + card (\<Union>v \<in> set rest. range_set v)"
    using card_Un_disjoint[OF fin disj] by simp
  moreover have "card (range_set v) = triangle_count v"
    using card_range_set[of v n] Cons.prems(1) assms(2) by simp
  moreover have "sum_list (map triangle_count rest) = card (\<Union>v \<in> set rest. range_set v)"
    using Cons.IH Cons.prems by simp
  ultimately show ?case by simp
qed

lemma geo_tri_count:
  assumes "length (triangles geo) < 2 ^ 32"
  shows "unat ((of_nat (length (triangles geo)) :: 32 word) div 3) = length (triangles geo) div 3"
proof -
  have "unat (of_nat (length (triangles geo)) :: 32 word) = length (triangles geo)"
    using assms by (simp add: unat_of_nat)
  then show ?thesis by (simp add: unat_div)
qed

text \<open>The mesh of a produced volume is what \<open>repair\<close> makes of the mesh cut out of the
  geometry: the metadata of the volume do not touch it.\<close>

lemma apply_volume_metadata_mesh:
  "mv_mesh (apply_volume_metadata ext volume metadata) = mv_mesh volume"
  by (simp add: apply_volume_metadata_def Let_def)

lemma fold_volume_metadata_mesh:
  "mv_mesh (foldl (apply_volume_metadata ext) volume ms) = mv_mesh volume"
  by (induction ms arbitrary: volume) (simp_all add: apply_volume_metadata_mesh)

lemma finish_volume_mesh:
  "mv_mesh (finish_volume ext s volume_data mesh) = mesh_repair ext mesh"
  by (simp add: finish_volume_def Let_def fold_volume_metadata_mesh new_ModelVolume_def)

lemma produced_meshes:
  "length vols = length meshes
   \<Longrightarrow> map mv_mesh (map2 (finish_volume ext s) vols meshes) = map (mesh_repair ext) meshes"
  by (induction vols meshes rule: list_induct2) (simp_all add: finish_volume_mesh)

lemma produced_counts:
  assumes "list_all2 (\<lambda>v mesh. cut_mesh ext s geo v = Some mesh
                        \<and> unat (number_of_facets mesh) = triangle_count v
                        \<and> length (facet_start mesh) = triangle_count v) vols meshes"
      and "\<forall>m. number_of_facets (mesh_repair ext m) = number_of_facets m"
  shows "map (\<lambda>volume. unat (number_of_facets (mv_mesh volume)))
           (map2 (finish_volume ext s) vols meshes) = map triangle_count vols"
  using assms(1)
  by (induction vols meshes rule: list_all2_induct) (simp_all add: finish_volume_mesh assms(2))

text \<open>Claim C4. For every object without volumes and every geometry of \<open>N\<close> triangles whose
  vertex indices are in range: when the ranges of the sidecar volumes partition
  \<open>0 .. N - 1\<close> (each range is ordered, the ranges are pairwise disjoint and together
  they cover the triangles), \<open>_generate_volumes\<close> returns true and the object gets one
  volume per entry, in order; the mesh of each produced volume is what \<open>repair\<close> makes
  of the mesh cut out of the geometry, which has \<open>last - first + 1\<close> facets; and when
  \<open>repair\<close> (which is outside this file) keeps the number of facets, the triangle
  counts of the produced volumes are \<open>last - first + 1\<close> each and sum to \<open>N\<close>. When
  some range has \<open>first > last\<close>, or \<open>first\<close> or \<open>last\<close> not less than \<open>N\<close>, it
  records \<open>Found invalid triangle id\<close> and returns false.\<close>

theorem volume_ranges_partition_triangles:
  assumes "indices_in_range geo" and "length (triangles geo) < 2 ^ 32"
      and "volumes object = []"
  shows "((\<forall>v \<in> set vols. first_triangle_id v \<le> last_triangle_id v)
          \<and> disjoint_ranges vols
          \<and> (\<Union>v \<in> set vols. range_set v) = {0 ..< length (triangles geo) div 3}
         \<longrightarrow> (\<exists>object' meshes.
                generate_volumes ext s object geo vols = Returns True (s, object')
                \<and> object' = object\<lparr>volumes := map2 (finish_volume ext s) vols meshes\<rparr>
                \<and> list_all2 (\<lambda>v mesh. cut_mesh ext s geo v = Some mesh
                                \<and> unat (number_of_facets mesh) = triangle_count v
                                \<and> length (facet_start mesh) = triangle_count v) vols meshes
                \<and> map mv_mesh (volumes object') = map (mesh_repair ext) meshes
                \<and> ((\<forall>m. number_of_facets (mesh_repair ext m) = number_of_facets m)
                    \<longrightarrow> map (\<lambda>volume. unat (number_of_facets (mv_mesh volume))) (volumes object')
                          = map triangle_count vols
                        \<and> (\<Sum>volume \<leftarrow> volumes object'. unat (number_of_facets (mv_mesh volume)))
                          = length (triangles geo) div 3)))
       \<and> ((\<exists>v \<in> set vols. last_triangle_id v < first_triangle_id v
                \<or> length (triangles geo) div 3 \<le> unat (first_triangle_id v)
                \<or> length (triangles geo) div 3 \<le> unat (last_triangle_id v))
         \<longrightarrow> (\<exists>object'. generate_volumes ext s object geo vols
                  = Returns False (add_error s ''Found invalid triangle id'', object')))"
proof (intro conjI impI)
  let ?n = "length (triangles geo) div 3"
  let ?cnt = "(of_nat (length (triangles geo)) :: 32 word) div 3"
  let ?P = "\<lambda>v mesh. cut_mesh ext s geo v = Some mesh
                        \<and> unat (number_of_facets mesh) = triangle_count v
                        \<and> length (facet_start mesh) = triangle_count v"
  have n: "3 * ?n \<le> length (triangles geo)" "?n < 2 ^ 32" "unat ?cnt = ?n"
    using assms(2) geo_tri_count[OF assms(2)] by simp_all
  have gen: "generate_volumes ext s object geo vols
               = generate_volumes_loop ext geo ?cnt (s, object) vols"
    using assms(3) by (simp add: generate_volumes_def)
  {
    assume part: "(\<forall>v \<in> set vols. first_triangle_id v \<le> last_triangle_id v)
          \<and> disjoint_ranges vols
          \<and> (\<Union>v \<in> set vols. range_set v) = {0 ..< ?n}"
    have valid: "\<forall>v \<in> set vols. first_triangle_id v \<le> last_triangle_id v
                     \<and> unat (last_triangle_id v) < ?n"
    proof
      fix v assume v: "v \<in> set vols"
      then have le: "first_triangle_id v \<le> last_triangle_id v" using part by simp
      then have "unat (last_triangle_id v) \<in> range_set v"
        by (simp add: range_set_def word_le_nat_alt)
      then have "unat (last_triangle_id v) \<in> (\<Union>v \<in> set vols. range_set v)" using v by blast
      then have "unat (last_triangle_id v) < ?n" using part by simp
      then show "first_triangle_id v \<le> last_triangle_id v \<and> unat (last_triangle_id v) < ?n"
        using le by simp
    qed
    from loop_valid[OF assms(1) n valid, of ext s object]
    obtain meshes where meshes: "list_all2 ?P vols meshes"
      and loop: "generate_volumes_loop ext geo ?cnt (s, object) vols
               = Returns True
                   (s, object\<lparr>volumes := volumes object @ map2 (finish_volume ext s) vols meshes\<rparr>)"
      by blast
    let ?object = "object\<lparr>volumes := map2 (finish_volume ext s) vols meshes\<rparr>"
    have len: "length vols = length meshes" using meshes by (rule list_all2_lengthD)
    have result: "generate_volumes ext s object geo vols = Returns True (s, ?object)"
      unfolding gen loop using assms(3) by simp
    have produced: "map mv_mesh (volumes ?object) = map (mesh_repair ext) meshes"
      using produced_meshes[OF len] by simp
    have total: "sum_list (map triangle_count vols) = ?n"
      using sum_of_ranges[OF valid n(2)] part by simp
    have counts: "(\<forall>m. number_of_facets (mesh_repair ext m) = number_of_facets m)
                  \<longrightarrow> map (\<lambda>volume. unat (number_of_facets (mv_mesh volume))) (volumes ?object)
                        = map triangle_count vols
                      \<and> (\<Sum>volume \<leftarrow> volumes ?object. unat (number_of_facets (mv_mesh volume))) = ?n"
    proof
      assume keep: "\<forall>m. number_of_facets (mesh_repair ext m) = number_of_facets m"
      have c: "map (\<lambda>volume. unat (number_of_facets (mv_mesh volume))) (volumes ?object)
                 = map triangle_count vols"
        using produced_counts[OF meshes keep] by simp
      show "map (\<lambda>volume. unat (number_of_facets (mv_mesh volume))) (volumes ?object)
                        = map triangle_count vols
                      \<and> (\<Sum>volume \<leftarrow> volumes ?object. unat (number_of_facets (mv_mesh volume))) = ?n"
        using c total by simp
    qed
    show "\<exists>object' meshes.
                generate_volumes ext s object geo vols = Returns True (s, object')
                \<and> object' = object\<lparr>volumes := map2 (finish_volume ext s) vols meshes\<rparr>
                \<and> list_all2 ?P vols meshes
                \<and> map mv_mesh (volumes object') = map (mesh_repair ext) meshes
                \<and> ((\<forall>m. number_of_facets (mesh_repair ext m) = number_of_facets m)
                    \<longrightarrow> map (\<lambda>volume. unat (number_of_facets (mv_mesh volume))) (volumes object')
                          = map triangle_count vols
                        \<and> (\<Sum>volume \<leftarrow> volumes object'. unat (number_of_facets (mv_mesh volume)))
                          = ?n)"
      using result meshes produced counts by blast
  next
    assume "\<exists>v \<in> set vols. last_triangle_id v < first_triangle_id v
                \<or> ?n \<le> unat (first_triangle_id v)
                \<or> ?n \<le> unat (last_triangle_id v)"
    then obtain v where v: "v \<in> set vols"
        "last_triangle_id v < first_triangle_id v
           \<or> ?n \<le> unat (first_triangle_id v) \<or> ?n \<le> unat (last_triangle_id v)"
      by blast
    have "\<not> (first_triangle_id v \<le> last_triangle_id v \<and> unat (last_triangle_id v) < ?n)"
      using v(2) by (auto simp: word_le_nat_alt word_less_nat_alt)
    then have "\<exists>v \<in> set vols. \<not> (first_triangle_id v \<le> last_triangle_id v
                                       \<and> unat (last_triangle_id v) < ?n)"
      using v(1) by blast
    from loop_invalid[OF assms(1) n this, of ext s object]
    show "\<exists>object'. generate_volumes ext s object geo vols
                  = Returns False (add_error s ''Found invalid triangle id'', object')"
      unfolding gen .
  }
qed

text \<open>The theorem at three faces of a tetrahedron: the ranges 0 to 1 and 2 to 2 give
  two volumes of two and one triangles, three in all; with the ranges 0 to 1 and 2 to 3
  the second is rejected.\<close>

theorem volume_ranges_partition_triangles_witness:
  "(\<exists>object'.
      generate_volumes example_externals (Importer_reset empty_Model True) new_ModelObject
          tetrahedron_faces [volume_of_range 0 1, volume_of_range 2 2]
        = Returns True (Importer_reset empty_Model True, object')
      \<and> map (\<lambda>volume. unat (number_of_facets (mv_mesh volume))) (volumes object') = [2, 1]
      \<and> (\<Sum>volume \<leftarrow> volumes object'. unat (number_of_facets (mv_mesh volume))) = 3)
   \<and> (\<exists>object'.
        generate_volumes example_externals (Importer_reset empty_Model True) new_ModelObject
            tetrahedron_faces [volume_of_range 0 1, volume_of_range 2 3]
          = Returns False
              (add_error (Importer_reset empty_Model True) ''Found invalid triangle id'', object'))"
proof -
  have inv: "indices_in_range tetrahedron_faces"
    by (simp add: indices_in_range_def tetrahedron_faces_def)
  have len: "length (triangles tetrahedron_faces) < 2 ^ 32"
    by (simp add: tetrahedron_faces_def)
  have nv: "volumes new_ModelObject = []"
    by (simp add: new_ModelObject_def)
  have n: "length (triangles tetrahedron_faces) div 3 = 3"
    by (simp add: tetrahedron_faces_def)
  have ordered: "\<forall>v \<in> set [volume_of_range 0 1, volume_of_range 2 2].
                   first_triangle_id v \<le> last_triangle_id v"
    by (simp add: volume_of_range_def)
  have disjoint: "disjoint_ranges [volume_of_range 0 1, volume_of_range 2 2]"
    by (simp add: volume_of_range_def range_set_def)
  have cover: "(\<Union>v \<in> set [volume_of_range 0 1, volume_of_range 2 2]. range_set v)
                 = {0 ..< length (triangles tetrahedron_faces) div 3}"
    unfolding n by (auto simp: volume_of_range_def range_set_def)
  have invalid: "\<exists>v \<in> set [volume_of_range 0 1, volume_of_range 2 3].
                   last_triangle_id v < first_triangle_id v
                   \<or> length (triangles tetrahedron_faces) div 3 \<le> unat (first_triangle_id v)
                   \<or> length (triangles tetrahedron_faces) div 3 \<le> unat (last_triangle_id v)"
    unfolding n by (simp add: volume_of_range_def)
  have keep: "\<forall>m. number_of_facets (mesh_repair example_externals m) = number_of_facets m"
    by (simp add: example_externals_def)
  have counts: "map triangle_count [volume_of_range 0 1, volume_of_range 2 2] = [2, 1]"
    by (simp add: triangle_count_def volume_of_range_def)
  note valid_case =
    volume_ranges_partition_triangles
      [OF inv len nv, of "[volume_of_range 0 1, volume_of_range 2 2]" example_externals
         "Importer_reset empty_Model True", THEN conjunct1, rule_format,
       OF conjI[OF ordered conjI[OF disjoint cover]]]
  note invalid_case =
    volume_ranges_partition_triangles
      [OF inv len nv, of "[volume_of_range 0 1, volume_of_range 2 3]" example_externals
         "Importer_reset empty_Model True", THEN conjunct2, rule_format, OF invalid]
  have "\<exists>object'.
      generate_volumes example_externals (Importer_reset empty_Model True) new_ModelObject
          tetrahedron_faces [volume_of_range 0 1, volume_of_range 2 2]
        = Returns True (Importer_reset empty_Model True, object')
      \<and> map (\<lambda>volume. unat (number_of_facets (mv_mesh volume))) (volumes object') = [2, 1]
      \<and> (\<Sum>volume \<leftarrow> volumes object'. unat (number_of_facets (mv_mesh volume))) = 3"
  proof -
    from valid_case[unfolded counts n] obtain object' where
      r: "generate_volumes example_externals (Importer_reset empty_Model True) new_ModelObject
          tetrahedron_faces [volume_of_range 0 1, volume_of_range 2 2]
        = Returns True (Importer_reset empty_Model True, object')"
      and c: "(\<forall>m. number_of_facets (mesh_repair example_externals m) = number_of_facets m)
               \<longrightarrow> map (\<lambda>volume. unat (number_of_facets (mv_mesh volume))) (volumes object') = [2, 1]
                 \<and> (\<Sum>volume \<leftarrow> volumes object'. unat (number_of_facets (mv_mesh volume))) = 3"
      by (elim exE conjE) iprover
    have "map (\<lambda>volume. unat (number_of_facets (mv_mesh volume))) (volumes object') = [2, 1]
          \<and> (\<Sum>volume \<leftarrow> volumes object'. unat (number_of_facets (mv_mesh volume))) = 3"
      using c keep by (rule mp)
    then show ?thesis using r by (intro exI[of _ object']) simp
  qed
  then show ?thesis using invalid_case by (rule conjI)
qed


subsection \<open>The matrix of a volume through the sidecar\<close>

text \<open>What the writer emits for the volume moved by 1234.5625: the vertices in full, the
  matrix with six digits; and what the reader gets from these texts.\<close>

lemma to_string_digits:
  "to_string 0 = ''0''" "to_string 1 = ''1''" "to_string 2 = ''2''"
  by code_simp+

lemma to_string_two_digits: "to_string 10 = ''10''" "to_string 11 = ''11''"
  by code_simp+

lemma shifted_vertex_attributes:
  "vertex_attributes example_stream_out shifted_triangle =
     [[(''x'', ''1234.5625''), (''y'', ''0''), (''z'', ''0'')],
      [(''x'', ''1235.5625''), (''y'', ''0''), (''z'', ''0'')],
      [(''x'', ''1234.5625''), (''y'', ''1''), (''z'', ''0'')]]"
  by (simp add: vertex_attributes_def shifted_triangle_def new_ModelVolume_def triangle_mesh_def
        transform_point_def coeff_def example_stream_out_def FLOAT_MAX_DIGITS10_def
        to_string_digits to_string_1)

lemma shifted_triangle_attributes:
  "triangle_attributes 0 shifted_triangle = [[(''v1'', ''0''), (''v2'', ''1''), (''v3'', ''2'')]]"
  by (simp add: triangle_attributes_def shifted_triangle_def new_ModelVolume_def triangle_mesh_def
        to_string_digits to_string_1)

lemma shifted_matrix_value:
  "matrix_value example_stream_out (mv_matrix shifted_triangle)
     = ''1 0 0 1234.56 0 1 0 0 0 0 1 0 0 0 0 1''"
  by (simp add: matrix_value_def shifted_triangle_def new_ModelVolume_def coeff_def
        example_stream_out_def DEFAULT_PRECISION_def to_string_digits to_string_1 upt_rec)

lemma atof_decimal_values:
  "atof_decimal ''0'' = 0" "atof_decimal ''1'' = 1"
  "atof_decimal ''1234.56'' = 123456 / 100"
  "atof_decimal ''1234.5625'' = 12345625 / 10000"
  "atof_decimal ''1235.5625'' = 12355625 / 10000"
  by (simp_all add: atof_decimal_def atoi_eval)

lemma matrix_read:
  "matrix_of_sixteen atof_decimal ''1 0 0 1234.56 0 1 0 0 0 0 1 0 0 0 0 1''
     = [[1, 0, 0, 123456 / 100], [0, 1, 0, 0], [0, 0, 1, 0], [0, 0, 0, 1]]"
  by (simp add: matrix_of_sixteen_def boost_split_compress_def atof_decimal_values)

lemma shifted_geometry:
  "geometry (m_curr_object
       (foldl (\<lambda>s attrs. snd (handle_start_triangle s attrs))
          (foldl (\<lambda>s attrs. snd (handle_start_vertex atof_decimal s attrs)) version_2_reader
             (vertex_attributes example_stream_out shifted_triangle))
          (triangle_attributes 0 shifted_triangle)))
     = \<lparr>vertices = [12345625 / 10000, 0, 0, 12355625 / 10000, 0, 0, 12345625 / 10000, 1, 0],
        triangles = [0, 1, 2]\<rparr>"
  unfolding shifted_vertex_attributes shifted_triangle_attributes
  by (simp add: handle_start_vertex_def handle_start_triangle_def get_attribute_value_float_def
        get_attribute_value_int_def atof_decimal_values atoi_eval version_2_reader_def
        Importer_reset_def CurrentObject_reset_def geometry_reset_def)

text \<open>Claim C3 fails for this volume. The writer emits the vertices multiplied by the matrix
  at nine digits, but the coefficients of the matrix at the default precision of six
  digits: the translation 1234.5625 is written \<open>1234.56\<close>. The reader multiplies the
  vertices by the inverse of the matrix it reads, so the vertex \<open>(0, 0, 0)\<close> of the
  volume comes back as \<open>(0.0025, 0, 0)\<close>, and so for the other two: the
  reconstructed vertices are not the original ones.\<close>

theorem matrix_round_trip_loses_digits:
  "map_option facet_start
       (read_back round_trip_externals example_stream_out version_2_reader shifted_triangle)
     = Some [((1 / 400, 0, 0), (401 / 400, 0, 0), (1 / 400, 1, 0))]
   \<and> facet_start (mv_mesh shifted_triangle) = [((0, 0, 0), (1, 0, 0), (0, 1, 0))]
   \<and> matrix_value example_stream_out (mv_matrix shifted_triangle)
       = ''1 0 0 1234.56 0 1 0 0 0 0 1 0 0 0 0 1''
   \<and> coeff (mv_matrix shifted_triangle) 0 3 = 12345625 / 10000"
proof -
  have ext: "ext_atof round_trip_externals = atof_decimal"
    "matrix_from_string round_trip_externals = matrix_of_sixteen atof_decimal"
    "matrix_inverse round_trip_externals = inverse_of_translation"
    by (simp_all add: round_trip_externals_def example_externals_def)
  have version: "\<And>s. m_version s = m_version version_2_reader \<Longrightarrow> 1 < m_version s"
    by (simp add: version_2_reader_def VERSION_3MF_def)
  define s2 where "s2 = foldl (\<lambda>s attrs. snd (handle_start_triangle s attrs))
          (foldl (\<lambda>s attrs. snd (handle_start_vertex atof_decimal s attrs)) version_2_reader
             (vertex_attributes example_stream_out shifted_triangle))
          (triangle_attributes 0 shifted_triangle)"
  have geo: "geometry (m_curr_object s2)
     = \<lparr>vertices = [12345625 / 10000, 0, 0, 12355625 / 10000, 0, 0, 12345625 / 10000, 1, 0],
        triangles = [0, 1, 2]\<rparr>"
    unfolding s2_def by (rule shifted_geometry)
  have v2: "1 < m_version s2"
    unfolding s2_def shifted_vertex_attributes shifted_triangle_attributes
    by (simp add: handle_start_vertex_def handle_start_triangle_def version_2_reader_def
          VERSION_3MF_def)
  have last_id: "(of_nat (length (its_indices (mv_mesh shifted_triangle))) :: 32 word) - 1 = 0"
    by (simp add: shifted_triangle_def new_ModelVolume_def triangle_mesh_def)
  have rb: "read_back round_trip_externals example_stream_out version_2_reader shifted_triangle
      = cut_mesh round_trip_externals s2
          \<lparr>vertices = [12345625 / 10000, 0, 0, 12355625 / 10000, 0, 0, 12345625 / 10000, 1, 0],
           triangles = [0, 1, 2]\<rparr>
          \<lparr>first_triangle_id = 0, last_triangle_id = 0,
           vm_metadata =
             [\<lparr>md_key = MATRIX_KEY, md_value = ''1 0 0 1234.56 0 1 0 0 0 0 1 0 0 0 0 1''\<rparr>]\<rparr>"
    unfolding read_back_def Let_def ext s2_def[symmetric] geo last_id shifted_matrix_value ..
  have inv: "matrix_inverse round_trip_externals
               (volume_transform round_trip_externals s2
                  \<lparr>first_triangle_id = 0, last_triangle_id = 0,
                   vm_metadata =
                     [\<lparr>md_key = MATRIX_KEY,
                       md_value = ''1 0 0 1234.56 0 1 0 0 0 0 1 0 0 0 0 1''\<rparr>]\<rparr>)
             = [[1, 0, 0, - (123456 / 100)], [0, 1, 0, 0], [0, 0, 1, 0], [0, 0, 0, 1]]"
    using v2 by (simp add: volume_transform_def ext matrix_read inverse_of_translation_def coeff_def)
  have "map_option facet_start
       (read_back round_trip_externals example_stream_out version_2_reader shifted_triangle)
     = Some [((1 / 400, 0, 0), (401 / 400, 0, 0), (1 / 400, 1, 0))]"
    unfolding rb cut_mesh_def Let_def inv
    using v2
    by (simp add: facet_at_def facet_vertex_def vector_at_def transform_point_def coeff_def)
  moreover have "facet_start (mv_mesh shifted_triangle) = [((0, 0, 0), (1, 0, 0), (0, 1, 0))]"
    by (simp add: shifted_triangle_def new_ModelVolume_def triangle_mesh_def)
  moreover have "coeff (mv_matrix shifted_triangle) 0 3 = 12345625 / 10000"
    by (simp add: shifted_triangle_def new_ModelVolume_def coeff_def)
  ultimately show ?thesis using shifted_matrix_value by simp
qed

text \<open>So the facets read back are not the facets of the volume.\<close>

theorem matrix_round_trip_loses_digits_witness:
  "map_option facet_start
       (read_back round_trip_externals example_stream_out version_2_reader shifted_triangle)
     \<noteq> Some (facet_start (mv_mesh shifted_triangle))"
  using matrix_round_trip_loses_digits by auto

text \<open>With a matrix whose coefficients have no more than six digits, the same round trip
  gives the vertices of the volume back.\<close>

lemma matrix_of_few_digits_round_trips:
  "map_option facet_start
       (read_back round_trip_externals example_stream_out version_2_reader moved_triangle)
     = Some (facet_start (mv_mesh moved_triangle))"
  by (simp add: read_back_def vertex_attributes_def triangle_attributes_def matrix_value_def
        moved_triangle_def new_ModelVolume_def triangle_mesh_def translation_10_def
        transform_point_def coeff_def example_stream_out_def FLOAT_MAX_DIGITS10_def
        DEFAULT_PRECISION_def to_string_digits to_string_1 to_string_two_digits upt_rec
        handle_start_vertex_def handle_start_triangle_def get_attribute_value_float_def
        get_attribute_value_int_def atof_decimal_def atoi_eval version_2_reader_def
        Importer_reset_def CurrentObject_reset_def geometry_reset_def VERSION_3MF_def
        round_trip_externals_def example_externals_def cut_mesh_def volume_transform_def
        MATRIX_KEY_def matrix_of_sixteen_def boost_split_compress_def inverse_of_translation_def
        facet_at_def facet_vertex_def vector_at_def Let_def)

end
